theory Spec2Isabelle
  imports Complex_Main
begin

section \<open>Floating-point values\<close>

text \<open>
  The arrays of pyTMST hold float64 values. A value is a finite number, one of the two
  infinities, or not-a-number. Finite values are taken as reals: rounding, overflow and
  the sign of zero are not part of the embedding, and the literal \<open>0.1\<close> is the real
  1/10. The one exception is the row offset of the scalograms, an integer that depends on
  how the quotients round: it is computed with the rounding of float64 (section
  ``Windows, offsets and the scalogram grid'').
\<close>

datatype npfloat = Num real | PInf | NInf | NaN

fun np_add :: "npfloat \<Rightarrow> npfloat \<Rightarrow> npfloat" where
  "np_add NaN y = NaN"
| "np_add x NaN = NaN"
| "np_add (Num a) (Num b) = Num (a + b)"
| "np_add (Num a) y = y"
| "np_add x (Num b) = x"
| "np_add PInf PInf = PInf"
| "np_add NInf NInf = NInf"
| "np_add PInf NInf = NaN"
| "np_add NInf PInf = NaN"

fun np_mul :: "npfloat \<Rightarrow> npfloat \<Rightarrow> npfloat" where
  "np_mul NaN y = NaN"
| "np_mul x NaN = NaN"
| "np_mul (Num a) (Num b) = Num (a * b)"
| "np_mul (Num a) PInf = (if a = 0 then NaN else if 0 < a then PInf else NInf)"
| "np_mul (Num a) NInf = (if a = 0 then NaN else if 0 < a then NInf else PInf)"
| "np_mul PInf (Num b) = (if b = 0 then NaN else if 0 < b then PInf else NInf)"
| "np_mul NInf (Num b) = (if b = 0 then NaN else if 0 < b then NInf else PInf)"
| "np_mul PInf PInf = PInf"
| "np_mul NInf NInf = PInf"
| "np_mul PInf NInf = NInf"
| "np_mul NInf PInf = NInf"

fun np_div :: "npfloat \<Rightarrow> npfloat \<Rightarrow> npfloat" where
  "np_div NaN y = NaN"
| "np_div x NaN = NaN"
| "np_div (Num a) (Num b) =
     (if b = 0 then (if a = 0 then NaN else if 0 < a then PInf else NInf) else Num (a / b))"
| "np_div (Num a) y = Num 0"
| "np_div PInf (Num b) = (if b < 0 then NInf else PInf)"
| "np_div NInf (Num b) = (if b < 0 then PInf else NInf)"
| "np_div x y = NaN"

fun np_sqrt :: "npfloat \<Rightarrow> npfloat" where
  "np_sqrt (Num a) = (if a < 0 then NaN else Num (sqrt a))"
| "np_sqrt PInf = PInf"
| "np_sqrt x = NaN"

text \<open>\<open>np.power(2, x)\<close>.\<close>

fun np_power2 :: "npfloat \<Rightarrow> npfloat" where
  "np_power2 (Num a) = Num (2 powr a)"
| "np_power2 PInf = PInf"
| "np_power2 NInf = Num 0"
| "np_power2 NaN = NaN"

text \<open>\<open>x > y\<close>; every comparison with NaN is false.\<close>

fun np_gt :: "npfloat \<Rightarrow> npfloat \<Rightarrow> bool" where
  "np_gt NaN y = False"
| "np_gt x NaN = False"
| "np_gt (Num a) (Num b) = (b < a)"
| "np_gt PInf y = (y \<noteq> PInf)"
| "np_gt x NInf = (x \<noteq> NInf)"
| "np_gt x y = False"

definition np_isnan :: "npfloat \<Rightarrow> bool" where
  "np_isnan x = (x = NaN)"

definition np_sum :: "npfloat list \<Rightarrow> npfloat" where
  "np_sum xs = foldl np_add (Num 0) xs"

text \<open>\<open>np.mean\<close> of a one-dimensional array; the mean of no values is NaN.\<close>

definition np_mean :: "npfloat list \<Rightarrow> npfloat" where
  "np_mean xs = np_div (np_sum xs) (Num (real (length xs)))"

text \<open>\<open>np.zeros((r, c))\<close>, a matrix being the list of its rows.\<close>

definition np_zeros :: "nat \<Rightarrow> nat \<Rightarrow> npfloat list list" where
  "np_zeros r c = replicate r (replicate c (Num 0))"

definition column :: "nat \<Rightarrow> npfloat list list \<Rightarrow> npfloat list" where
  "column j M = map (\<lambda>row. row ! j) M"

section \<open>Arguments, errors and results\<close>

text \<open>
  Python checks no types at the call: the signal argument may be a numpy array, a plain
  list or None, the sample rate an int, a float, a bool, a string or None.
  \<open>bool\<close> is a subclass of \<open>int\<close>, so \<open>isinstance(True, (int, float))\<close> holds.
  Arrays are one-dimensional float arrays.
\<close>

datatype signal_arg = Ndarray "npfloat list" | PyList "npfloat list" | SigNone

datatype rate_arg = PyInt int | PyFloat npfloat | PyBool bool | PyStr string | RateNone

datatype error =
    ValueError string
  | TypeError string
  | IndexError string
  | ZeroDivisionError
  | OverflowError
  | CollaboratorFailure string

fun is_ndarray :: "signal_arg \<Rightarrow> bool" where
  "is_ndarray (Ndarray x) = True"
| "is_ndarray s = False"

fun is_int_or_float :: "rate_arg \<Rightarrow> bool" where
  "is_int_or_float (PyInt i) = True"
| "is_int_or_float (PyFloat x) = True"
| "is_int_or_float (PyBool b) = True"
| "is_int_or_float r = False"

text \<open>The numeric value of a sample rate (0 for the values that have none).\<close>

fun rate_value :: "rate_arg \<Rightarrow> npfloat" where
  "rate_value (PyInt i) = Num (of_int i)"
| "rate_value (PyFloat x) = x"
| "rate_value (PyBool b) = Num (if b then 1 else 0)"
| "rate_value r = Num 0"

text \<open>\<open>fs <= 0\<close> on a numeric sample rate.\<close>

definition rate_le_zero :: "rate_arg \<Rightarrow> bool" where
  "rate_le_zero fs = (case rate_value fs of Num a \<Rightarrow> a \<le> 0 | NInf \<Rightarrow> True | PInf \<Rightarrow> False | NaN \<Rightarrow> False)"

fun array_of :: "signal_arg \<Rightarrow> npfloat list" where
  "array_of (Ndarray x) = x"
| "array_of (PyList x) = x"
| "array_of SigNone = []"

text \<open>The four namedtuples of the module.\<close>

datatype params =
    AMa_spec_params "npfloat list" "npfloat list" "npfloat list list" "npfloat list list"
      "npfloat list" "npfloat list"
  | AMa_scalogram_params "npfloat list" "npfloat list" "npfloat list list" "npfloat list list"
      "npfloat list" "npfloat list"
  | AMi_spec_params "npfloat list" "npfloat list" "npfloat list list" "npfloat list list"
      "npfloat list" "npfloat list list" "npfloat list"
  | f0M_spec_params "npfloat list" "npfloat list" "npfloat list" "npfloat list"

text \<open>A function returns a tuple of objects: arrays and, where it builds one, a namedtuple.\<close>

datatype pyobj = Arr1 "npfloat list" | Arr2 "npfloat list list" | Params params

fun is_params :: "pyobj \<Rightarrow> bool" where
  "is_params (Params p) = True"
| "is_params x = False"

section \<open>Collaborators\<close>

text \<open>
  The functions imported from \<open>utils\<close>, \<open>pyLTFAT\<close>, \<open>pyAMT\<close>, \<open>pyYIN\<close> and scipy are
  parameters of the embedding: a record of functions, each returning None where the
  collaborator raises. \<open>hilbert_envelope\<close> is \<open>np.abs(hilbert(., axis=1))\<close>.
\<close>

record collaborators =
  auditory_filterbank ::
    "npfloat list \<Rightarrow> npfloat \<Rightarrow> real \<Rightarrow> real \<Rightarrow> (npfloat list list \<times> npfloat list) option"
  hilbert_envelope :: "npfloat list list \<Rightarrow> npfloat list list option"
  define_modulation_axis :: "real \<Rightarrow> real \<Rightarrow> int \<Rightarrow> (npfloat list \<times> npfloat list) option"
  segment_into_windows ::
    "npfloat list \<Rightarrow> npfloat \<Rightarrow> npfloat \<Rightarrow> npfloat \<Rightarrow> bool \<Rightarrow> npfloat list list option"
  periodogram :: "npfloat list \<Rightarrow> npfloat \<Rightarrow> npfloat list \<Rightarrow> npfloat list option"
  lombscargle ::
    "npfloat list \<Rightarrow> npfloat list \<Rightarrow> npfloat list \<Rightarrow> (npfloat list \<times> npfloat list) option"
  remove_artifacts ::
    "npfloat list \<Rightarrow> npfloat \<Rightarrow> real \<Rightarrow> real \<Rightarrow> real \<times> real \<Rightarrow> real \<times> real \<Rightarrow> real
       \<Rightarrow> npfloat list option"
  interpmean :: "npfloat list \<Rightarrow> npfloat list \<Rightarrow> npfloat list \<Rightarrow> npfloat list option"
  aud_filt_bw :: "npfloat list \<Rightarrow> npfloat list option"
  king2019_modfilterbank_updated ::
    "npfloat list list \<Rightarrow> npfloat \<Rightarrow> real \<Rightarrow> real \<Rightarrow> int \<Rightarrow> real
       \<Rightarrow> (npfloat list list list \<times> npfloat list) option"
  mock_yin ::
    "signal_arg \<Rightarrow> npfloat \<Rightarrow> real \<Rightarrow> real \<Rightarrow> real \<Rightarrow> nat \<Rightarrow> (npfloat list \<times> npfloat list) option"

section \<open>The shared front end of the AM functions\<close>

text \<open>
  The two checks that open \<open>AMa_spectrum\<close>, \<open>AMa_scalogram\<close> and \<open>AMi_spectrum\<close>; both
  raise ValueError, with different messages.
\<close>

definition validate :: "signal_arg \<Rightarrow> rate_arg \<Rightarrow> error + (npfloat list \<times> npfloat)" where
  "validate sig fs =
     (if \<not> is_ndarray sig \<or> \<not> is_int_or_float fs then Inl (ValueError ''Invalid input types.'')
      else if rate_le_zero fs then Inl (ValueError ''fs must be a positive scalar.'')
      else Inr (array_of sig, rate_value fs))"

text \<open>\<open>np.arange(1, n + 1) / d\<close>.\<close>

definition arange_div :: "nat \<Rightarrow> npfloat \<Rightarrow> npfloat list" where
  "arange_div n d = map (\<lambda>k. np_div (Num (real k)) d) [1..<Suc n]"

text \<open>
  Indexing with a non-negative index, as in \<open>E[ichan, :]\<close>, \<open>f_spectra[ifreq]\<close> and
  \<open>windows[iwin]\<close>; the name tells which array an IndexError comes from.
\<close>

definition get_item :: "string \<Rightarrow> 'a list \<Rightarrow> nat \<Rightarrow> error + 'a" where
  "get_item name xs i = (if i < length xs then Inr (xs ! i) else Inl (IndexError name))"

section \<open>AMa_spectrum\<close>

text \<open>
  \<open>AMspec[:, ichan] = v\<close>: the value fills the column when it has one entry per row, is
  broadcast when it has a single entry, and the assignment raises otherwise.
\<close>

definition broadcast1 :: "nat \<Rightarrow> npfloat list \<Rightarrow> npfloat list" where
  "broadcast1 n v = (if length v = n then v else replicate n (hd v))"

definition set_column :: "npfloat list list \<Rightarrow> nat \<Rightarrow> npfloat list \<Rightarrow> error + npfloat list list" where
  "set_column M j v =
     (if \<not> list_all (\<lambda>row. j < length row) M then Inl (IndexError ''AMspec'')
      else if length v = length M \<or> length v = 1
      then Inr (map (\<lambda>(row, x). row[j := x]) (zip M (broadcast1 (length M) v)))
      else Inl (ValueError ''could not broadcast input array''))"

fun AMa_spectrum_channels ::
  "collaborators \<Rightarrow> npfloat list list \<Rightarrow> npfloat \<Rightarrow> npfloat list \<Rightarrow> nat list
     \<Rightarrow> npfloat list list \<Rightarrow> error + npfloat list list" where
  "AMa_spectrum_channels c E fs f_spectra [] AMspec = Inr AMspec"
| "AMa_spectrum_channels c E fs f_spectra (ichan # rest) AMspec =
     (case get_item ''E'' E ichan of Inl e \<Rightarrow> Inl e | Inr Erow \<Rightarrow>
      (case periodogram c Erow fs f_spectra of
         None \<Rightarrow> Inl (CollaboratorFailure ''periodogram'')
       | Some Pxx \<Rightarrow>
      (case set_column AMspec ichan (map (np_mul (Num 2)) Pxx) of Inl e \<Rightarrow> Inl e
       | Inr AMspec' \<Rightarrow> AMa_spectrum_channels c E fs f_spectra rest AMspec')))"

definition AMa_spectrum ::
  "collaborators \<Rightarrow> signal_arg \<Rightarrow> rate_arg \<Rightarrow> real \<Rightarrow> real \<Rightarrow> int \<Rightarrow> real \<Rightarrow> real
     \<Rightarrow> error + pyobj list" where
  "AMa_spectrum c sig fs mfmin mfmax modbank_Nmod fmin fmax =
     (case validate sig fs of Inl e \<Rightarrow> Inl e | Inr (x, fsv) \<Rightarrow>
      let t = arange_div (length x) fsv in
      (case auditory_filterbank c x fsv fmin fmax of
         None \<Rightarrow> Inl (CollaboratorFailure ''auditory_filterbank'')
       | Some (gamma_responses, fc) \<Rightarrow>
      (case hilbert_envelope c gamma_responses of
         None \<Rightarrow> Inl (CollaboratorFailure ''hilbert'')
       | Some E \<Rightarrow>
      (case define_modulation_axis c mfmin mfmax modbank_Nmod of
         None \<Rightarrow> Inl (CollaboratorFailure ''define_modulation_axis'')
       | Some (f_spectra, f_spectra_intervals) \<Rightarrow>
      let Nchan = length fc in
      (case AMa_spectrum_channels c E fsv f_spectra [0..<Nchan]
              (np_zeros (length f_spectra) Nchan) of
         Inl e \<Rightarrow> Inl e
       | Inr AMspec \<Rightarrow>
      (case aud_filt_bw c fc of
         None \<Rightarrow> Inl (CollaboratorFailure ''aud_filt_bw'')
       | Some f_bw \<Rightarrow>
         Inr [Arr2 AMspec, Arr1 fc, Arr1 f_spectra,
              Params (AMa_spec_params t f_bw gamma_responses E f_spectra
                        f_spectra_intervals)]))))))"

section \<open>Windows, offsets and the scalogram grid\<close>

text \<open>Python's \<open>round\<close> on a float: halves go to the even neighbour.\<close>

definition round_half_even :: "real \<Rightarrow> int" where
  "round_half_even a =
     (let n = \<lfloor>a\<rfloor>; d = a - of_int n
      in if d < 1 / 2 then n else if 1 / 2 < d then n + 1 else if even n then n else n + 1)"

fun py_round :: "npfloat \<Rightarrow> error + int" where
  "py_round (Num a) = Inr (round_half_even a)"
| "py_round NaN = Inl (ValueError ''cannot convert float NaN to integer'')"
| "py_round x = Inl OverflowError"

text \<open>
  The arithmetic of float64: the exact result is rounded to the nearest number with 53
  significant bits, a tie going to the even significand. With \<open>2 ^ k \<le> |x| < 2 ^ (k + 1)\<close>
  the neighbours of \<open>x\<close> are the multiples of \<open>2 ^ (k - 52)\<close>; below \<open>2 ^ -1022\<close> (the
  subnormal numbers) they are the multiples of \<open>2 ^ -1074\<close>. A result that rounds to
  \<open>2 ^ 1024\<close> or beyond is an infinity.
\<close>

definition float64_round :: "real \<Rightarrow> real" where
  "float64_round x =
     (if x = 0 then 0
      else let e = max \<lfloor>log 2 \<bar>x\<bar>\<rfloor> (- 1022) - 52
           in of_int (round_half_even (x / 2 powi e)) * 2 powi e)"

definition float64_overflow :: real where
  "float64_overflow = 2 ^ 1024"

fun np_round64 :: "npfloat \<Rightarrow> npfloat" where
  "np_round64 (Num a) =
     (let y = float64_round a
      in if float64_overflow \<le> y then PInf
         else if y \<le> - float64_overflow then NInf else Num y)"
| "np_round64 x = x"

definition f64_mul :: "npfloat \<Rightarrow> npfloat \<Rightarrow> npfloat" where
  "f64_mul x y = np_round64 (np_mul x y)"

definition f64_div :: "npfloat \<Rightarrow> npfloat \<Rightarrow> npfloat" where
  "f64_div x y = np_round64 (np_div x y)"

text \<open>The float64 that the literal \<open>0.1\<close> denotes: \<open>3602879701896397 / 2 ^ 55\<close>.\<close>

definition float_tenth :: real where
  "float_tenth = 3602879701896397 / 36028797018963968"

text \<open>
  \<open>window_NT * (1 / f_spectra[ifreq])\<close>, a numpy scalar, in float64. The operands are the
  float64 values of \<open>window_NT\<close> and of the frequency: the nearest ones, when the embedding
  gives them as reals that float64 does not have, such as 1/5 for \<open>0.2\<close>.
\<close>

definition window_length_of :: "real \<Rightarrow> npfloat \<Rightarrow> npfloat" where
  "window_length_of window_NT f =
     f64_mul (np_round64 (Num window_NT)) (f64_div (Num 1) (np_round64 f))"

text \<open>\<open>round(window_length / 2 / shift)\<close> with \<open>shift = 0.1\<close>, in float64.\<close>

definition half_window_offset :: "npfloat \<Rightarrow> error + int" where
  "half_window_offset window_length =
     py_round (f64_div (f64_div window_length (Num 2)) (Num float_tenth))"

text \<open>
  The inner loop of the sizing pass, the same in both scalograms:
  \<open>for iwin in range(n_windows): dims.append(iwin + round(window_length / 2 / shift) + 1)\<close>.
  The result lists what the loop appends.
\<close>

fun dims_windows :: "npfloat \<Rightarrow> nat list \<Rightarrow> error + int list" where
  "dims_windows window_length [] = Inr []"
| "dims_windows window_length (iwin # rest) =
     (case half_window_offset window_length of Inl e \<Rightarrow> Inl e | Inr r \<Rightarrow>
      (case dims_windows window_length rest of Inl e \<Rightarrow> Inl e
       | Inr ds \<Rightarrow> Inr ((int iwin + r + 1) # ds)))"

text \<open>\<open>max(dims)\<close> and \<open>np.max(dims)\<close>: both raise ValueError on an empty list.\<close>

definition py_max :: "int list \<Rightarrow> error + int" where
  "py_max ds = (if ds = [] then Inl (ValueError ''max() arg is an empty sequence'')
                else Inr (Max (set ds)))"

text \<open>\<open>np.zeros((dim, modbank_Nmod))\<close> with \<open>dim\<close> an integer.\<close>

definition grid_zeros :: "int \<Rightarrow> int \<Rightarrow> error + npfloat list list" where
  "grid_zeros dim' n =
     (if dim' < 0 \<or> n < 0 then Inl (ValueError ''negative dimensions are not allowed'')
      else Inr (np_zeros (nat dim') (nat n)))"

text \<open>
  \<open>G[index, col] = v\<close> with an integer row index: numpy accepts
  \<open>-len(G) <= index < len(G)\<close>, counts a negative index from the end, and raises
  IndexError otherwise.
\<close>

definition grid_row :: "int \<Rightarrow> nat \<Rightarrow> nat" where
  "grid_row index n = nat (if index < 0 then index + int n else index)"

definition grid_set :: "npfloat list list \<Rightarrow> int \<Rightarrow> nat \<Rightarrow> npfloat \<Rightarrow> error + npfloat list list" where
  "grid_set G index col v =
     (let dim' = int (length G) in
      if index < - dim' \<or> dim' \<le> index then Inl (IndexError ''grid axis 0'')
      else let k = grid_row index (length G) in
        if length (G ! k) \<le> col then Inl (IndexError ''grid axis 1'')
        else Inr (G[k := (G ! k)[col := v]]))"

text \<open>\<open>A += B\<close> on two grids of one shape, and \<open>A[A == 0] = np.nan\<close>.\<close>

definition grid_add :: "npfloat list list \<Rightarrow> npfloat list list \<Rightarrow> npfloat list list" where
  "grid_add A B = map (\<lambda>(ra, rb). map (\<lambda>(a, b). np_add a b) (zip ra rb)) (zip A B)"

definition nan_if_zero :: "npfloat \<Rightarrow> npfloat" where
  "nan_if_zero x = (if x = Num 0 then NaN else x)"

definition nan_where_zero :: "npfloat list list \<Rightarrow> npfloat list list" where
  "nan_where_zero A = map (map nan_if_zero) A"

text \<open>\<open>np.arange(1, n + 1) * shift\<close>.\<close>

definition arange_mul :: "nat \<Rightarrow> npfloat \<Rightarrow> npfloat list" where
  "arange_mul n d = map (\<lambda>k. np_mul (Num (real k)) d) [1..<Suc n]"

section \<open>AMa_scalogram\<close>

text \<open>The sizing pass (lines 70 to 79).\<close>

fun AMa_dims_freqs ::
  "collaborators \<Rightarrow> npfloat list list \<Rightarrow> nat \<Rightarrow> npfloat \<Rightarrow> real \<Rightarrow> npfloat list \<Rightarrow> nat list
     \<Rightarrow> error + int list" where
  "AMa_dims_freqs c E ichan fs window_NT f_spectra [] = Inr []"
| "AMa_dims_freqs c E ichan fs window_NT f_spectra (ifreq # rest) =
     (case get_item ''f_spectra'' f_spectra ifreq of Inl e \<Rightarrow> Inl e | Inr f \<Rightarrow>
      let window_length = window_length_of window_NT f in
      (case get_item ''E'' E ichan of Inl e \<Rightarrow> Inl e | Inr Erow \<Rightarrow>
      (case segment_into_windows c Erow fs window_length (Num (1 / 10)) True of
         None \<Rightarrow> Inl (CollaboratorFailure ''segment_into_windows'')
       | Some windows \<Rightarrow>
      (case dims_windows window_length [0..<length windows] of Inl e \<Rightarrow> Inl e | Inr ds \<Rightarrow>
      (case AMa_dims_freqs c E ichan fs window_NT f_spectra rest of Inl e \<Rightarrow> Inl e
       | Inr ds' \<Rightarrow> Inr (ds @ ds'))))))"

fun AMa_dims_channels ::
  "collaborators \<Rightarrow> npfloat list list \<Rightarrow> npfloat \<Rightarrow> real \<Rightarrow> npfloat list \<Rightarrow> int \<Rightarrow> nat list
     \<Rightarrow> error + int list" where
  "AMa_dims_channels c E fs window_NT f_spectra modbank_Nmod [] = Inr []"
| "AMa_dims_channels c E fs window_NT f_spectra modbank_Nmod (ichan # rest) =
     (case AMa_dims_freqs c E ichan fs window_NT f_spectra [0..<nat modbank_Nmod] of
        Inl e \<Rightarrow> Inl e
      | Inr ds \<Rightarrow>
      (case AMa_dims_channels c E fs window_NT f_spectra modbank_Nmod rest of Inl e \<Rightarrow> Inl e
       | Inr ds' \<Rightarrow> Inr (ds @ ds')))"

text \<open>
  The estimate of one window (lines 92 and 93): the periodogram at the two frequencies
  0.01 and \<open>f\<close>, of which twice the second value is kept.
\<close>

definition AMa_estimate :: "collaborators \<Rightarrow> npfloat list \<Rightarrow> npfloat \<Rightarrow> npfloat \<Rightarrow> error + npfloat" where
  "AMa_estimate c temp fs f =
     (case periodogram c temp fs [Num (1 / 100), f] of
        None \<Rightarrow> Inl (CollaboratorFailure ''periodogram'')
      | Some Efft \<Rightarrow>
          (case get_item ''Efft'' Efft 1 of Inl e \<Rightarrow> Inl e
           | Inr p \<Rightarrow> Inr (np_mul (Num 2) p)))"

text \<open>The fill pass (lines 82 to 98): windows, frequencies, channels.\<close>

fun AMa_fill_windows ::
  "collaborators \<Rightarrow> npfloat list list \<Rightarrow> npfloat \<Rightarrow> npfloat \<Rightarrow> npfloat \<Rightarrow> nat \<Rightarrow> nat list
     \<Rightarrow> npfloat list list \<Rightarrow> error + npfloat list list" where
  "AMa_fill_windows c windows fs f window_length ifreq [] AMspec = Inr AMspec"
| "AMa_fill_windows c windows fs f window_length ifreq (iwin # rest) AMspec =
     (case get_item ''windows'' windows iwin of Inl e \<Rightarrow> Inl e | Inr temp \<Rightarrow>
      (case AMa_estimate c temp fs f of Inl e \<Rightarrow> Inl e | Inr Efft \<Rightarrow>
      (case half_window_offset window_length of Inl e \<Rightarrow> Inl e | Inr r \<Rightarrow>
      (case grid_set AMspec (int iwin + r) ifreq Efft of Inl e \<Rightarrow> Inl e
       | Inr AMspec' \<Rightarrow>
           AMa_fill_windows c windows fs f window_length ifreq rest AMspec'))))"

text \<open>The state of the loops is the grid and the variable \<open>n_windows\<close>.\<close>

fun AMa_fill_freqs ::
  "collaborators \<Rightarrow> npfloat list list \<Rightarrow> nat \<Rightarrow> npfloat \<Rightarrow> real \<Rightarrow> npfloat list \<Rightarrow> nat list
     \<Rightarrow> npfloat list list \<times> nat \<Rightarrow> error + npfloat list list \<times> nat" where
  "AMa_fill_freqs c E ichan fs window_NT f_spectra [] st = Inr st"
| "AMa_fill_freqs c E ichan fs window_NT f_spectra (ifreq # rest) st =
     (case get_item ''f_spectra'' f_spectra ifreq of Inl e \<Rightarrow> Inl e | Inr f \<Rightarrow>
      let window_length = window_length_of window_NT f in
      (case get_item ''E'' E ichan of Inl e \<Rightarrow> Inl e | Inr Erow \<Rightarrow>
      (case segment_into_windows c Erow fs window_length (Num (1 / 10)) True of
         None \<Rightarrow> Inl (CollaboratorFailure ''segment_into_windows'')
       | Some windows \<Rightarrow>
      let n_windows = length windows in
      (case AMa_fill_windows c windows fs f window_length ifreq [0..<n_windows] (fst st) of
         Inl e \<Rightarrow> Inl e
       | Inr AMspec' \<Rightarrow>
           AMa_fill_freqs c E ichan fs window_NT f_spectra rest (AMspec', n_windows)))))"

fun AMa_fill_channels ::
  "collaborators \<Rightarrow> npfloat list list \<Rightarrow> npfloat \<Rightarrow> real \<Rightarrow> npfloat list \<Rightarrow> int \<Rightarrow> int
     \<Rightarrow> nat list \<Rightarrow> npfloat list list \<times> nat \<Rightarrow> error + npfloat list list \<times> nat" where
  "AMa_fill_channels c E fs window_NT f_spectra modbank_Nmod dim' [] st = Inr st"
| "AMa_fill_channels c E fs window_NT f_spectra modbank_Nmod dim' (ichan # rest) st =
     (case grid_zeros dim' modbank_Nmod of Inl e \<Rightarrow> Inl e | Inr zeros \<Rightarrow>
      (case AMa_fill_freqs c E ichan fs window_NT f_spectra [0..<nat modbank_Nmod]
              (zeros, snd st) of
         Inl e \<Rightarrow> Inl e
       | Inr (AMspec, n_windows) \<Rightarrow>
           AMa_fill_channels c E fs window_NT f_spectra modbank_Nmod dim' rest
             (nan_where_zero (grid_add (fst st) AMspec), n_windows)))"

text \<open>
  Line 62 computes a time axis that nothing reads before line 100 assigns \<open>t\<close> again;
  it has no effect and is left out.
  \<open>n_windows\<close> is read after the loops (line 100). The sizing pass has assigned it
  before; the fill pass assigns it again whenever \<open>dims\<close> is not empty, so the value the
  fill pass starts from is never read and is given as 0.
\<close>

definition AMa_scalogram ::
  "collaborators \<Rightarrow> signal_arg \<Rightarrow> rate_arg \<Rightarrow> real \<Rightarrow> real \<Rightarrow> real \<Rightarrow> int \<Rightarrow> real \<Rightarrow> real
     \<Rightarrow> error + pyobj list" where
  "AMa_scalogram c sig fs window_NT mfmin mfmax modbank_Nmod fmin fmax =
     (case validate sig fs of Inl e \<Rightarrow> Inl e | Inr (x, fsv) \<Rightarrow>
      (case auditory_filterbank c x fsv fmin fmax of
         None \<Rightarrow> Inl (CollaboratorFailure ''auditory_filterbank'')
       | Some (gamma_responses, fc) \<Rightarrow>
      (case hilbert_envelope c gamma_responses of
         None \<Rightarrow> Inl (CollaboratorFailure ''hilbert'')
       | Some E \<Rightarrow>
      (case define_modulation_axis c mfmin mfmax modbank_Nmod of
         None \<Rightarrow> Inl (CollaboratorFailure ''define_modulation_axis'')
       | Some (f_spectra, f_spectra_intervals) \<Rightarrow>
      let Nchan = length fc in
      (case AMa_dims_channels c E fsv window_NT f_spectra modbank_Nmod [0..<Nchan] of
         Inl e \<Rightarrow> Inl e
       | Inr dims \<Rightarrow>
      (case py_max dims of Inl e \<Rightarrow> Inl e | Inr dim' \<Rightarrow>
      (case grid_zeros dim' modbank_Nmod of Inl e \<Rightarrow> Inl e | Inr zeros \<Rightarrow>
      (case AMa_fill_channels c E fsv window_NT f_spectra modbank_Nmod dim' [0..<Nchan]
              (zeros, 0) of
         Inl e \<Rightarrow> Inl e
       | Inr (AMsgram, n_windows) \<Rightarrow>
      let t = arange_mul n_windows (Num (1 / 10)) in
      (case aud_filt_bw c fc of
         None \<Rightarrow> Inl (CollaboratorFailure ''aud_filt_bw'')
       | Some f_bw \<Rightarrow>
         Inr [Arr2 AMsgram, Arr1 fc, Arr1 f_spectra,
              Params (AMa_scalogram_params t f_bw gamma_responses E f_spectra fc)])))))))))"

section \<open>AMi_spectrum\<close>

text \<open>
  Shapes and numpy broadcasting of two matrices: two extents are compatible when they are
  equal or one of them is 1. A matrix with no row has no column either (the list of rows
  cannot tell; arrays with an extent of 0 are not the concern here).
\<close>

definition nrows :: "npfloat list list \<Rightarrow> nat" where
  "nrows M = length M"

definition ncols :: "npfloat list list \<Rightarrow> nat" where
  "ncols M = (case M of [] \<Rightarrow> 0 | row # rest \<Rightarrow> length row)"

definition broadcast_extent :: "nat \<Rightarrow> nat \<Rightarrow> nat option" where
  "broadcast_extent a b =
     (if a = b then Some a else if a = 1 then Some b else if b = 1 then Some a else None)"

definition broadcast_index :: "nat \<Rightarrow> nat \<Rightarrow> nat" where
  "broadcast_index extent i = (if extent = 1 then 0 else i)"

definition np_divide2 :: "npfloat list list \<Rightarrow> npfloat list list \<Rightarrow> error + npfloat list list" where
  "np_divide2 A B =
     (case (broadcast_extent (nrows A) (nrows B), broadcast_extent (ncols A) (ncols B)) of
        (Some r, Some k) \<Rightarrow>
          Inr (map (\<lambda>i. map (\<lambda>j.
                 np_div (A ! broadcast_index (nrows A) i ! broadcast_index (ncols A) j)
                        (B ! broadcast_index (nrows B) i ! broadcast_index (ncols B) j))
               [0..<k]) [0..<r])
      | other \<Rightarrow> Inl (ValueError ''operands could not be broadcast together''))"

text \<open>\<open>np.mean(M, axis=0)\<close>: the mean of every column.\<close>

definition mean_axis0 :: "npfloat list list \<Rightarrow> npfloat list" where
  "mean_axis0 M = map np_mean (transpose M)"

text \<open>
  \<open>np.sqrt(np.mean(AMfilt ** 2, axis=2)) * np.sqrt(2)\<close>: \<open>AMfilt\<close> has three axes, the
  last one being time; the result keeps the first two.
\<close>

definition rms_sqrt2 :: "npfloat list \<Rightarrow> npfloat" where
  "rms_sqrt2 ts = np_mul (np_sqrt (np_mean (map (\<lambda>x. np_mul x x) ts))) (np_sqrt (Num 2))"

definition AMrms_of :: "npfloat list list list \<Rightarrow> npfloat list list" where
  "AMrms_of AMfilt = map (map rms_sqrt2) AMfilt"

text \<open>\<open>DC[:, np.newaxis] * np.ones(n)\<close>: one row per entry of \<open>DC\<close>, \<open>n\<close> columns.\<close>

definition DC_matrix :: "npfloat list \<Rightarrow> nat \<Rightarrow> npfloat list list" where
  "DC_matrix DC n = map (\<lambda>d. replicate n (np_mul d (Num 1))) DC"

definition AMi_spectrum ::
  "collaborators \<Rightarrow> signal_arg \<Rightarrow> rate_arg \<Rightarrow> real \<Rightarrow> real \<Rightarrow> int \<Rightarrow> real \<Rightarrow> real \<Rightarrow> real
     \<Rightarrow> error + pyobj list" where
  "AMi_spectrum c sig fs mfmin mfmax modbank_Nmod modbank_Qfactor fmin fmax =
     (case validate sig fs of Inl e \<Rightarrow> Inl e | Inr (x, fsv) \<Rightarrow>
      let t = arange_div (length x) fsv in
      (case auditory_filterbank c x fsv fmin fmax of
         None \<Rightarrow> Inl (CollaboratorFailure ''auditory_filterbank'')
       | Some (gamma_responses, fc) \<Rightarrow>
      (case hilbert_envelope c gamma_responses of
         None \<Rightarrow> Inl (CollaboratorFailure ''hilbert'')
       | Some E \<Rightarrow>
      (case king2019_modfilterbank_updated c (transpose E) fsv mfmin mfmax modbank_Nmod
              modbank_Qfactor of
         None \<Rightarrow> Inl (CollaboratorFailure ''king2019_modfilterbank_updated'')
       | Some (AMfilt, mf) \<Rightarrow>
      let AMrms = AMrms_of AMfilt;
          DC = mean_axis0 (transpose E) in
      (case np_divide2 (transpose AMrms) (DC_matrix DC (length mf)) of Inl e \<Rightarrow> Inl e
       | Inr AMIspec \<Rightarrow>
      (case aud_filt_bw c fc of
         None \<Rightarrow> Inl (CollaboratorFailure ''aud_filt_bw'')
       | Some f_bw \<Rightarrow>
         Inr [Arr2 AMIspec, Arr1 fc, Arr1 mf,
              Params (AMi_spec_params t f_bw gamma_responses E mf AMrms DC)]))))))"

section \<open>The pitch front end of the f0M functions\<close>

text \<open>
  \<open>w_len = -(fs // -fmin)\<close> is the first statement of both f0M functions, which check
  nothing before it. Floor division raises TypeError on a string or None and
  ZeroDivisionError on a zero divisor; its value is not used afterwards.
\<close>

definition f0M_w_len :: "rate_arg \<Rightarrow> real \<Rightarrow> error + npfloat" where
  "f0M_w_len fs fmin =
     (if \<not> is_int_or_float fs then Inl (TypeError ''unsupported operand type(s) for //'')
      else if fmin = 0 then Inl ZeroDivisionError
      else Inr (case rate_value fs of
                  Num a \<Rightarrow> Num (- of_int \<lfloor>a / (- fmin)\<rfloor>)
                | other \<Rightarrow> NaN))"

text \<open>\<open>fs / undersample\<close> on Python numbers.\<close>

definition py_truediv :: "npfloat \<Rightarrow> nat \<Rightarrow> error + npfloat" where
  "py_truediv a n = (if n = 0 then Inl ZeroDivisionError else Inr (np_div a (Num (real n))))"

text \<open>\<open>a[mask] = np.nan\<close> and \<open>a[mask]\<close> with a boolean mask, which must be as long as \<open>a\<close>.\<close>

definition mask_assign_nan :: "npfloat list \<Rightarrow> bool list \<Rightarrow> error + npfloat list" where
  "mask_assign_nan a msk =
     (if length msk \<noteq> length a then Inl (IndexError ''boolean index did not match'')
      else Inr (map (\<lambda>(x, m). if m then NaN else x) (zip a msk)))"

definition mask_select :: "npfloat list \<Rightarrow> bool list \<Rightarrow> error + npfloat list" where
  "mask_select a msk =
     (if length msk \<noteq> length a then Inl (IndexError ''boolean index did not match'')
      else Inr (map fst (filter snd (zip a msk))))"

definition not_nan_mask :: "npfloat list \<Rightarrow> bool list" where
  "not_nan_mask a = map (\<lambda>x. \<not> np_isnan x) a"

text \<open>The lines shared by \<open>f0M_spectrum\<close> (127 to 132) and \<open>f0M_scalogram\<close> (153 to 158).\<close>

definition f0M_track ::
  "collaborators \<Rightarrow> signal_arg \<Rightarrow> rate_arg \<Rightarrow> nat \<Rightarrow> real \<Rightarrow> real \<Rightarrow> real \<Rightarrow> real \<Rightarrow> real
     \<Rightarrow> real \<Rightarrow> error + npfloat list" where
  "f0M_track c sig fs undersample fmin fmax yin_thresh ap0_thresh max_jump min_duration =
     (case f0M_w_len fs fmin of Inl e \<Rightarrow> Inl e | Inr w_len \<Rightarrow>
      (case mock_yin c sig (rate_value fs) fmin fmax yin_thresh undersample of
         None \<Rightarrow> Inl (CollaboratorFailure ''mock_yin'')
       | Some (track, ap0) \<Rightarrow>
      let f0 = map (\<lambda>x. np_mul (Num 440) (np_power2 x)) track in
      (case mask_assign_nan f0 (map (\<lambda>a. np_gt a (Num ap0_thresh)) ap0) of Inl e \<Rightarrow> Inl e
       | Inr f0 \<Rightarrow>
      (case py_truediv (rate_value fs) undersample of Inl e \<Rightarrow> Inl e | Inr fs_yin \<Rightarrow>
      (case remove_artifacts c f0 fs_yin max_jump min_duration (fmin, fmax)
              (4 / 10, 25 / 10) 1500 of
         None \<Rightarrow> Inl (CollaboratorFailure ''remove_artifacts'')
       | Some f0 \<Rightarrow> Inr f0)))))"

section \<open>f0M_spectrum\<close>

text \<open>\<open>len(sig)\<close>.\<close>

fun py_len :: "signal_arg \<Rightarrow> error + nat" where
  "py_len (Ndarray x) = Inr (length x)"
| "py_len (PyList x) = Inr (length x)"
| "py_len SigNone = Inl (TypeError ''object of type NoneType has no len()'')"

text \<open>\<open>t[::undersample]\<close> with a step that is not negative: the entries 0, u, 2u, ...\<close>

definition slice_step :: "npfloat list \<Rightarrow> nat \<Rightarrow> error + npfloat list" where
  "slice_step t u =
     (if u = 0 then Inl (ValueError ''slice step cannot be zero'')
      else Inr (map (\<lambda>k. t ! (k * u)) [0..<(length t + u - 1) div u]))"

text \<open>Lines 133 to 138: the track and its time stamps without the missing samples.\<close>

definition f0M_wo_nan ::
  "signal_arg \<Rightarrow> rate_arg \<Rightarrow> nat \<Rightarrow> npfloat list \<Rightarrow> error + npfloat list \<times> npfloat list" where
  "f0M_wo_nan sig fs undersample f0 =
     (case mask_select f0 (not_nan_mask f0) of Inl e \<Rightarrow> Inl e | Inr f0_wo_nan \<Rightarrow>
      (case py_len sig of Inl e \<Rightarrow> Inl e | Inr n \<Rightarrow>
      let t = arange_div n (rate_value fs) in
      (case slice_step t undersample of Inl e \<Rightarrow> Inl e | Inr t_wo_nan \<Rightarrow>
      let t_wo_nan = take (length f0) t_wo_nan in
      (case mask_select t_wo_nan (not_nan_mask f0) of Inl e \<Rightarrow> Inl e
       | Inr t_wo_nan \<Rightarrow> Inr (t_wo_nan, f0_wo_nan)))))"

definition f0M_spectrum ::
  "collaborators \<Rightarrow> signal_arg \<Rightarrow> rate_arg \<Rightarrow> real \<Rightarrow> real \<Rightarrow> int \<Rightarrow> nat \<Rightarrow> real \<Rightarrow> real
     \<Rightarrow> real \<Rightarrow> real \<Rightarrow> real \<Rightarrow> real \<Rightarrow> error + pyobj list" where
  "f0M_spectrum c sig fs mfmin mfmax modbank_Nmod undersample fmin fmax yin_thresh ap0_thresh
       max_jump min_duration =
     (case f0M_track c sig fs undersample fmin fmax yin_thresh ap0_thresh max_jump
             min_duration of
        Inl e \<Rightarrow> Inl e
      | Inr f0 \<Rightarrow>
      (case f0M_wo_nan sig fs undersample f0 of Inl e \<Rightarrow> Inl e
       | Inr (t_wo_nan, f0_wo_nan) \<Rightarrow>
      (case define_modulation_axis c mfmin mfmax modbank_Nmod of
         None \<Rightarrow> Inl (CollaboratorFailure ''define_modulation_axis'')
       | Some (f_spectra, f_spectra_intervals) \<Rightarrow>
      (case lombscargle c t_wo_nan f0_wo_nan f_spectra of
         None \<Rightarrow> Inl (CollaboratorFailure ''lombscargle'')
       | Some (freqs, f0Mfft) \<Rightarrow>
      let f0Mfft = map (\<lambda>p. np_mul p (Num 2)) f0Mfft in
      (case interpmean c f_spectra f0Mfft f_spectra_intervals of
         None \<Rightarrow> Inl (CollaboratorFailure ''interpmean'')
       | Some f0M_spec \<Rightarrow>
      (case py_truediv (rate_value fs) undersample of Inl e \<Rightarrow> Inl e | Inr fs_yin \<Rightarrow>
      let t_f0 = arange_div (length f0) fs_yin in
      Inr [Arr1 f0M_spec, Arr1 f_spectra,
           Params (f0M_spec_params t_f0 f0 f_spectra f_spectra_intervals)]))))))"

section \<open>f0M_scalogram\<close>

text \<open>The sizing pass (lines 166 to 175).\<close>

fun f0M_dims_freqs ::
  "collaborators \<Rightarrow> npfloat list \<Rightarrow> npfloat \<Rightarrow> real \<Rightarrow> npfloat list \<Rightarrow> nat list
     \<Rightarrow> error + int list" where
  "f0M_dims_freqs c f0 fs_yin window_NT f_spectra [] = Inr []"
| "f0M_dims_freqs c f0 fs_yin window_NT f_spectra (ifreq # rest) =
     (case get_item ''f_spectra'' f_spectra ifreq of Inl e \<Rightarrow> Inl e | Inr f \<Rightarrow>
      let window_length = window_length_of window_NT f in
      (case segment_into_windows c f0 fs_yin window_length (Num (1 / 10)) False of
         None \<Rightarrow> Inl (CollaboratorFailure ''segment_into_windows'')
       | Some windows \<Rightarrow>
      (case dims_windows window_length [0..<length windows] of Inl e \<Rightarrow> Inl e | Inr ds \<Rightarrow>
      (case f0M_dims_freqs c f0 fs_yin window_NT f_spectra rest of Inl e \<Rightarrow> Inl e
       | Inr ds' \<Rightarrow> Inr (ds @ ds')))))"

text \<open>
  The estimate of one window (lines 189 and 190): Lomb-Scargle at the two frequencies
  0.01 and \<open>f\<close>, of which twice the second power is kept.
\<close>

definition f0M_estimate ::
  "collaborators \<Rightarrow> npfloat list \<Rightarrow> npfloat list \<Rightarrow> npfloat \<Rightarrow> error + npfloat" where
  "f0M_estimate c t_temp f0_temp f =
     (case lombscargle c t_temp f0_temp [Num (1 / 100), f] of
        None \<Rightarrow> Inl (CollaboratorFailure ''lombscargle'')
      | Some (freqs, f0Mfft) \<Rightarrow>
          (case get_item ''f0Mfft'' f0Mfft 1 of Inl e \<Rightarrow> Inl e
           | Inr p \<Rightarrow> Inr (np_mul (Num 2) p)))"

text \<open>The fill pass (lines 178 to 193).\<close>

fun f0M_fill_windows ::
  "collaborators \<Rightarrow> npfloat list list \<Rightarrow> npfloat list list \<Rightarrow> npfloat \<Rightarrow> npfloat \<Rightarrow> nat
     \<Rightarrow> nat list \<Rightarrow> npfloat list list \<Rightarrow> error + npfloat list list" where
  "f0M_fill_windows c windows t_windows f window_length ifreq [] f0Msgram = Inr f0Msgram"
| "f0M_fill_windows c windows t_windows f window_length ifreq (iwin # rest) f0Msgram =
     (case get_item ''windows'' windows iwin of Inl e \<Rightarrow> Inl e | Inr f0_temp \<Rightarrow>
      (case get_item ''t_windows'' t_windows iwin of Inl e \<Rightarrow> Inl e | Inr t_temp \<Rightarrow>
      (case f0M_estimate c t_temp f0_temp f of Inl e \<Rightarrow> Inl e | Inr f0Mfft \<Rightarrow>
      (case half_window_offset window_length of Inl e \<Rightarrow> Inl e | Inr r \<Rightarrow>
      (case grid_set f0Msgram (int iwin + r) ifreq f0Mfft of Inl e \<Rightarrow> Inl e
       | Inr f0Msgram' \<Rightarrow>
           f0M_fill_windows c windows t_windows f window_length ifreq rest f0Msgram')))))"

fun f0M_fill_freqs ::
  "collaborators \<Rightarrow> npfloat list \<Rightarrow> npfloat list \<Rightarrow> npfloat \<Rightarrow> real \<Rightarrow> npfloat list
     \<Rightarrow> nat list \<Rightarrow> npfloat list list \<Rightarrow> error + npfloat list list" where
  "f0M_fill_freqs c f0 t_yin fs_yin window_NT f_spectra [] f0Msgram = Inr f0Msgram"
| "f0M_fill_freqs c f0 t_yin fs_yin window_NT f_spectra (ifreq # rest) f0Msgram =
     (case get_item ''f_spectra'' f_spectra ifreq of Inl e \<Rightarrow> Inl e | Inr f \<Rightarrow>
      let window_length = window_length_of window_NT f in
      (case segment_into_windows c f0 fs_yin window_length (Num (1 / 10)) False of
         None \<Rightarrow> Inl (CollaboratorFailure ''segment_into_windows'')
       | Some windows \<Rightarrow>
      (case segment_into_windows c t_yin fs_yin window_length (Num (1 / 10)) False of
         None \<Rightarrow> Inl (CollaboratorFailure ''segment_into_windows'')
       | Some t_windows \<Rightarrow>
      (case f0M_fill_windows c windows t_windows f window_length ifreq [0..<length windows]
              f0Msgram of
         Inl e \<Rightarrow> Inl e
       | Inr f0Msgram' \<Rightarrow>
           f0M_fill_freqs c f0 t_yin fs_yin window_NT f_spectra rest f0Msgram'))))"

definition f0M_scalogram ::
  "collaborators \<Rightarrow> signal_arg \<Rightarrow> rate_arg \<Rightarrow> real \<Rightarrow> real \<Rightarrow> real \<Rightarrow> int \<Rightarrow> nat \<Rightarrow> real
     \<Rightarrow> real \<Rightarrow> real \<Rightarrow> real \<Rightarrow> real \<Rightarrow> real \<Rightarrow> error + pyobj list" where
  "f0M_scalogram c sig fs window_NT mfmin mfmax modbank_Nmod undersample fmin fmax yin_thresh
       ap0_thresh max_jump min_duration =
     (case f0M_track c sig fs undersample fmin fmax yin_thresh ap0_thresh max_jump
             min_duration of
        Inl e \<Rightarrow> Inl e
      | Inr f0 \<Rightarrow>
      (case define_modulation_axis c mfmin mfmax modbank_Nmod of
         None \<Rightarrow> Inl (CollaboratorFailure ''define_modulation_axis'')
       | Some (f_spectra, f_spectra_intervals) \<Rightarrow>
      (case py_truediv (rate_value fs) undersample of Inl e \<Rightarrow> Inl e | Inr fs_yin \<Rightarrow>
      let t_yin = arange_div (length f0) fs_yin in
      (case f0M_dims_freqs c f0 fs_yin window_NT f_spectra [0..<nat modbank_Nmod] of
         Inl e \<Rightarrow> Inl e
       | Inr dims \<Rightarrow>
      (case py_max dims of Inl e \<Rightarrow> Inl e | Inr dim' \<Rightarrow>
      (case grid_zeros dim' modbank_Nmod of Inl e \<Rightarrow> Inl e | Inr zeros \<Rightarrow>
      (case f0M_fill_freqs c f0 t_yin fs_yin window_NT f_spectra [0..<nat modbank_Nmod]
              zeros of
         Inl e \<Rightarrow> Inl e
       | Inr f0Msgram \<Rightarrow>
           Inr [Arr2 (nan_where_zero f0Msgram), Arr1 f_spectra])))))))"

section \<open>Notions used in the statements about the scalograms\<close>

text \<open>The two errors that a write into the grid can raise.\<close>

definition is_grid_error :: "error \<Rightarrow> bool" where
  "is_grid_error e = (e = IndexError ''grid axis 0'' \<or> e = IndexError ''grid axis 1'')"

text \<open>
  The loop over the windows has the same shape in both scalograms: an estimate for the
  window, the offset, a write into column \<open>ifreq\<close>. \<open>place_estimates\<close> is that loop with
  the estimate as a parameter.
\<close>

fun place_estimates ::
  "(nat \<Rightarrow> error + npfloat) \<Rightarrow> npfloat \<Rightarrow> nat \<Rightarrow> nat list \<Rightarrow> npfloat list list
     \<Rightarrow> error + npfloat list list" where
  "place_estimates est window_length ifreq [] G = Inr G"
| "place_estimates est window_length ifreq (iwin # rest) G =
     (case est iwin of Inl e \<Rightarrow> Inl e | Inr v \<Rightarrow>
      (case half_window_offset window_length of Inl e \<Rightarrow> Inl e | Inr r \<Rightarrow>
      (case grid_set G (int iwin + r) ifreq v of Inl e \<Rightarrow> Inl e
       | Inr G' \<Rightarrow> place_estimates est window_length ifreq rest G')))"

definition AMa_window_estimate ::
  "collaborators \<Rightarrow> npfloat list list \<Rightarrow> npfloat \<Rightarrow> npfloat \<Rightarrow> nat \<Rightarrow> error + npfloat" where
  "AMa_window_estimate c windows fs f iwin =
     (case get_item ''windows'' windows iwin of Inl e \<Rightarrow> Inl e
      | Inr temp \<Rightarrow> AMa_estimate c temp fs f)"

definition f0M_window_estimate ::
  "collaborators \<Rightarrow> npfloat list list \<Rightarrow> npfloat list list \<Rightarrow> npfloat \<Rightarrow> nat
     \<Rightarrow> error + npfloat" where
  "f0M_window_estimate c windows t_windows f iwin =
     (case get_item ''windows'' windows iwin of Inl e \<Rightarrow> Inl e | Inr f0_temp \<Rightarrow>
      (case get_item ''t_windows'' t_windows iwin of Inl e \<Rightarrow> Inl e
       | Inr t_temp \<Rightarrow> f0M_estimate c t_temp f0_temp f))"

text \<open>
  Whether the fill pass of \<open>AMa_scalogram\<close> writes cell \<open>(k, j)\<close> of the grid of channel
  \<open>ichan\<close>, the grid having \<open>n\<close> rows: some window of frequency \<open>j\<close> has its row at \<open>k\<close>.
\<close>

definition AMa_written ::
  "collaborators \<Rightarrow> npfloat list list \<Rightarrow> nat \<Rightarrow> npfloat \<Rightarrow> real \<Rightarrow> npfloat list \<Rightarrow> nat
     \<Rightarrow> nat \<Rightarrow> nat \<Rightarrow> bool" where
  "AMa_written c E ichan fs window_NT f_spectra n k j =
     (let window_length = window_length_of window_NT (f_spectra ! j) in
      case segment_into_windows c (E ! ichan) fs window_length (Num (1 / 10)) True of
        None \<Rightarrow> False
      | Some windows \<Rightarrow>
          (case half_window_offset window_length of Inl e \<Rightarrow> False
           | Inr r \<Rightarrow> list_ex (\<lambda>iwin. grid_row (int iwin + r) n = k) [0..<length windows]))"

text \<open>
  What a cell of \<open>AMsgram\<close> holds after the values \<open>xs\<close> of the channels have been added
  to it one channel at a time, every sum that is 0 being replaced by NaN (lines 97 and
  98 are both inside the loop over the channels); and whether the sum of some leading
  channels is exactly 0.
\<close>

definition running_sum :: "npfloat list \<Rightarrow> npfloat" where
  "running_sum xs = foldl (\<lambda>a v. nan_if_zero (np_add a v)) (Num 0) xs"

definition zero_prefix :: "npfloat list \<Rightarrow> bool" where
  "zero_prefix xs = list_ex (\<lambda>n. np_sum (take n xs) = Num 0) [1..<Suc (length xs)]"

section \<open>Collaborators for running the functions\<close>

text \<open>
  A small, concrete set of collaborators, so that the functions can be evaluated on
  explicit inputs: a filterbank with two channels (the signal and its double), the identity
  as envelope, the modulation axis 1, 2, ..., two windows per segmentation (each the whole
  input), the sum of the input as spectral power at every query frequency, and a pitch
  tracker that returns a constant track with the leading samples of the signal as
  aperiodicity.
\<close>

definition demo :: collaborators where
  "demo = \<lparr>
     auditory_filterbank = (\<lambda>x fs fmin fmax. Some ([x, map (np_mul (Num 2)) x], [Num fmin, Num fmax])),
     hilbert_envelope = (\<lambda>g. Some g),
     define_modulation_axis = (\<lambda>mfmin mfmax n.
        Some (map (\<lambda>k. Num (real (Suc k))) [0..<nat n],
              map (\<lambda>k. Num (real k + 1 / 2)) [0..<Suc (nat n)])),
     segment_into_windows = (\<lambda>x fs wl shift pad. Some [x, x]),
     periodogram = (\<lambda>x fs q. Some (map (\<lambda>f. np_sum x) q)),
     lombscargle = (\<lambda>t x q. Some (q, map (\<lambda>f. np_sum x) q)),
     remove_artifacts = (\<lambda>f0 fs max_jump min_duration fb rb gap. Some f0),
     interpmean = (\<lambda>x y edges. Some y),
     aud_filt_bw = (\<lambda>fc. Some fc),
     king2019_modfilterbank_updated = (\<lambda>Et fs mfmin mfmax n q.
        Some (replicate (nat n) (transpose Et), map (\<lambda>k. Num (real (Suc k))) [0..<nat n])),
     mock_yin = (\<lambda>sig fs fmin fmax thresh u.
        Some (replicate ((length (array_of sig) + u - 1) div u) (Num 0),
              take ((length (array_of sig) + u - 1) div u) (array_of sig)))
   \<rparr>"

text \<open>
  The same, except that the modulation filterbank answers with the channel as first axis
  and the modulation frequency as second: for every channel one copy of its envelope per
  modulation frequency.
\<close>

definition demo_channel_major :: collaborators where
  "demo_channel_major = demo\<lparr>king2019_modfilterbank_updated := (\<lambda>Et fs mfmin mfmax n q.
      Some (map (\<lambda>row. replicate (nat n) row) (transpose Et),
            map (\<lambda>k. Num (real (Suc k))) [0..<nat n]))\<rparr>"

text \<open>
  The same as \<open>demo\<close>, except that the two windows of a segmentation differ: the input and
  its double.
\<close>

definition demo_distinct_windows :: collaborators where
  "demo_distinct_windows = demo\<lparr>segment_into_windows :=
      (\<lambda>x fs wl shift pad. Some [x, map (np_mul (Num 2)) x])\<rparr>"

section \<open>Validation of the sample rate\<close>

lemma replicate2: "replicate 2 x = [x, x]"
  by (simp add: numeral_2_eq_2)

lemma replicate3: "replicate 3 x = [x, x, x]"
  by (simp add: numeral_3_eq_3)

lemma upt2: "[0..<2] = [0, Suc 0]" "[0..<Suc (Suc 0)] = [0, Suc 0]" "[0..<3] = [0, Suc 0, 2]"
  by (simp_all add: upt_rec)


lemma validate_bad_rate:
  "\<not> is_int_or_float fs \<Longrightarrow> validate sig fs = Inl (ValueError ''Invalid input types.'')"
  by (simp add: validate_def)

lemma validate_nonpositive:
  "is_int_or_float fs \<Longrightarrow> rate_le_zero fs \<Longrightarrow>
   validate sig fs = Inl (ValueError (if is_ndarray sig then ''fs must be a positive scalar.''
                                       else ''Invalid input types.''))"
  by (simp add: validate_def)

text \<open>
  Claim C8. \<open>AMa_spectrum\<close> raises ValueError (``Invalid input types.'') whenever \<open>fs\<close>
  is neither an int nor a float, for instance a string, and raises ValueError whenever
  \<open>fs\<close> is a number with \<open>fs <= 0\<close>: with the message ``fs must be a positive scalar.''
  when the signal is an array, and with the message of the type check when it is not. The
  result is the same for every set of collaborators, so none of them has been called.
  The module has one exception class for both kinds of failure, ValueError.
\<close>

theorem AMa_spectrum_rejects_bad_fs:
  "(\<not> is_int_or_float fs \<longrightarrow>
      AMa_spectrum c sig fs mfmin mfmax modbank_Nmod fmin fmax =
        Inl (ValueError ''Invalid input types.'')) \<and>
   (is_int_or_float fs \<and> rate_le_zero fs \<longrightarrow>
      AMa_spectrum c sig fs mfmin mfmax modbank_Nmod fmin fmax =
        Inl (ValueError (if is_ndarray sig then ''fs must be a positive scalar.''
                         else ''Invalid input types.'')))"
  by (simp add: AMa_spectrum_def validate_bad_rate validate_nonpositive)


theorem AMa_spectrum_rejects_bad_fs_witness:
  "AMa_spectrum demo (Ndarray [Num 1, Num 3]) (PyStr ''16000'') (1 / 2) 200 2 70 6700 =
     Inl (ValueError ''Invalid input types.'') \<and>
   AMa_spectrum demo (Ndarray [Num 1, Num 3]) (PyInt 0) (1 / 2) 200 2 70 6700 =
     Inl (ValueError ''fs must be a positive scalar.'') \<and>
   AMa_spectrum demo (PyList [Num 1, Num 3]) (PyFloat (Num (- 1))) (1 / 2) 200 2 70 6700 =
     Inl (ValueError ''Invalid input types.'')"
  using AMa_spectrum_rejects_bad_fs[of "PyStr ''16000''" demo "Ndarray [Num 1, Num 3]" "1 / 2" 200 2 70 6700]
    AMa_spectrum_rejects_bad_fs[of "PyInt 0" demo "Ndarray [Num 1, Num 3]" "1 / 2" 200 2 70 6700]
    AMa_spectrum_rejects_bad_fs[of "PyFloat (Num (- 1))" demo "PyList [Num 1, Num 3]" "1 / 2" 200 2 70 6700]
  by (simp add: rate_le_zero_def)


section \<open>The power matrix of AMa_spectrum\<close>

lemma broadcast1_length:
  "length v = n \<or> length v = 1 \<Longrightarrow> length (broadcast1 n v) = n"
  by (auto simp: broadcast1_def)

lemma set_column_shape:
  assumes "set_column M j v = Inr M'"
  shows "length M' = length M" and "\<And>i. i < length M \<Longrightarrow> length (M' ! i) = length (M ! i)"
  using assms broadcast1_length[of v "length M"]
  by (auto simp: set_column_def split: if_splits)

lemma set_column_same:
  assumes "set_column M j v = Inr M'"
  shows "column j M' = broadcast1 (length M) v"
proof -
  from assms have ok: "list_all (\<lambda>row. j < length row) M"
    and len: "length (broadcast1 (length M) v) = length M"
    and M': "M' = map (\<lambda>(row, x). row[j := x]) (zip M (broadcast1 (length M) v))"
    using broadcast1_length[of v "length M"]
    by (auto simp: set_column_def split: if_splits)
  show ?thesis
    unfolding M' column_def using ok len
    by (intro nth_equalityI) (auto simp: list_all_length)
qed

lemma set_column_other:
  assumes "set_column M j v = Inr M'" and "j' \<noteq> j"
  shows "column j' M' = column j' M"
proof -
  from assms have len: "length (broadcast1 (length M) v) = length M"
    and M': "M' = map (\<lambda>(row, x). row[j := x]) (zip M (broadcast1 (length M) v))"
    using broadcast1_length[of v "length M"]
    by (auto simp: set_column_def split: if_splits)
  show ?thesis
    unfolding M' column_def using len assms(2)
    by (intro nth_equalityI) auto
qed

lemma AMa_spectrum_channels_Inr:
  assumes "AMa_spectrum_channels c E fs f_spectra ichans M = Inr M'" and "distinct ichans"
  shows "length M' = length M \<and>
         (\<forall>i<length M. length (M' ! i) = length (M ! i)) \<and>
         (\<forall>ichan\<in>set ichans. ichan < length E \<and>
            (\<exists>Pxx. periodogram c (E ! ichan) fs f_spectra = Some Pxx \<and>
               (length Pxx = length M \<or> length Pxx = 1) \<and>
               column ichan M' = broadcast1 (length M) (map (np_mul (Num 2)) Pxx))) \<and>
         (\<forall>j. j \<notin> set ichans \<longrightarrow> column j M' = column j M)"
  using assms
proof (induction ichans arbitrary: M)
  case Nil
  then show ?case by simp
next
  case (Cons ichan rest)
  from Cons.prems(1) obtain Pxx M1 where
    lt: "ichan < length E" and
    P: "periodogram c (E ! ichan) fs f_spectra = Some Pxx" and
    S: "set_column M ichan (map (np_mul (Num 2)) Pxx) = Inr M1" and
    R: "AMa_spectrum_channels c E fs f_spectra rest M1 = Inr M'"
    by (auto simp: get_item_def split: if_splits option.splits sum.splits)
  from Cons.prems(2) have d: "distinct rest" and nin: "ichan \<notin> set rest" by auto
  note IH = Cons.IH[OF R d]
  note sh = set_column_shape[OF S]
  have lenP: "length Pxx = length M \<or> length Pxx = 1"
    using S by (auto simp: set_column_def split: if_splits)
  have c1: "column ichan M' = broadcast1 (length M) (map (np_mul (Num 2)) Pxx)"
    using IH nin set_column_same[OF S] by simp
  show ?case
  proof (intro conjI allI impI ballI)
    show "length M' = length M" using IH sh by simp
  next
    fix i assume "i < length M"
    then show "length (M' ! i) = length (M ! i)" using IH sh by simp
  next
    fix k assume k: "k \<in> set (ichan # rest)"
    show "k < length E" using k lt IH by auto
  next
    fix k assume k: "k \<in> set (ichan # rest)"
    show "\<exists>Pxx. periodogram c (E ! k) fs f_spectra = Some Pxx \<and>
               (length Pxx = length M \<or> length Pxx = 1) \<and>
               column k M' = broadcast1 (length M) (map (np_mul (Num 2)) Pxx)"
    proof (cases "k = ichan")
      case True
      then show ?thesis using P c1 lenP by auto
    next
      case False
      then have "k \<in> set rest" using k by simp
      then show ?thesis using IH sh(1) by auto
    qed
  next
    fix j assume "j \<notin> set (ichan # rest)"
    then show "column j M' = column j M"
      using IH set_column_other[OF S, of j] by auto
  qed
qed


text \<open>
  Claim C6. When \<open>AMa_spectrum\<close> returns, its first result is a matrix with one row per
  frequency of \<open>f_spectra\<close> and one column per channel of the filterbank, and column
  \<open>ichan\<close> is twice the periodogram of the envelope \<open>E[ichan, :]\<close> at the frequencies
  \<open>f_spectra\<close>, where \<open>E\<close> is the envelope of the filterbank output. (A periodogram of a
  single value is broadcast over the column, as numpy does; one of any other length
  makes the assignment raise.)
\<close>

theorem AMa_spectrum_columns:
  assumes "AMa_spectrum c sig fs mfmin mfmax modbank_Nmod fmin fmax = Inr res"
  shows "\<exists>x gamma_responses fc E f_spectra edges AMspec step.
           sig = Ndarray x \<and>
           auditory_filterbank c x (rate_value fs) fmin fmax = Some (gamma_responses, fc) \<and>
           hilbert_envelope c gamma_responses = Some E \<and>
           define_modulation_axis c mfmin mfmax modbank_Nmod = Some (f_spectra, edges) \<and>
           res = [Arr2 AMspec, Arr1 fc, Arr1 f_spectra, Params step] \<and>
           length AMspec = length f_spectra \<and>
           (\<forall>row\<in>set AMspec. length row = length fc) \<and>
           (\<forall>ichan<length fc. \<exists>Pxx.
              periodogram c (E ! ichan) (rate_value fs) f_spectra = Some Pxx \<and>
              (length Pxx = length f_spectra \<or> length Pxx = 1) \<and>
              column ichan AMspec = broadcast1 (length f_spectra) (map (np_mul (Num 2)) Pxx))"
proof -
  from assms obtain x where sig: "sig = Ndarray x"
    by (cases sig) (auto simp: AMa_spectrum_def validate_def)
  from assms sig obtain gamma_responses fc E f_spectra edges AMspec f_bw where
    fb: "auditory_filterbank c x (rate_value fs) fmin fmax = Some (gamma_responses, fc)" and
    env: "hilbert_envelope c gamma_responses = Some E" and
    ax: "define_modulation_axis c mfmin mfmax modbank_Nmod = Some (f_spectra, edges)" and
    loop: "AMa_spectrum_channels c E (rate_value fs) f_spectra [0..<length fc]
             (np_zeros (length f_spectra) (length fc)) = Inr AMspec" and
    res: "res = [Arr2 AMspec, Arr1 fc, Arr1 f_spectra,
                 Params (AMa_spec_params (arange_div (length x) (rate_value fs)) f_bw
                           gamma_responses E f_spectra edges)]"
    by (auto simp: AMa_spectrum_def validate_def Let_def
             split: if_splits option.splits sum.splits prod.splits)
  note L = AMa_spectrum_channels_Inr[OF loop distinct_upt]
  have len: "length AMspec = length f_spectra"
    using L by (simp add: np_zeros_def)
  have rows: "\<forall>row\<in>set AMspec. length row = length fc"
  proof
    fix row assume "row \<in> set AMspec"
    then obtain i where "i < length AMspec" "row = AMspec ! i"
      by (auto simp: in_set_conv_nth)
    then show "length row = length fc"
      using L len by (simp add: np_zeros_def)
  qed
  have cols: "\<forall>ichan<length fc. \<exists>Pxx.
              periodogram c (E ! ichan) (rate_value fs) f_spectra = Some Pxx \<and>
              (length Pxx = length f_spectra \<or> length Pxx = 1) \<and>
              column ichan AMspec = broadcast1 (length f_spectra) (map (np_mul (Num 2)) Pxx)"
    using L by (simp add: np_zeros_def)
  show ?thesis
    using sig fb env ax res len rows cols by blast
qed


theorem AMa_spectrum_columns_witness:
  "\<exists>AMspec fc f_spectra step.
     AMa_spectrum demo (Ndarray [Num 1, Num 3]) (PyInt 1) (1 / 2) 200 2 70 6700 =
       Inr [Arr2 AMspec, Arr1 fc, Arr1 f_spectra, Params step] \<and>
     length AMspec = length f_spectra \<and>
     (\<forall>row\<in>set AMspec. length row = length fc)"
proof -
  have run: "AMa_spectrum demo (Ndarray [Num 1, Num 3]) (PyInt 1) (1 / 2) 200 2 70 6700 =
   Inr [Arr2 [[Num 8, Num 16], [Num 8, Num 16]], Arr1 [Num 70, Num 6700], Arr1 [Num 1, Num 2],
     Params (AMa_spec_params [Num 1, Num 2] [Num 70, Num 6700] [[Num 1, Num 3], [Num 2, Num 6]]
       [[Num 1, Num 3], [Num 2, Num 6]] [Num 1, Num 2] [Num (1/2), Num (3/2), Num (5/2)])]"
    by (simp add: AMa_spectrum_def validate_def rate_le_zero_def demo_def arange_div_def
      np_zeros_def get_item_def set_column_def broadcast1_def np_sum_def upt2 Let_def)
  from AMa_spectrum_columns[OF run] show ?thesis
    unfolding run by blast
qed



section \<open>The f0 track without its missing samples\<close>

lemma mask_select_not_nan: "mask_select a (not_nan_mask a) = Inr (filter (\<lambda>x. \<not> np_isnan x) a)"
proof -
  have "map fst (filter snd (zip a (map (\<lambda>x. \<not> np_isnan x) a))) = filter (\<lambda>x. \<not> np_isnan x) a"
    by (induction a) auto
  then show ?thesis by (simp add: mask_select_def not_nan_mask_def)
qed

lemma mask_select_paired:
  assumes "length a = length b"
  shows "mask_select a (not_nan_mask b) =
           Inr (map fst (filter (\<lambda>(t, x). \<not> np_isnan x) (zip a b)))"
proof -
  have "map fst (filter snd (zip a (map (\<lambda>x. \<not> np_isnan x) b))) =
        map fst (filter (\<lambda>(t, x). \<not> np_isnan x) (zip a b))"
    using assms by (induction a b rule: list_induct2) auto
  then show ?thesis using assms by (simp add: mask_select_def not_nan_mask_def)
qed

lemma zip_filter_snd:
  "zip (map fst (filter (\<lambda>(t, x). P x) (zip a b))) (filter P (take (length a) b)) =
     filter (\<lambda>(t, x). P x) (zip a b)"
proof (induction a arbitrary: b)
  case Nil
  then show ?case by simp
next
  case (Cons t a)
  then show ?case by (cases b) auto
qed

lemma length_filter_zip_snd:
  "length a = length b \<Longrightarrow>
   length (filter (\<lambda>(t, x). P x) (zip a b)) = length (filter P b)"
  by (induction a b rule: list_induct2) auto

lemma slice_index_bound:
  assumes "0 < (u::nat)" and "k < (n + u - 1) div u"
  shows "k * u < n"
proof -
  from assms have "Suc k \<le> (n + u - 1) div u" by simp
  then have "Suc k * u \<le> n + u - 1"
    using assms(1) by (simp add: less_eq_div_iff_mult_less_eq)
  then show ?thesis using assms(1) by (cases u) auto
qed


lemma slice_step_take:
  assumes "0 < u" and "m \<le> (n + u - 1) div u"
  shows "\<exists>t_under. slice_step (arange_div n d) u = Inr t_under \<and>
           take m t_under = map (\<lambda>i. np_div (Num (real (i * u + 1))) d) [0..<m]"
proof -
  let ?t = "arange_div n d"
  have len: "length ?t = n" by (simp add: arange_div_def)
  have S: "slice_step ?t u = Inr (map (\<lambda>k. ?t ! (k * u)) [0..<(n + u - 1) div u])"
    using assms(1) by (simp add: slice_step_def len)
  have "take m (map (\<lambda>k. ?t ! (k * u)) [0..<(n + u - 1) div u]) =
          map (\<lambda>k. ?t ! (k * u)) [0..<m]"
    using assms(2) by (simp add: take_map min_def)
  also have "\<dots> = map (\<lambda>i. np_div (Num (real (i * u + 1))) d) [0..<m]"
  proof (rule map_cong[OF refl])
    fix k assume "k \<in> set [0..<m]"
    then have "k < (n + u - 1) div u" using assms(2) by simp
    then have "k * u < n" using slice_index_bound[OF assms(1)] by blast
    then show "?t ! (k * u) = np_div (Num (real (k * u + 1))) d"
      by (simp add: arange_div_def nth_map_upt del: upt_Suc)
  qed
  finally show ?thesis using S by simp
qed

text \<open>
  Claim C10. In \<open>f0M_spectrum\<close>, when the pitch track is no longer than the undersampled
  time axis, that is \<open>len(f0) <= ceil(len(sig) / undersample)\<close>, lines 133 to 138
  succeed, \<open>f0_wo_nan\<close> and \<open>t_wo_nan\<close> have the same length, and entry \<open>i\<close> of
  \<open>t_wo_nan\<close> is the time stamp of the sample that is entry \<open>i\<close> of \<open>f0_wo_nan\<close>: the
  pairs are those of the track samples that are not NaN, sample \<open>i\<close> of the track having
  the time stamp \<open>t[i * undersample] = (i * undersample + 1) / fs\<close>.
\<close>

theorem f0M_wo_nan_paired:
  assumes "py_len sig = Inr n" and "0 < undersample"
    and "length f0 \<le> (n + undersample - 1) div undersample"
  shows "\<exists>t_wo_nan f0_wo_nan.
           f0M_wo_nan sig fs undersample f0 = Inr (t_wo_nan, f0_wo_nan) \<and>
           length t_wo_nan = length f0_wo_nan \<and>
           f0_wo_nan = filter (\<lambda>x. \<not> np_isnan x) f0 \<and>
           zip t_wo_nan f0_wo_nan =
             filter (\<lambda>(t, x). \<not> np_isnan x)
               (zip (map (\<lambda>i. np_div (Num (real (i * undersample + 1))) (rate_value fs))
                       [0..<length f0]) f0)"
proof -
  let ?ts = "map (\<lambda>i. np_div (Num (real (i * undersample + 1))) (rate_value fs)) [0..<length f0]"
  from slice_step_take[OF assms(2,3), of "rate_value fs"] obtain t_under where
    S: "slice_step (arange_div n (rate_value fs)) undersample = Inr t_under" and
    T: "take (length f0) t_under = ?ts"
    by blast
  have lts: "length ?ts = length f0" by simp
  let ?P = "\<lambda>x. \<not> np_isnan x"
  let ?t' = "map fst (filter (\<lambda>(t, x). ?P x) (zip ?ts f0))"
  have run: "f0M_wo_nan sig fs undersample f0 = Inr (?t', filter ?P f0)"
    using assms(1) S T mask_select_paired[OF lts]
    by (simp add: f0M_wo_nan_def mask_select_not_nan Let_def)
  have z: "zip ?t' (filter ?P f0) = filter (\<lambda>(t, x). ?P x) (zip ?ts f0)"
    using zip_filter_snd[of ?P ?ts f0] by simp
  have "length ?t' = length (filter ?P f0)"
    using length_filter_zip_snd[OF lts, of ?P] by simp
  with run z show ?thesis by blast
qed


theorem f0M_wo_nan_paired_witness:
  "\<exists>t_wo_nan f0_wo_nan.
     f0M_wo_nan (Ndarray [Num 0, Num 0, Num 0, Num 0]) (PyInt 2) 2 [Num 440, NaN] =
       Inr (t_wo_nan, f0_wo_nan) \<and>
     length t_wo_nan = length f0_wo_nan \<and>
     f0_wo_nan = [Num 440] \<and>
     zip t_wo_nan f0_wo_nan = [(Num (1 / 2), Num 440)]"
  using f0M_wo_nan_paired[of "Ndarray [Num 0, Num 0, Num 0, Num 0]" 4 2 "[Num 440, NaN]" "PyInt 2"]
  by (simp add: np_isnan_def upt2)

section \<open>The steps of f0M_spectrum\<close>

lemma f0M_wo_nan_Inr:
  assumes "f0M_wo_nan sig fs undersample f0 = Inr (t_wo_nan, f0_wo_nan)"
  shows "f0_wo_nan = filter (\<lambda>x. \<not> np_isnan x) f0 \<and>
         length t_wo_nan = length f0_wo_nan \<and>
         (\<exists>n t_under. py_len sig = Inr n \<and>
            slice_step (arange_div n (rate_value fs)) undersample = Inr t_under \<and>
            length f0 \<le> length t_under \<and>
            zip t_wo_nan f0_wo_nan = filter (\<lambda>(t, x). \<not> np_isnan x) (zip t_under f0))"
proof -
  let ?P = "\<lambda>x. \<not> np_isnan x"
  from assms obtain n t_under where
    f: "f0_wo_nan = filter ?P f0" and
    n: "py_len sig = Inr n" and
    S: "slice_step (arange_div n (rate_value fs)) undersample = Inr t_under" and
    M: "mask_select (take (length f0) t_under) (not_nan_mask f0) = Inr t_wo_nan"
    by (auto simp: f0M_wo_nan_def mask_select_not_nan Let_def split: sum.splits)
  from M have len: "length (take (length f0) t_under) = length f0"
    by (auto simp: mask_select_def not_nan_mask_def split: if_splits)
  then have le: "length f0 \<le> length t_under" by simp
  from M mask_select_paired[OF len] have
    t: "t_wo_nan = map fst (filter (\<lambda>(t, x). ?P x) (zip (take (length f0) t_under) f0))"
    by simp
  have zt: "zip (take (length f0) t_under) f0 = zip t_under f0"
  proof (induction t_under arbitrary: f0)
    case Nil
    then show ?case by simp
  next
    case (Cons a t_under)
    then show ?case by (cases f0) auto
  qed
  have "zip t_wo_nan f0_wo_nan = filter (\<lambda>(t, x). ?P x) (zip (take (length f0) t_under) f0)"
    unfolding t f using zip_filter_snd[of ?P "take (length f0) t_under" f0] len by simp
  moreover have "length t_wo_nan = length f0_wo_nan"
    unfolding t f using length_filter_zip_snd[OF len, of ?P] by simp
  ultimately show ?thesis using zt f n S le by auto
qed


lemma f0M_track_Inr:
  assumes "f0M_track c sig fs undersample fmin fmax yin_thresh ap0_thresh max_jump
             min_duration = Inr f0"
  shows "\<exists>track ap0 fs_yin.
           mock_yin c sig (rate_value fs) fmin fmax yin_thresh undersample = Some (track, ap0) \<and>
           length ap0 = length track \<and>
           py_truediv (rate_value fs) undersample = Inr fs_yin \<and>
           remove_artifacts c
             (map (\<lambda>(x, a). if np_gt a (Num ap0_thresh) then NaN
                             else np_mul (Num 440) (np_power2 x)) (zip track ap0))
             fs_yin max_jump min_duration (fmin, fmax) (4 / 10, 25 / 10) 1500 = Some f0"
proof -
  from assms obtain track ap0 f1 fs_yin where
    Y: "mock_yin c sig (rate_value fs) fmin fmax yin_thresh undersample = Some (track, ap0)" and
    A: "mask_assign_nan (map (\<lambda>x. np_mul (Num 440) (np_power2 x)) track)
          (map (\<lambda>a. np_gt a (Num ap0_thresh)) ap0) = Inr f1" and
    D: "py_truediv (rate_value fs) undersample = Inr fs_yin" and
    R: "remove_artifacts c f1 fs_yin max_jump min_duration (fmin, fmax) (4 / 10, 25 / 10) 1500
          = Some f0"
    by (auto simp: f0M_track_def Let_def split: sum.splits option.splits)
  from A have len: "length ap0 = length track"
    and f1: "f1 = map (\<lambda>(x, m). if m then NaN else x)
                    (zip (map (\<lambda>x. np_mul (Num 440) (np_power2 x)) track)
                         (map (\<lambda>a. np_gt a (Num ap0_thresh)) ap0))"
    by (auto simp: mask_assign_nan_def split: if_splits)
  have "f1 = map (\<lambda>(x, a). if np_gt a (Num ap0_thresh) then NaN
                             else np_mul (Num 440) (np_power2 x)) (zip track ap0)"
    unfolding f1 by (auto simp: zip_map_map)
  with Y len D R show ?thesis by blast
qed

text \<open>
  Claim C5. When \<open>f0M_spectrum\<close> returns, its result has been computed by these steps:
  the pitch tracker gives a track and an aperiodicity of the same length; a sample is
  \<open>440 * 2 ** track\<close>, or NaN where its aperiodicity is strictly above \<open>ap0_thresh\<close>;
  \<open>remove_artifacts\<close> is applied at the rate \<open>fs / undersample\<close>; the NaN samples are
  dropped together with their time stamps, taken from every \<open>undersample\<close>-th entry of
  the time axis; \<open>lombscargle\<close> is evaluated on the remaining time stamps and samples at
  the frequencies \<open>f_spectra\<close>; its power is multiplied by 2 and passed to \<open>interpmean\<close>
  with \<open>f_spectra\<close> and \<open>f_spectra_intervals\<close>, and the outcome is the first result.
\<close>

theorem f0M_spectrum_steps:
  assumes "f0M_spectrum c sig fs mfmin mfmax modbank_Nmod undersample fmin fmax yin_thresh
             ap0_thresh max_jump min_duration = Inr res"
  shows "\<exists>track ap0 fs_yin f0 n t_under t_wo_nan f0_wo_nan f_spectra f_spectra_intervals
            freqs power binned step.
           mock_yin c sig (rate_value fs) fmin fmax yin_thresh undersample = Some (track, ap0) \<and>
           length ap0 = length track \<and>
           py_truediv (rate_value fs) undersample = Inr fs_yin \<and>
           remove_artifacts c
             (map (\<lambda>(x, a). if np_gt a (Num ap0_thresh) then NaN
                             else np_mul (Num 440) (np_power2 x)) (zip track ap0))
             fs_yin max_jump min_duration (fmin, fmax) (4 / 10, 25 / 10) 1500 = Some f0 \<and>
           f0_wo_nan = filter (\<lambda>x. \<not> np_isnan x) f0 \<and>
           py_len sig = Inr n \<and>
           slice_step (arange_div n (rate_value fs)) undersample = Inr t_under \<and>
           zip t_wo_nan f0_wo_nan = filter (\<lambda>(t, x). \<not> np_isnan x) (zip t_under f0) \<and>
           length t_wo_nan = length f0_wo_nan \<and>
           define_modulation_axis c mfmin mfmax modbank_Nmod =
             Some (f_spectra, f_spectra_intervals) \<and>
           lombscargle c t_wo_nan f0_wo_nan f_spectra = Some (freqs, power) \<and>
           interpmean c f_spectra (map (\<lambda>p. np_mul p (Num 2)) power) f_spectra_intervals =
             Some binned \<and>
           res = [Arr1 binned, Arr1 f_spectra, Params step]"
proof -
  from assms obtain f0 t_wo_nan f0_wo_nan f_spectra f_spectra_intervals freqs power binned
      fs_yin where
    T: "f0M_track c sig fs undersample fmin fmax yin_thresh ap0_thresh max_jump min_duration
          = Inr f0" and
    W: "f0M_wo_nan sig fs undersample f0 = Inr (t_wo_nan, f0_wo_nan)" and
    A: "define_modulation_axis c mfmin mfmax modbank_Nmod = Some (f_spectra, f_spectra_intervals)" and
    L: "lombscargle c t_wo_nan f0_wo_nan f_spectra = Some (freqs, power)" and
    I: "interpmean c f_spectra (map (\<lambda>p. np_mul p (Num 2)) power) f_spectra_intervals
          = Some binned" and
    res: "res = [Arr1 binned, Arr1 f_spectra,
                 Params (f0M_spec_params (arange_div (length f0) fs_yin) f0 f_spectra
                           f_spectra_intervals)]"
    by (auto simp: f0M_spectrum_def Let_def split: sum.splits option.splits prod.splits)
  from f0M_track_Inr[OF T] obtain track ap0 fs_yin' where
    Y: "mock_yin c sig (rate_value fs) fmin fmax yin_thresh undersample = Some (track, ap0)"
       "length ap0 = length track"
       "py_truediv (rate_value fs) undersample = Inr fs_yin'"
       "remove_artifacts c
             (map (\<lambda>(x, a). if np_gt a (Num ap0_thresh) then NaN
                             else np_mul (Num 440) (np_power2 x)) (zip track ap0))
             fs_yin' max_jump min_duration (fmin, fmax) (4 / 10, 25 / 10) 1500 = Some f0"
    by blast
  from f0M_wo_nan_Inr[OF W] obtain n t_under where
    N: "f0_wo_nan = filter (\<lambda>x. \<not> np_isnan x) f0"
       "length t_wo_nan = length f0_wo_nan"
       "py_len sig = Inr n"
       "slice_step (arange_div n (rate_value fs)) undersample = Inr t_under"
       "zip t_wo_nan f0_wo_nan = filter (\<lambda>(t, x). \<not> np_isnan x) (zip t_under f0)"
    by blast
  show ?thesis using Y N A L I res by blast
qed


lemmas f0M_spectrum_eval =
  f0M_spectrum_def f0M_track_def f0M_w_len_def f0M_wo_nan_def demo_def mask_assign_nan_def
  mask_select_def not_nan_mask_def np_isnan_def py_truediv_def slice_step_def arange_div_def
  np_sum_def upt2 Let_def replicate2

theorem f0M_spectrum_steps_witness:
  "\<exists>binned f_spectra step.
     f0M_spectrum demo (Ndarray [Num 0, Num 1, Num 0, Num 0]) (PyInt 2) (1 / 2) 200 2 2 60 550
       (2 / 10) (8 / 10) 10 (8 / 100) = Inr [Arr1 binned, Arr1 f_spectra, Params step] \<and>
     lombscargle demo [Num (1 / 2)] [Num 440] f_spectra \<noteq> None"
proof -
  have run: "f0M_spectrum demo (Ndarray [Num 0, Num 1, Num 0, Num 0]) (PyInt 2) (1 / 2) 200 2 2
       60 550 (2 / 10) (8 / 10) 10 (8 / 100) =
     Inr [Arr1 [Num 880, Num 880], Arr1 [Num 1, Num 2],
          Params (f0M_spec_params [Num 1, Num 2] [Num 440, NaN] [Num 1, Num 2]
                    [Num (1 / 2), Num (3 / 2), Num (5 / 2)])]"
    by (simp add: f0M_spectrum_eval)
  from f0M_spectrum_steps[OF run] show ?thesis
    unfolding run by (simp add: demo_def)
qed

section \<open>Validation in the f0M functions\<close>

lemma AM_entry_points_validate:
  assumes "\<not> is_ndarray sig \<or> \<not> is_int_or_float fs \<or> rate_le_zero fs"
  shows "\<exists>msg.
           AMa_spectrum c sig fs mfmin mfmax modbank_Nmod fmin fmax = Inl (ValueError msg) \<and>
           AMa_scalogram c sig fs window_NT mfmin mfmax modbank_Nmod fmin fmax
             = Inl (ValueError msg) \<and>
           AMi_spectrum c sig fs mfmin mfmax modbank_Nmod modbank_Qfactor fmin fmax
             = Inl (ValueError msg)"
  using assms
  by (auto simp: AMa_spectrum_def AMa_scalogram_def AMi_spectrum_def validate_def)

text \<open>
  Claim C2. \<open>AMa_spectrum\<close>, \<open>AMa_scalogram\<close> and \<open>AMi_spectrum\<close> open with the two
  checks of \<open>validate\<close>; \<open>f0M_spectrum\<close> and \<open>f0M_scalogram\<close> have none. Called with a
  plain list as signal and a negative sample rate, \<open>f0M_spectrum\<close> runs every collaborator
  and returns a result; called with a plain list and the sample rate 0, \<open>f0M_scalogram\<close>
  reaches the pitch tracker, whose failure is what the caller sees.
\<close>

theorem f0M_entry_points_do_not_validate:
  "f0M_spectrum demo (PyList [Num 0, Num 1, Num 0, Num 0]) (PyInt (- 2)) (1 / 2) 200 2 2
       60 550 (2 / 10) (8 / 10) 10 (8 / 100) =
     Inr [Arr1 [Num 880, Num 880], Arr1 [Num 1, Num 2],
          Params (f0M_spec_params [Num (- 1), Num (- 2)] [Num 440, NaN] [Num 1, Num 2]
                    [Num (1 / 2), Num (3 / 2), Num (5 / 2)])] \<and>
   f0M_scalogram (demo\<lparr>mock_yin := \<lambda>sig fs fmin fmax thresh u. None\<rparr>)
       (PyList [Num 0, Num 1, Num 0, Num 0]) (PyInt 0) 2 (1 / 2) 200 2 2
       60 550 (2 / 10) (8 / 10) 10 (8 / 100) =
     Inl (CollaboratorFailure ''mock_yin'')"
  by (simp add: f0M_spectrum_eval f0M_scalogram_def)


section \<open>The modulation index matrix of AMi_spectrum\<close>

lemma np_mul_one: "np_mul d (Num 1) = d"
  by (cases d) auto

lemma np_divide2_same_shape:
  assumes "length A = r" and "length B = r" and "0 < r"
    and "\<And>i. i < r \<Longrightarrow> length (A ! i) = k \<and> length (B ! i) = k"
  shows "np_divide2 A B =
           Inr (map (\<lambda>i. map (\<lambda>j. np_div (A ! i ! j) (B ! i ! j)) [0..<k]) [0..<r])"
proof -
  have nr: "nrows A = r" "nrows B = r" using assms by (simp_all add: nrows_def)
  have nc: "ncols A = k" "ncols B = k"
    using assms(1-3) assms(4)[of 0]
    by (cases A; cases B; simp add: ncols_def)+
  have idx: "broadcast_index e i = i" if "i < e" for e i
    using that by (auto simp: broadcast_index_def)
  show ?thesis
    by (simp add: np_divide2_def nr nc broadcast_extent_def idx cong: map_cong)
qed

lemma mean_axis0_transpose:
  assumes "E \<noteq> []" and "\<And>j. j < length E \<Longrightarrow> length (E ! j) = T" and "0 < T"
  shows "mean_axis0 (transpose E) = map np_mean E"
proof -
  have t1: "transpose E = map (\<lambda>t. map (\<lambda>j. E ! j ! t) [0..<length E]) [0..<T]"
    using assms by (intro transpose_rectangle) auto
  have "transpose (transpose E) =
          map (\<lambda>j. map (\<lambda>t. transpose E ! t ! j) [0..<length (transpose E)]) [0..<length E]"
    using assms unfolding t1 by (intro transpose_rectangle) auto
  also have "\<dots> = map (\<lambda>j. E ! j) [0..<length E]"
    using assms(2) unfolding t1
    by (auto intro!: nth_equalityI)
  also have "\<dots> = E" by (simp add: map_nth)
  finally show ?thesis by (simp add: mean_axis0_def)
qed

lemma transpose_AMrms:
  assumes "AMfilt \<noteq> []" and "\<And>i. i < length AMfilt \<Longrightarrow> length (AMfilt ! i) = n"
  shows "transpose (AMrms_of AMfilt) =
           map (\<lambda>j. map (\<lambda>i. rms_sqrt2 (AMfilt ! i ! j)) [0..<length AMfilt]) [0..<n]"
proof -
  have "transpose (AMrms_of AMfilt) =
          map (\<lambda>j. map (\<lambda>i. AMrms_of AMfilt ! i ! j) [0..<length (AMrms_of AMfilt)]) [0..<n]"
    using assms by (intro transpose_rectangle) (auto simp: AMrms_of_def)
  also have "\<dots> = map (\<lambda>j. map (\<lambda>i. rms_sqrt2 (AMfilt ! i ! j)) [0..<length AMfilt]) [0..<n]"
    using assms(2) by (auto simp: AMrms_of_def)
  finally show ?thesis .
qed

lemmas AMi_spectrum_eval =
  AMi_spectrum_def validate_def rate_le_zero_def demo_def demo_channel_major_def arange_div_def
  AMrms_of_def rms_sqrt2_def np_mean_def np_sum_def mean_axis0_def DC_matrix_def np_divide2_def
  nrows_def ncols_def broadcast_extent_def broadcast_index_def upt2 replicate2 replicate3 Let_def

lemma AMi_demo_run:
  "AMi_spectrum demo (Ndarray [Num 1, Num 1]) (PyInt 1) (1 / 2) 200 3 1 70 6700 =
     Inr [Arr2 [[Num (sqrt 2), Num (sqrt 2), Num (sqrt 2)],
                [Num (sqrt 2), Num (sqrt 2), Num (sqrt 2)]],
          Arr1 [Num 70, Num 6700], Arr1 [Num 1, Num 2, Num 3],
          Params (AMi_spec_params [Num 1, Num 2] [Num 70, Num 6700]
                    [[Num 1, Num 1], [Num 2, Num 2]] [[Num 1, Num 1], [Num 2, Num 2]]
                    [Num 1, Num 2, Num 3]
                    [[Num (sqrt 2), Num (2 * sqrt 2)], [Num (sqrt 2), Num (2 * sqrt 2)],
                     [Num (sqrt 2), Num (2 * sqrt 2)]]
                    [Num 1, Num 2])]"
  by (simp add: AMi_spectrum_eval)

text \<open>
  Claim C3, as stated, fails. With two channels and three modulation frequencies the
  matrix returned has two rows of three entries: one row per channel and one column per
  modulation frequency, not the reverse; the filterbank output is then indexed by
  modulation frequency first and channel second. When the filterbank output is indexed by
  channel first, the division raises for two channels and three modulation frequencies,
  and for two of each it divides the entry of modulation frequency \<open>i\<close> and channel \<open>j\<close>
  by the envelope mean of channel \<open>i\<close>.
\<close>

theorem AMi_spectrum_shape_counterexample:
  "AMi_spectrum demo (Ndarray [Num 1, Num 1]) (PyInt 1) (1 / 2) 200 3 1 70 6700 =
     Inr [Arr2 [[Num (sqrt 2), Num (sqrt 2), Num (sqrt 2)],
                [Num (sqrt 2), Num (sqrt 2), Num (sqrt 2)]],
          Arr1 [Num 70, Num 6700], Arr1 [Num 1, Num 2, Num 3],
          Params (AMi_spec_params [Num 1, Num 2] [Num 70, Num 6700]
                    [[Num 1, Num 1], [Num 2, Num 2]] [[Num 1, Num 1], [Num 2, Num 2]]
                    [Num 1, Num 2, Num 3]
                    [[Num (sqrt 2), Num (2 * sqrt 2)], [Num (sqrt 2), Num (2 * sqrt 2)],
                     [Num (sqrt 2), Num (2 * sqrt 2)]]
                    [Num 1, Num 2])] \<and>
   AMi_spectrum demo_channel_major (Ndarray [Num 1, Num 1]) (PyInt 1) (1 / 2) 200 3 1 70 6700 =
     Inl (ValueError ''operands could not be broadcast together'') \<and>
   AMi_spectrum demo_channel_major (Ndarray [Num 1, Num 1]) (PyInt 1) (1 / 2) 200 2 1 70 6700 =
     Inr [Arr2 [[Num (sqrt 2), Num (2 * sqrt 2)],
                [Num (sqrt 2 / 2), Num (sqrt 2)]],
          Arr1 [Num 70, Num 6700], Arr1 [Num 1, Num 2],
          Params (AMi_spec_params [Num 1, Num 2] [Num 70, Num 6700]
                    [[Num 1, Num 1], [Num 2, Num 2]] [[Num 1, Num 1], [Num 2, Num 2]]
                    [Num 1, Num 2]
                    [[Num (sqrt 2), Num (sqrt 2)], [Num (2 * sqrt 2), Num (2 * sqrt 2)]]
                    [Num 1, Num 2])]"
  by (simp add: AMi_demo_run) (simp add: AMi_spectrum_eval)

text \<open>
  Claim C3, amended. When \<open>AMi_spectrum\<close> returns and the modulation filterbank output
  is indexed by modulation frequency, channel and time (the envelope having at least one
  channel and one sample, and there being at least one modulation frequency), the matrix
  has one row per channel and one column per modulation frequency, and its entry at
  channel \<open>j\<close> and modulation frequency \<open>i\<close> is \<open>sqrt(2)\<close> times the RMS over time of the
  filterbank output for \<open>i\<close> and \<open>j\<close>, divided by the mean over time of the envelope of
  channel \<open>j\<close>.
\<close>

theorem AMi_spectrum_entries:
  assumes run: "AMi_spectrum c sig fs mfmin mfmax modbank_Nmod modbank_Qfactor fmin fmax = Inr res"
    and sig: "sig = Ndarray x"
    and fb: "auditory_filterbank c x (rate_value fs) fmin fmax = Some (gamma_responses, fc)"
    and env: "hilbert_envelope c gamma_responses = Some E"
    and mfb: "king2019_modfilterbank_updated c (transpose E) (rate_value fs) mfmin mfmax
                modbank_Nmod modbank_Qfactor = Some (AMfilt, mf)"
    and layout: "length AMfilt = length mf" "\<forall>i<length mf. length (AMfilt ! i) = length E"
    and rect: "E \<noteq> []" "mf \<noteq> []" "\<forall>j<length E. length (E ! j) = T" "0 < T"
  shows "\<exists>AMIspec step.
           res = [Arr2 AMIspec, Arr1 fc, Arr1 mf, Params step] \<and>
           length AMIspec = length E \<and>
           (\<forall>j<length E. length (AMIspec ! j) = length mf \<and>
              (\<forall>i<length mf.
                 AMIspec ! j ! i = np_div (rms_sqrt2 (AMfilt ! i ! j)) (np_mean (E ! j))))"
proof -
  let ?A = "transpose (AMrms_of AMfilt)"
  let ?B = "DC_matrix (mean_axis0 (transpose E)) (length mf)"
  from run sig fb env mfb obtain AMIspec f_bw where
    D: "np_divide2 ?A ?B = Inr AMIspec" and
    res: "res = [Arr2 AMIspec, Arr1 fc, Arr1 mf,
                 Params (AMi_spec_params (arange_div (length x) (rate_value fs)) f_bw
                           gamma_responses E mf (AMrms_of AMfilt) (mean_axis0 (transpose E)))]"
    by (auto simp: AMi_spectrum_def validate_def Let_def
             split: if_splits option.splits sum.splits)
  have A: "?A = map (\<lambda>j. map (\<lambda>i. rms_sqrt2 (AMfilt ! i ! j)) [0..<length mf]) [0..<length E]"
  proof -
    have ne: "AMfilt \<noteq> []" using layout(1) rect(2) by auto
    show ?thesis
      using transpose_AMrms[OF ne, of "length E"] layout by simp
  qed
  have B: "?B = map (\<lambda>d. replicate (length mf) d) (map np_mean E)"
    using mean_axis0_transpose[of E T] rect
    by (simp add: DC_matrix_def np_mul_one)
  have "np_divide2 ?A ?B =
          Inr (map (\<lambda>j. map (\<lambda>i. np_div (?A ! j ! i) (?B ! j ! i)) [0..<length mf])
                 [0..<length E])"
    using rect(1) by (intro np_divide2_same_shape) (simp_all add: A B)
  with D have M: "AMIspec = map (\<lambda>j. map (\<lambda>i. np_div (?A ! j ! i) (?B ! j ! i)) [0..<length mf])
                 [0..<length E]"
    by simp
  have "length AMIspec = length E" by (simp add: M)
  moreover have "\<forall>j<length E. length (AMIspec ! j) = length mf \<and>
              (\<forall>i<length mf.
                 AMIspec ! j ! i = np_div (rms_sqrt2 (AMfilt ! i ! j)) (np_mean (E ! j)))"
    unfolding M by (simp add: A B)
  ultimately show ?thesis using res by blast
qed


theorem AMi_spectrum_entries_witness:
  "\<exists>AMIspec step.
     AMi_spectrum demo (Ndarray [Num 1, Num 1]) (PyInt 1) (1 / 2) 200 3 1 70 6700 =
       Inr [Arr2 AMIspec, Arr1 [Num 70, Num 6700], Arr1 [Num 1, Num 2, Num 3], Params step] \<and>
     length AMIspec = 2 \<and> length (AMIspec ! 1) = 3 \<and>
     AMIspec ! 1 ! 2 = np_div (rms_sqrt2 [Num 2, Num 2]) (np_mean [Num 2, Num 2])"
proof -
  let ?E = "[[Num 1, Num 1], [Num 2, Num 2]]"
  have "\<exists>AMIspec step.
           [Arr2 [[Num (sqrt 2), Num (sqrt 2), Num (sqrt 2)],
                [Num (sqrt 2), Num (sqrt 2), Num (sqrt 2)]],
          Arr1 [Num 70, Num 6700], Arr1 [Num 1, Num 2, Num 3],
          Params (AMi_spec_params [Num 1, Num 2] [Num 70, Num 6700]
                    [[Num 1, Num 1], [Num 2, Num 2]] [[Num 1, Num 1], [Num 2, Num 2]]
                    [Num 1, Num 2, Num 3]
                    [[Num (sqrt 2), Num (2 * sqrt 2)], [Num (sqrt 2), Num (2 * sqrt 2)],
                     [Num (sqrt 2), Num (2 * sqrt 2)]]
                    [Num 1, Num 2])] = [Arr2 AMIspec, Arr1 [Num 70, Num 6700], Arr1 [Num 1, Num 2, Num 3], Params step] \<and>
           length AMIspec = length ?E \<and>
           (\<forall>j<length ?E. length (AMIspec ! j) = length [Num 1, Num 2, Num (3::real)] \<and>
              (\<forall>i<length [Num 1, Num 2, Num (3::real)].
                 AMIspec ! j ! i = np_div (rms_sqrt2 (replicate 3 ?E ! i ! j)) (np_mean (?E ! j))))"
    by (rule AMi_spectrum_entries[where c = demo and x = "[Num 1, Num 1]" and fs = "PyInt 1"
          and gamma_responses = ?E and E = ?E and T = 2 and AMfilt = "replicate 3 ?E",
          OF AMi_demo_run])
       (simp_all add: demo_def upt2 less_Suc_eq numeral_2_eq_2 numeral_3_eq_3)
  then obtain AMIspec step where
    eq: "AMi_spectrum demo (Ndarray [Num 1, Num 1]) (PyInt 1) (1 / 2) 200 3 1 70 6700 =
           Inr [Arr2 AMIspec, Arr1 [Num 70, Num 6700], Arr1 [Num 1, Num 2, Num 3], Params step]"
    and len: "length AMIspec = length ?E"
    and ent: "\<forall>j<length ?E. length (AMIspec ! j) = length [Num 1, Num 2, Num (3::real)] \<and>
              (\<forall>i<length [Num 1, Num 2, Num (3::real)].
                 AMIspec ! j ! i = np_div (rms_sqrt2 (replicate 3 ?E ! i ! j)) (np_mean (?E ! j)))"
    unfolding AMi_demo_run by blast
  from ent have "length (AMIspec ! 1) = 3 \<and>
      AMIspec ! 1 ! 2 = np_div (rms_sqrt2 (replicate 3 ?E ! 2 ! 1)) (np_mean (?E ! 1))"
    by simp
  with eq len show ?thesis by (simp add: replicate3)
qed


section \<open>The loops that fill the scalogram grids\<close>

lemma grid_set_Inr:
  assumes "grid_set G index col v = Inr G'"
  shows "G' = G[grid_row index (length G) := (G ! grid_row index (length G))[col := v]]"
    and "grid_row index (length G) < length G"
    and "col < length (G ! grid_row index (length G))"
    and "- int (length G) \<le> index" and "index < int (length G)"
  using assms by (auto simp: grid_set_def Let_def grid_row_def split: if_splits)

lemma grid_set_shape:
  assumes "grid_set G index col v = Inr G'"
  shows "length G' = length G" and "length (G' ! k) = length (G ! k)"
proof -
  note G' = grid_set_Inr(1)[OF assms] and lt = grid_set_Inr(2)[OF assms]
  show "length G' = length G" by (simp add: G')
  show "length (G' ! k) = length (G ! k)"
    using lt by (cases "k = grid_row index (length G)") (simp_all add: G')
qed

lemma grid_set_other:
  assumes "grid_set G index col v = Inr G'" and "j \<noteq> col \<or> k \<noteq> grid_row index (length G)"
  shows "G' ! k ! j = G ! k ! j"
proof -
  note G' = grid_set_Inr(1)[OF assms(1)] and lt = grid_set_Inr(2)[OF assms(1)]
  show ?thesis using assms(2) lt
    by (cases "k = grid_row index (length G)") (auto simp: G')
qed

lemma grid_set_same:
  assumes "grid_set G index col v = Inr G'"
  shows "G' ! grid_row index (length G) ! col = v"
  using grid_set_Inr[OF assms] by simp

lemma grid_set_ok:
  assumes "0 \<le> index" and "index < int (length G)" and "\<forall>k<length G. col < length (G ! k)"
  shows "\<exists>G'. grid_set G index col v = Inr G'"
proof -
  have "nat index < length G" using assms(1,2) by simp
  then have "col < length (G ! nat index)" using assms(3) by blast
  then show ?thesis using assms(1,2) by (simp add: grid_set_def Let_def grid_row_def)
qed

lemma grid_set_error:
  assumes "grid_set G index col v = Inl e"
  shows "is_grid_error e"
  using assms by (auto simp: grid_set_def Let_def is_grid_error_def split: if_splits)

lemma place_estimates_shape:
  assumes "place_estimates est wl col iwins G = Inr G'"
  shows "length G' = length G \<and> (\<forall>k. length (G' ! k) = length (G ! k))"
  using assms
proof (induction iwins arbitrary: G)
  case Nil
  then show ?case by simp
next
  case (Cons iwin rest)
  from Cons.prems obtain v r G1 where
    S: "grid_set G (int iwin + r) col v = Inr G1" and
    R: "place_estimates est wl col rest G1 = Inr G'"
    by (auto split: sum.splits)
  from Cons.IH[OF R] grid_set_shape[OF S] show ?case by simp
qed

lemma place_estimates_offset:
  assumes "place_estimates est wl col iwins G = Inr G'" and "iwins \<noteq> []"
  shows "\<exists>r. half_window_offset wl = Inr r"
  using assms by (cases iwins) (auto split: sum.splits)

lemma place_estimates_other:
  assumes "place_estimates est wl col iwins G = Inr G'"
    and "j \<noteq> col \<or> (\<forall>r. half_window_offset wl = Inr r \<longrightarrow>
                        (\<forall>iwin\<in>set iwins. k \<noteq> grid_row (int iwin + r) (length G)))"
  shows "G' ! k ! j = G ! k ! j"
  using assms
proof (induction iwins arbitrary: G)
  case Nil
  then show ?case by simp
next
  case (Cons iwin rest)
  from Cons.prems(1) obtain v r G1 where
    O: "half_window_offset wl = Inr r" and
    S: "grid_set G (int iwin + r) col v = Inr G1" and
    R: "place_estimates est wl col rest G1 = Inr G'"
    by (auto split: sum.splits)
  have len: "length G1 = length G" using grid_set_shape[OF S] by simp
  have "G' ! k ! j = G1 ! k ! j"
    using Cons.prems(2) by (intro Cons.IH[OF R]) (auto simp: len)
  also have "G1 ! k ! j = G ! k ! j"
    using Cons.prems(2) O by (intro grid_set_other[OF S]) auto
  finally show ?case .
qed

lemma place_estimates_placed:
  assumes "place_estimates est wl col iwins G = Inr G'"
    and "distinct iwins" and "iwin \<in> set iwins"
    and "half_window_offset wl = Inr r" and "0 \<le> r"
  shows "\<exists>v. est iwin = Inr v \<and> int iwin + r < int (length G) \<and>
             G' ! nat (int iwin + r) ! col = v"
  using assms(1-3)
proof (induction iwins arbitrary: G)
  case Nil
  then show ?case by simp
next
  case (Cons i rest)
  from Cons.prems(1) assms(4) obtain v G1 where
    E: "est i = Inr v" and
    S: "grid_set G (int i + r) col v = Inr G1" and
    R: "place_estimates est wl col rest G1 = Inr G'"
    by (auto split: sum.splits)
  have len: "length G1 = length G" using grid_set_shape[OF S] by simp
  have row: "grid_row (int m + r) n = nat (int m + r)" for m n
    using assms(5) by (simp add: grid_row_def)
  show ?case
  proof (cases "iwin = i")
    case True
    have "G' ! nat (int i + r) ! col = G1 ! nat (int i + r) ! col"
    proof (rule place_estimates_other[OF R], rule disjI2, intro allI impI ballI)
      fix r' m assume "half_window_offset wl = Inr r'" and m: "m \<in> set rest"
      then have "r' = r" using assms(4) by simp
      moreover have "m \<noteq> i" using m Cons.prems(2) by auto
      ultimately show "nat (int i + r) \<noteq> grid_row (int m + r') (length G1)"
        using assms(5) by (simp add: row)
    qed
    also have "\<dots> = v" using grid_set_same[OF S] by (simp add: row)
    finally show ?thesis using True E grid_set_Inr(5)[OF S] by simp
  next
    case False
    then have "iwin \<in> set rest" using Cons.prems(3) by simp
    moreover have "distinct rest" using Cons.prems(2) by simp
    ultimately show ?thesis using Cons.IH[OF R] len by simp
  qed
qed

lemma py_round_error:
  assumes "py_round x = Inl e"
  shows "\<not> is_grid_error e"
  using assms by (cases x) (auto simp: is_grid_error_def)

lemma half_window_offset_error:
  assumes "half_window_offset wl = Inl e"
  shows "\<not> is_grid_error e"
  using assms py_round_error by (auto simp: half_window_offset_def)

lemma place_estimates_no_grid_error:
  assumes "place_estimates est wl col iwins G = Inl e"
    and "\<forall>iwin\<in>set iwins. \<forall>r. half_window_offset wl = Inr r \<longrightarrow>
            0 \<le> int iwin + r \<and> int iwin + r < int (length G)"
    and "\<forall>k<length G. col < length (G ! k)"
    and "\<forall>iwin e'. est iwin = Inl e' \<longrightarrow> \<not> is_grid_error e'"
  shows "\<not> is_grid_error e"
  using assms(1-3)
proof (induction iwins arbitrary: G)
  case Nil
  then show ?case by simp
next
  case (Cons i rest)
  show ?case
  proof (cases "est i")
    case (Inl e')
    then show ?thesis using Cons.prems(1) assms(4) by auto
  next
    case (Inr v)
    note E = this
    show ?thesis
    proof (cases "half_window_offset wl")
      case (Inl e')
      then have "e = e'" using Cons.prems(1) E by simp
      moreover have "\<not> is_grid_error e'"
        using Inl by (rule half_window_offset_error)
      ultimately show ?thesis by simp
    next
      case (Inr r)
      from Cons.prems(2) Inr have b: "0 \<le> int i + r" "int i + r < int (length G)" by auto
      from grid_set_ok[OF b Cons.prems(3)] obtain G1 where
        S: "grid_set G (int i + r) col v = Inr G1" by blast
      have R: "place_estimates est wl col rest G1 = Inl e"
        using Cons.prems(1) E Inr S by simp
      have sh: "length G1 = length G" "\<And>k. length (G1 ! k) = length (G ! k)"
        using grid_set_shape[OF S] by auto
      show ?thesis
        using Cons.prems(2,3) by (intro Cons.IH[OF R]) (auto simp: sh)
    qed
  qed
qed


lemma AMa_fill_windows_place:
  "AMa_fill_windows c windows fs f wl ifreq iwins G =
     place_estimates (AMa_window_estimate c windows fs f) wl ifreq iwins G"
  by (induction iwins arbitrary: G) (auto simp: AMa_window_estimate_def split: sum.splits)

lemma f0M_fill_windows_place:
  "f0M_fill_windows c windows t_windows f wl ifreq iwins G =
     place_estimates (f0M_window_estimate c windows t_windows f) wl ifreq iwins G"
  by (induction iwins arbitrary: G) (auto simp: f0M_window_estimate_def split: sum.splits)

lemma AMa_fill_freqs_Cons:
  assumes "AMa_fill_freqs c E ichan fs window_NT f_spectra (ifreq # rest) (G, n) = Inr (G', n')"
  shows "\<exists>windows G1.
           ifreq < length f_spectra \<and> ichan < length E \<and>
           segment_into_windows c (E ! ichan) fs
             (window_length_of window_NT (f_spectra ! ifreq)) (Num (1 / 10)) True = Some windows \<and>
           place_estimates (AMa_window_estimate c windows fs (f_spectra ! ifreq))
             (window_length_of window_NT (f_spectra ! ifreq)) ifreq [0..<length windows] G
             = Inr G1 \<and>
           AMa_fill_freqs c E ichan fs window_NT f_spectra rest (G1, length windows)
             = Inr (G', n')"
  using assms
  by (auto simp: get_item_def Let_def AMa_fill_windows_place
           split: if_splits sum.splits option.splits)

lemma AMa_fill_freqs_shape:
  assumes "AMa_fill_freqs c E ichan fs window_NT f_spectra ifreqs (G, n) = Inr (G', n')"
  shows "length G' = length G \<and> (\<forall>k. length (G' ! k) = length (G ! k))"
  using assms
proof (induction ifreqs arbitrary: G n)
  case Nil
  then show ?case by simp
next
  case (Cons ifreq rest)
  from AMa_fill_freqs_Cons[OF Cons.prems] obtain windows G1 where
    P: "place_estimates (AMa_window_estimate c windows fs (f_spectra ! ifreq))
             (window_length_of window_NT (f_spectra ! ifreq)) ifreq [0..<length windows] G
             = Inr G1" and
    R: "AMa_fill_freqs c E ichan fs window_NT f_spectra rest (G1, length windows) = Inr (G', n')"
    by blast
  from Cons.IH[OF R] place_estimates_shape[OF P] show ?case by simp
qed

lemma AMa_fill_freqs_other:
  assumes "AMa_fill_freqs c E ichan fs window_NT f_spectra ifreqs (G, n) = Inr (G', n')"
    and "j \<notin> set ifreqs \<or> \<not> AMa_written c E ichan fs window_NT f_spectra (length G) k j"
  shows "G' ! k ! j = G ! k ! j"
  using assms
proof (induction ifreqs arbitrary: G n)
  case Nil
  then show ?case by simp
next
  case (Cons ifreq rest)
  let ?wl = "window_length_of window_NT (f_spectra ! ifreq)"
  from AMa_fill_freqs_Cons[OF Cons.prems(1)] obtain windows G1 where
    W: "segment_into_windows c (E ! ichan) fs ?wl (Num (1 / 10)) True = Some windows" and
    P: "place_estimates (AMa_window_estimate c windows fs (f_spectra ! ifreq)) ?wl ifreq
          [0..<length windows] G = Inr G1" and
    R: "AMa_fill_freqs c E ichan fs window_NT f_spectra rest (G1, length windows) = Inr (G', n')"
    by blast
  have len: "length G1 = length G" using place_estimates_shape[OF P] by simp
  have "G' ! k ! j = G1 ! k ! j"
    using Cons.prems(2) by (intro Cons.IH[OF R]) (auto simp: len)
  also have "G1 ! k ! j = G ! k ! j"
  proof (rule place_estimates_other[OF P])
    show "j \<noteq> ifreq \<or> (\<forall>r. half_window_offset ?wl = Inr r \<longrightarrow>
            (\<forall>iwin\<in>set [0..<length windows]. k \<noteq> grid_row (int iwin + r) (length G)))"
    proof (cases "j = ifreq")
      case True
      with Cons.prems(2) have "\<not> AMa_written c E ichan fs window_NT f_spectra (length G) k ifreq"
        by auto
      then show ?thesis
        using W by (fastforce simp: AMa_written_def Let_def list_ex_iff)
    next
      case False
      then show ?thesis by simp
    qed
  qed
  finally show ?case .
qed

lemma AMa_fill_freqs_placed:
  assumes "AMa_fill_freqs c E ichan fs window_NT f_spectra ifreqs (G, n) = Inr (G', n')"
    and "distinct ifreqs" and "ifreq \<in> set ifreqs"
  shows "\<exists>windows.
           ifreq < length f_spectra \<and> ichan < length E \<and>
           segment_into_windows c (E ! ichan) fs
             (window_length_of window_NT (f_spectra ! ifreq)) (Num (1 / 10)) True = Some windows \<and>
           (\<forall>iwin<length windows. \<forall>r.
              half_window_offset (window_length_of window_NT (f_spectra ! ifreq)) = Inr r \<longrightarrow>
              0 \<le> r \<longrightarrow>
              (\<exists>v. AMa_estimate c (windows ! iwin) fs (f_spectra ! ifreq) = Inr v \<and>
                   int iwin + r < int (length G) \<and>
                   G' ! nat (int iwin + r) ! ifreq = v))"
  using assms
proof (induction ifreqs arbitrary: G n)
  case Nil
  then show ?case by simp
next
  case (Cons i rest)
  let ?wl = "window_length_of window_NT (f_spectra ! i)"
  from AMa_fill_freqs_Cons[OF Cons.prems(1)] obtain windows G1 where
    B: "i < length f_spectra" "ichan < length E" and
    W: "segment_into_windows c (E ! ichan) fs ?wl (Num (1 / 10)) True = Some windows" and
    P: "place_estimates (AMa_window_estimate c windows fs (f_spectra ! i)) ?wl i
          [0..<length windows] G = Inr G1" and
    R: "AMa_fill_freqs c E ichan fs window_NT f_spectra rest (G1, length windows) = Inr (G', n')"
    by blast
  have len: "length G1 = length G" using place_estimates_shape[OF P] by simp
  show ?case
  proof (cases "ifreq = i")
    case True
    have ni: "i \<notin> set rest" using Cons.prems(2) by simp
    have "\<exists>v. AMa_estimate c (windows ! iwin) fs (f_spectra ! i) = Inr v \<and>
                   int iwin + r < int (length G) \<and> G' ! nat (int iwin + r) ! i = v"
      if "iwin < length windows" and "half_window_offset ?wl = Inr r" and "0 \<le> r" for iwin r
    proof -
      from place_estimates_placed[OF P distinct_upt _ that(2,3), of iwin] that(1)
      obtain v where v: "AMa_window_estimate c windows fs (f_spectra ! i) iwin = Inr v"
        "int iwin + r < int (length G)" "G1 ! nat (int iwin + r) ! i = v"
        by auto
      have "G' ! nat (int iwin + r) ! i = G1 ! nat (int iwin + r) ! i"
        using ni by (intro AMa_fill_freqs_other[OF R]) simp
      with v that(1) show ?thesis
        by (auto simp: AMa_window_estimate_def get_item_def)
    qed
    with True B W show ?thesis by blast
  next
    case False
    then have "ifreq \<in> set rest" using Cons.prems(3) by simp
    moreover have "distinct rest" using Cons.prems(2) by simp
    ultimately show ?thesis using Cons.IH[OF R] len by simp
  qed
qed


lemma f0M_fill_freqs_Cons:
  assumes "f0M_fill_freqs c f0 t_yin fs_yin window_NT f_spectra (ifreq # rest) G = Inr G'"
  shows "\<exists>windows t_windows G1.
           ifreq < length f_spectra \<and>
           segment_into_windows c f0 fs_yin
             (window_length_of window_NT (f_spectra ! ifreq)) (Num (1 / 10)) False = Some windows \<and>
           segment_into_windows c t_yin fs_yin
             (window_length_of window_NT (f_spectra ! ifreq)) (Num (1 / 10)) False
             = Some t_windows \<and>
           place_estimates (f0M_window_estimate c windows t_windows (f_spectra ! ifreq))
             (window_length_of window_NT (f_spectra ! ifreq)) ifreq [0..<length windows] G
             = Inr G1 \<and>
           f0M_fill_freqs c f0 t_yin fs_yin window_NT f_spectra rest G1 = Inr G'"
  using assms
  by (auto simp: get_item_def Let_def f0M_fill_windows_place
           split: if_splits sum.splits option.splits)

lemma f0M_fill_freqs_shape:
  assumes "f0M_fill_freqs c f0 t_yin fs_yin window_NT f_spectra ifreqs G = Inr G'"
  shows "length G' = length G \<and> (\<forall>k. length (G' ! k) = length (G ! k))"
  using assms
proof (induction ifreqs arbitrary: G)
  case Nil
  then show ?case by simp
next
  case (Cons ifreq rest)
  from f0M_fill_freqs_Cons[OF Cons.prems] obtain windows t_windows G1 where
    P: "place_estimates (f0M_window_estimate c windows t_windows (f_spectra ! ifreq))
             (window_length_of window_NT (f_spectra ! ifreq)) ifreq [0..<length windows] G
             = Inr G1" and
    R: "f0M_fill_freqs c f0 t_yin fs_yin window_NT f_spectra rest G1 = Inr G'"
    by blast
  from Cons.IH[OF R] place_estimates_shape[OF P] show ?case by simp
qed

lemma f0M_fill_freqs_other:
  assumes "f0M_fill_freqs c f0 t_yin fs_yin window_NT f_spectra ifreqs G = Inr G'"
    and "j \<notin> set ifreqs"
  shows "G' ! k ! j = G ! k ! j"
  using assms
proof (induction ifreqs arbitrary: G)
  case Nil
  then show ?case by simp
next
  case (Cons ifreq rest)
  from f0M_fill_freqs_Cons[OF Cons.prems(1)] obtain windows t_windows G1 where
    P: "place_estimates (f0M_window_estimate c windows t_windows (f_spectra ! ifreq))
             (window_length_of window_NT (f_spectra ! ifreq)) ifreq [0..<length windows] G
             = Inr G1" and
    R: "f0M_fill_freqs c f0 t_yin fs_yin window_NT f_spectra rest G1 = Inr G'"
    by blast
  have "G' ! k ! j = G1 ! k ! j" using Cons.prems(2) by (intro Cons.IH[OF R]) simp
  also have "G1 ! k ! j = G ! k ! j"
    using Cons.prems(2) by (intro place_estimates_other[OF P]) simp
  finally show ?case .
qed

lemma f0M_fill_freqs_placed:
  assumes "f0M_fill_freqs c f0 t_yin fs_yin window_NT f_spectra ifreqs G = Inr G'"
    and "distinct ifreqs" and "ifreq \<in> set ifreqs"
  shows "\<exists>windows t_windows.
           ifreq < length f_spectra \<and>
           segment_into_windows c f0 fs_yin
             (window_length_of window_NT (f_spectra ! ifreq)) (Num (1 / 10)) False = Some windows \<and>
           segment_into_windows c t_yin fs_yin
             (window_length_of window_NT (f_spectra ! ifreq)) (Num (1 / 10)) False
             = Some t_windows \<and>
           (\<forall>iwin<length windows. \<forall>r.
              half_window_offset (window_length_of window_NT (f_spectra ! ifreq)) = Inr r \<longrightarrow>
              0 \<le> r \<longrightarrow>
              (\<exists>v. iwin < length t_windows \<and>
                   f0M_estimate c (t_windows ! iwin) (windows ! iwin) (f_spectra ! ifreq) = Inr v \<and>
                   int iwin + r < int (length G) \<and>
                   G' ! nat (int iwin + r) ! ifreq = v))"
  using assms
proof (induction ifreqs arbitrary: G)
  case Nil
  then show ?case by simp
next
  case (Cons i rest)
  let ?wl = "window_length_of window_NT (f_spectra ! i)"
  from f0M_fill_freqs_Cons[OF Cons.prems(1)] obtain windows t_windows G1 where
    B: "i < length f_spectra" and
    W: "segment_into_windows c f0 fs_yin ?wl (Num (1 / 10)) False = Some windows"
       "segment_into_windows c t_yin fs_yin ?wl (Num (1 / 10)) False = Some t_windows" and
    P: "place_estimates (f0M_window_estimate c windows t_windows (f_spectra ! i)) ?wl i
          [0..<length windows] G = Inr G1" and
    R: "f0M_fill_freqs c f0 t_yin fs_yin window_NT f_spectra rest G1 = Inr G'"
    by blast
  have len: "length G1 = length G" using place_estimates_shape[OF P] by simp
  show ?case
  proof (cases "ifreq = i")
    case True
    have ni: "i \<notin> set rest" using Cons.prems(2) by simp
    have "\<exists>v. iwin < length t_windows \<and>
               f0M_estimate c (t_windows ! iwin) (windows ! iwin) (f_spectra ! i) = Inr v \<and>
               int iwin + r < int (length G) \<and> G' ! nat (int iwin + r) ! i = v"
      if "iwin < length windows" and "half_window_offset ?wl = Inr r" and "0 \<le> r" for iwin r
    proof -
      from place_estimates_placed[OF P distinct_upt _ that(2,3), of iwin] that(1)
      obtain v where v: "f0M_window_estimate c windows t_windows (f_spectra ! i) iwin = Inr v"
        "int iwin + r < int (length G)" "G1 ! nat (int iwin + r) ! i = v"
        by auto
      have "G' ! nat (int iwin + r) ! i = G1 ! nat (int iwin + r) ! i"
        using ni by (intro f0M_fill_freqs_other[OF R]) simp
      with v that(1) show ?thesis
        by (auto simp: f0M_window_estimate_def get_item_def split: if_splits)
    qed
    with True B W show ?thesis by blast
  next
    case False
    then have "ifreq \<in> set rest" using Cons.prems(3) by simp
    moreover have "distinct rest" using Cons.prems(2) by simp
    ultimately show ?thesis using Cons.IH[OF R] len by simp
  qed
qed


subsection \<open>The row offset in float64\<close>

text \<open>
  A rounding is worked out from the binary exponent of its argument; the four operations
  of an offset, after the two operands, are worked out one after the other.
\<close>

lemma float64_round_eval:
  assumes "2 powi k \<le> \<bar>x\<bar>" and "\<bar>x\<bar> < 2 powi (k + 1)" and "- 1022 \<le> k"
  shows "float64_round x = of_int (round_half_even (x / 2 powi (k - 52))) * 2 powi (k - 52)"
proof -
  have pos: "0 < \<bar>x\<bar>"
    using assms(1) by (smt (verit) zero_less_power_int)
  have a: "2 powr real_of_int k = 2 powi k" "2 powr (real_of_int k + 1) = 2 powi (k + 1)"
    using powr_real_of_int'[of 2 k] powr_real_of_int'[of 2 "k + 1"] by simp_all
  have "\<lfloor>log 2 \<bar>x\<bar>\<rfloor> = k"
    using assms pos by (simp add: floor_log_eq_powr_iff a)
  with pos assms(3) show ?thesis by (auto simp: float64_round_def Let_def max_def)
qed

lemma round_half_even_nonneg:
  assumes "0 \<le> x"
  shows "0 \<le> round_half_even x"
proof -
  have "0 \<le> \<lfloor>x\<rfloor>" using assms by simp
  then show ?thesis by (auto simp: round_half_even_def Let_def)
qed

lemma float64_round_nonneg:
  assumes "0 \<le> x"
  shows "0 \<le> float64_round x"
  using assms round_half_even_nonneg[of "x / 2 powi (max \<lfloor>log 2 \<bar>x\<bar>\<rfloor> (- 1022) - 52)"]
  by (auto simp: float64_round_def Let_def intro!: mult_nonneg_nonneg)

lemma np_round64_Num:
  assumes "float64_round a = q" and "\<bar>q\<bar> < float64_overflow"
  shows "np_round64 (Num a) = Num q"
  using assms by (auto simp: Let_def)

lemma half_window_offset_eval:
  assumes "a' \<noteq> 0"
    and "float64_round a = a'"
    and "float64_round w = w'"
    and "float64_round (1 / a') = q1"
    and "float64_round (w' * q1) = q2"
    and "float64_round (q2 / 2) = q3"
    and "float64_round (q3 / float_tenth) = q4"
    and "\<forall>q\<in>{a', w', q1, q2, q3, q4}. \<bar>q\<bar> < float64_overflow"
  shows "half_window_offset (window_length_of w (Num a)) = Inr (round_half_even q4)"
proof -
  have t: "float_tenth \<noteq> 0" by (simp add: float_tenth_def)
  have r: "np_round64 (Num a) = Num a'" "np_round64 (Num w) = Num w'"
    "np_round64 (Num (1 / a')) = Num q1" "np_round64 (Num (w' * q1)) = Num q2"
    "np_round64 (Num (q2 / 2)) = Num q3" "np_round64 (Num (q3 / float_tenth)) = Num q4"
    using assms(8)
    by (simp_all only: np_round64_Num[OF assms(2)] np_round64_Num[OF assms(3)]
          np_round64_Num[OF assms(4)] np_round64_Num[OF assms(5)] np_round64_Num[OF assms(6)]
          np_round64_Num[OF assms(7)] insert_iff ball_simps simp_thms)
  show ?thesis
    using assms(1) t
    by (simp add: half_window_offset_def window_length_of_def f64_mul_def f64_div_def r
             del: np_round64.simps)
qed

lemma offset_fifth_1:
  "half_window_offset (window_length_of (1 / 5) (Num 1)) = Inr 1"
proof -
  have "half_window_offset (window_length_of (1 / 5) (Num 1)) =
          Inr (round_half_even (1))"
  proof (rule half_window_offset_eval[where a' = "1"
        and w' = "3602879701896397 / 18014398509481984" and ?q1.0 = "1"
        and ?q2.0 = "3602879701896397 / 18014398509481984"
        and ?q3.0 = "3602879701896397 / 36028797018963968"])
    show "(1::real) \<noteq> 0" by simp
    show "\<forall>q\<in>{1, 3602879701896397 / 18014398509481984, 1,
              3602879701896397 / 18014398509481984,
              3602879701896397 / 36028797018963968, 1}. \<bar>q\<bar> < float64_overflow"
      by (simp add: float64_overflow_def)
    show "float64_round (1) = 1"
      by (rule trans[OF float64_round_eval[where k = "0"]])
         (simp_all add: round_half_even_def float_tenth_def Let_def power_int_minus)
    show "float64_round (1 / 5) = 3602879701896397 / 18014398509481984"
      by (rule trans[OF float64_round_eval[where k = "-3"]])
         (simp_all add: round_half_even_def float_tenth_def Let_def power_int_minus)
    show "float64_round (1 / 1) = 1"
      by (rule trans[OF float64_round_eval[where k = "0"]])
         (simp_all add: round_half_even_def float_tenth_def Let_def power_int_minus)
    show "float64_round ((3602879701896397 / 18014398509481984) * (1))
            = 3602879701896397 / 18014398509481984"
      by (rule trans[OF float64_round_eval[where k = "-3"]])
         (simp_all add: round_half_even_def float_tenth_def Let_def power_int_minus)
    show "float64_round ((3602879701896397 / 18014398509481984) / 2)
            = 3602879701896397 / 36028797018963968"
      by (rule trans[OF float64_round_eval[where k = "-4"]])
         (simp_all add: round_half_even_def float_tenth_def Let_def power_int_minus)
    show "float64_round ((3602879701896397 / 36028797018963968) / float_tenth) = 1"
      by (rule trans[OF float64_round_eval[where k = "0"]])
         (simp_all add: round_half_even_def float_tenth_def Let_def power_int_minus)
  qed
  then show ?thesis by (simp add: round_half_even_def Let_def floor_minus)
qed

lemma offset_fifth_2:
  "half_window_offset (window_length_of (1 / 5) (Num 2)) = Inr 0"
proof -
  have "half_window_offset (window_length_of (1 / 5) (Num 2)) =
          Inr (round_half_even (1 / 2))"
  proof (rule half_window_offset_eval[where a' = "2"
        and w' = "3602879701896397 / 18014398509481984" and ?q1.0 = "1 / 2"
        and ?q2.0 = "3602879701896397 / 36028797018963968"
        and ?q3.0 = "3602879701896397 / 72057594037927936"])
    show "(2::real) \<noteq> 0" by simp
    show "\<forall>q\<in>{2, 3602879701896397 / 18014398509481984, 1 / 2,
              3602879701896397 / 36028797018963968,
              3602879701896397 / 72057594037927936, 1 / 2}. \<bar>q\<bar> < float64_overflow"
      by (simp add: float64_overflow_def)
    show "float64_round (2) = 2"
      by (rule trans[OF float64_round_eval[where k = "1"]])
         (simp_all add: round_half_even_def float_tenth_def Let_def power_int_minus)
    show "float64_round (1 / 5) = 3602879701896397 / 18014398509481984"
      by (rule trans[OF float64_round_eval[where k = "-3"]])
         (simp_all add: round_half_even_def float_tenth_def Let_def power_int_minus)
    show "float64_round (1 / 2) = 1 / 2"
      by (rule trans[OF float64_round_eval[where k = "-1"]])
         (simp_all add: round_half_even_def float_tenth_def Let_def power_int_minus)
    show "float64_round ((3602879701896397 / 18014398509481984) * (1 / 2))
            = 3602879701896397 / 36028797018963968"
      by (rule trans[OF float64_round_eval[where k = "-4"]])
         (simp_all add: round_half_even_def float_tenth_def Let_def power_int_minus)
    show "float64_round ((3602879701896397 / 36028797018963968) / 2)
            = 3602879701896397 / 72057594037927936"
      by (rule trans[OF float64_round_eval[where k = "-5"]])
         (simp_all add: round_half_even_def float_tenth_def Let_def power_int_minus)
    show "float64_round ((3602879701896397 / 72057594037927936) / float_tenth) = 1 / 2"
      by (rule trans[OF float64_round_eval[where k = "-1"]])
         (simp_all add: round_half_even_def float_tenth_def Let_def power_int_minus)
  qed
  then show ?thesis by (simp add: round_half_even_def Let_def floor_minus)
qed

lemma offset_minus_two_fifths_1:
  "half_window_offset (window_length_of (- (2 / 5)) (Num 1)) = Inr (- 2)"
proof -
  have "half_window_offset (window_length_of (- (2 / 5)) (Num 1)) =
          Inr (round_half_even (- 2))"
  proof (rule half_window_offset_eval[where a' = "1"
        and w' = "- (3602879701896397 / 9007199254740992)" and ?q1.0 = "1"
        and ?q2.0 = "- (3602879701896397 / 9007199254740992)"
        and ?q3.0 = "- (3602879701896397 / 18014398509481984)"])
    show "(1::real) \<noteq> 0" by simp
    show "\<forall>q\<in>{1, - (3602879701896397 / 9007199254740992), 1,
              - (3602879701896397 / 9007199254740992),
              - (3602879701896397 / 18014398509481984), - 2}. \<bar>q\<bar> < float64_overflow"
      by (simp add: float64_overflow_def)
    show "float64_round (1) = 1"
      by (rule trans[OF float64_round_eval[where k = "0"]])
         (simp_all add: round_half_even_def float_tenth_def Let_def power_int_minus)
    show "float64_round (- (2 / 5)) = - (3602879701896397 / 9007199254740992)"
      by (rule trans[OF float64_round_eval[where k = "-2"]])
         (simp_all add: round_half_even_def float_tenth_def Let_def power_int_minus)
    show "float64_round (1 / 1) = 1"
      by (rule trans[OF float64_round_eval[where k = "0"]])
         (simp_all add: round_half_even_def float_tenth_def Let_def power_int_minus)
    show "float64_round ((- (3602879701896397 / 9007199254740992)) * (1))
            = - (3602879701896397 / 9007199254740992)"
      by (rule trans[OF float64_round_eval[where k = "-2"]])
         (simp_all add: round_half_even_def float_tenth_def Let_def power_int_minus)
    show "float64_round ((- (3602879701896397 / 9007199254740992)) / 2)
            = - (3602879701896397 / 18014398509481984)"
      by (rule trans[OF float64_round_eval[where k = "-3"]])
         (simp_all add: round_half_even_def float_tenth_def Let_def power_int_minus)
    show "float64_round ((- (3602879701896397 / 18014398509481984)) / float_tenth) = - 2"
      by (rule trans[OF float64_round_eval[where k = "1"]])
         (simp_all add: round_half_even_def float_tenth_def Let_def power_int_minus)
  qed
  then show ?thesis by (simp add: round_half_even_def Let_def floor_minus)
qed

lemma offset_minus_fifth_1:
  "half_window_offset (window_length_of (- (1 / 5)) (Num 1)) = Inr (- 1)"
proof -
  have "half_window_offset (window_length_of (- (1 / 5)) (Num 1)) =
          Inr (round_half_even (- 1))"
  proof (rule half_window_offset_eval[where a' = "1"
        and w' = "- (3602879701896397 / 18014398509481984)" and ?q1.0 = "1"
        and ?q2.0 = "- (3602879701896397 / 18014398509481984)"
        and ?q3.0 = "- (3602879701896397 / 36028797018963968)"])
    show "(1::real) \<noteq> 0" by simp
    show "\<forall>q\<in>{1, - (3602879701896397 / 18014398509481984), 1,
              - (3602879701896397 / 18014398509481984),
              - (3602879701896397 / 36028797018963968), - 1}. \<bar>q\<bar> < float64_overflow"
      by (simp add: float64_overflow_def)
    show "float64_round (1) = 1"
      by (rule trans[OF float64_round_eval[where k = "0"]])
         (simp_all add: round_half_even_def float_tenth_def Let_def power_int_minus)
    show "float64_round (- (1 / 5)) = - (3602879701896397 / 18014398509481984)"
      by (rule trans[OF float64_round_eval[where k = "-3"]])
         (simp_all add: round_half_even_def float_tenth_def Let_def power_int_minus)
    show "float64_round (1 / 1) = 1"
      by (rule trans[OF float64_round_eval[where k = "0"]])
         (simp_all add: round_half_even_def float_tenth_def Let_def power_int_minus)
    show "float64_round ((- (3602879701896397 / 18014398509481984)) * (1))
            = - (3602879701896397 / 18014398509481984)"
      by (rule trans[OF float64_round_eval[where k = "-3"]])
         (simp_all add: round_half_even_def float_tenth_def Let_def power_int_minus)
    show "float64_round ((- (3602879701896397 / 18014398509481984)) / 2)
            = - (3602879701896397 / 36028797018963968)"
      by (rule trans[OF float64_round_eval[where k = "-4"]])
         (simp_all add: round_half_even_def float_tenth_def Let_def power_int_minus)
    show "float64_round ((- (3602879701896397 / 36028797018963968)) / float_tenth) = - 1"
      by (rule trans[OF float64_round_eval[where k = "0"]])
         (simp_all add: round_half_even_def float_tenth_def Let_def power_int_minus)
  qed
  then show ?thesis by (simp add: round_half_even_def Let_def floor_minus)
qed

text \<open>
  Rounding matters. For \<open>window_NT = 9\<close> at 30 Hz and for \<open>window_NT = 0.3\<close> at 1 Hz the
  quotient is just below 1.5 in float64 and the offset is 1; for \<open>window_NT = 3\<close> at 10 Hz
  it is just above 1.5 and the offset is 2. In exact arithmetic the three quotients are 1.5.
\<close>

lemma offset_9_30:
  "half_window_offset (window_length_of (9) (Num 30)) = Inr 1"
proof -
  have "half_window_offset (window_length_of (9) (Num 30)) =
          Inr (round_half_even (6755399441055743 / 4503599627370496))"
  proof (rule half_window_offset_eval[where a' = "30"
        and w' = "9" and ?q1.0 = "4803839602528529 / 144115188075855872"
        and ?q2.0 = "5404319552844595 / 18014398509481984"
        and ?q3.0 = "5404319552844595 / 36028797018963968"])
    show "(30::real) \<noteq> 0" by simp
    show "\<forall>q\<in>{30, 9, 4803839602528529 / 144115188075855872,
              5404319552844595 / 18014398509481984,
              5404319552844595 / 36028797018963968, 6755399441055743 / 4503599627370496}. \<bar>q\<bar> < float64_overflow"
      by (simp add: float64_overflow_def)
    show "float64_round (30) = 30"
      by (rule trans[OF float64_round_eval[where k = "4"]])
         (simp_all add: round_half_even_def float_tenth_def Let_def power_int_minus)
    show "float64_round (9) = 9"
      by (rule trans[OF float64_round_eval[where k = "3"]])
         (simp_all add: round_half_even_def float_tenth_def Let_def power_int_minus)
    show "float64_round (1 / 30) = 4803839602528529 / 144115188075855872"
      by (rule trans[OF float64_round_eval[where k = "-5"]])
         (simp_all add: round_half_even_def float_tenth_def Let_def power_int_minus)
    show "float64_round ((9) * (4803839602528529 / 144115188075855872))
            = 5404319552844595 / 18014398509481984"
      by (rule trans[OF float64_round_eval[where k = "-2"]])
         (simp_all add: round_half_even_def float_tenth_def Let_def power_int_minus)
    show "float64_round ((5404319552844595 / 18014398509481984) / 2)
            = 5404319552844595 / 36028797018963968"
      by (rule trans[OF float64_round_eval[where k = "-3"]])
         (simp_all add: round_half_even_def float_tenth_def Let_def power_int_minus)
    show "float64_round ((5404319552844595 / 36028797018963968) / float_tenth)
            = 6755399441055743 / 4503599627370496"
      by (rule trans[OF float64_round_eval[where k = "0"]])
         (simp_all add: round_half_even_def float_tenth_def Let_def power_int_minus)
  qed
  then show ?thesis by (simp add: round_half_even_def Let_def floor_minus)
qed

lemma offset_three_tenths_1:
  "half_window_offset (window_length_of (3 / 10) (Num 1)) = Inr 1"
proof -
  have "half_window_offset (window_length_of (3 / 10) (Num 1)) =
          Inr (round_half_even (6755399441055743 / 4503599627370496))"
  proof (rule half_window_offset_eval[where a' = "1"
        and w' = "5404319552844595 / 18014398509481984" and ?q1.0 = "1"
        and ?q2.0 = "5404319552844595 / 18014398509481984"
        and ?q3.0 = "5404319552844595 / 36028797018963968"])
    show "(1::real) \<noteq> 0" by simp
    show "\<forall>q\<in>{1, 5404319552844595 / 18014398509481984, 1,
              5404319552844595 / 18014398509481984,
              5404319552844595 / 36028797018963968, 6755399441055743 / 4503599627370496}. \<bar>q\<bar> < float64_overflow"
      by (simp add: float64_overflow_def)
    show "float64_round (1) = 1"
      by (rule trans[OF float64_round_eval[where k = "0"]])
         (simp_all add: round_half_even_def float_tenth_def Let_def power_int_minus)
    show "float64_round (3 / 10) = 5404319552844595 / 18014398509481984"
      by (rule trans[OF float64_round_eval[where k = "-2"]])
         (simp_all add: round_half_even_def float_tenth_def Let_def power_int_minus)
    show "float64_round (1 / 1) = 1"
      by (rule trans[OF float64_round_eval[where k = "0"]])
         (simp_all add: round_half_even_def float_tenth_def Let_def power_int_minus)
    show "float64_round ((5404319552844595 / 18014398509481984) * (1))
            = 5404319552844595 / 18014398509481984"
      by (rule trans[OF float64_round_eval[where k = "-2"]])
         (simp_all add: round_half_even_def float_tenth_def Let_def power_int_minus)
    show "float64_round ((5404319552844595 / 18014398509481984) / 2)
            = 5404319552844595 / 36028797018963968"
      by (rule trans[OF float64_round_eval[where k = "-3"]])
         (simp_all add: round_half_even_def float_tenth_def Let_def power_int_minus)
    show "float64_round ((5404319552844595 / 36028797018963968) / float_tenth)
            = 6755399441055743 / 4503599627370496"
      by (rule trans[OF float64_round_eval[where k = "0"]])
         (simp_all add: round_half_even_def float_tenth_def Let_def power_int_minus)
  qed
  then show ?thesis by (simp add: round_half_even_def Let_def floor_minus)
qed

lemma offset_3_10:
  "half_window_offset (window_length_of (3) (Num 10)) = Inr 2"
proof -
  have "half_window_offset (window_length_of (3) (Num 10)) =
          Inr (round_half_even (6755399441055745 / 4503599627370496))"
  proof (rule half_window_offset_eval[where a' = "10"
        and w' = "3" and ?q1.0 = "3602879701896397 / 36028797018963968"
        and ?q2.0 = "1351079888211149 / 4503599627370496"
        and ?q3.0 = "1351079888211149 / 9007199254740992"])
    show "(10::real) \<noteq> 0" by simp
    show "\<forall>q\<in>{10, 3, 3602879701896397 / 36028797018963968,
              1351079888211149 / 4503599627370496,
              1351079888211149 / 9007199254740992, 6755399441055745 / 4503599627370496}. \<bar>q\<bar> < float64_overflow"
      by (simp add: float64_overflow_def)
    show "float64_round (10) = 10"
      by (rule trans[OF float64_round_eval[where k = "3"]])
         (simp_all add: round_half_even_def float_tenth_def Let_def power_int_minus)
    show "float64_round (3) = 3"
      by (rule trans[OF float64_round_eval[where k = "1"]])
         (simp_all add: round_half_even_def float_tenth_def Let_def power_int_minus)
    show "float64_round (1 / 10) = 3602879701896397 / 36028797018963968"
      by (rule trans[OF float64_round_eval[where k = "-4"]])
         (simp_all add: round_half_even_def float_tenth_def Let_def power_int_minus)
    show "float64_round ((3) * (3602879701896397 / 36028797018963968))
            = 1351079888211149 / 4503599627370496"
      by (rule trans[OF float64_round_eval[where k = "-2"]])
         (simp_all add: round_half_even_def float_tenth_def Let_def power_int_minus)
    show "float64_round ((1351079888211149 / 4503599627370496) / 2)
            = 1351079888211149 / 9007199254740992"
      by (rule trans[OF float64_round_eval[where k = "-3"]])
         (simp_all add: round_half_even_def float_tenth_def Let_def power_int_minus)
    show "float64_round ((1351079888211149 / 9007199254740992) / float_tenth)
            = 6755399441055745 / 4503599627370496"
      by (rule trans[OF float64_round_eval[where k = "0"]])
         (simp_all add: round_half_even_def float_tenth_def Let_def power_int_minus)
  qed
  then show ?thesis by (simp add: round_half_even_def Let_def floor_minus)
qed

lemma exact_offsets:
  "round_half_even (9 / 30 / 2 / (1 / 10)) = 2"
  "round_half_even (3 / 10 / 1 / 2 / (1 / 10)) = 2"
  "round_half_even (3 / 10 / 2 / (1 / 10)) = 2"
  by (simp_all add: round_half_even_def Let_def)

subsection \<open>What one window contributes\<close>

lemma AMa_estimate_Inr:
  "AMa_estimate c temp fs f = Inr v \<longleftrightarrow>
     (\<exists>Efft. periodogram c temp fs [Num (1 / 100), f] = Some Efft \<and> 1 < length Efft \<and>
             v = np_mul (Num 2) (Efft ! 1))"
  by (auto simp: AMa_estimate_def get_item_def split: option.splits)

lemma f0M_estimate_Inr:
  "f0M_estimate c t_temp f0_temp f = Inr v \<longleftrightarrow>
     (\<exists>freqs f0Mfft. lombscargle c t_temp f0_temp [Num (1 / 100), f] = Some (freqs, f0Mfft) \<and>
             1 < length f0Mfft \<and> v = np_mul (Num 2) (f0Mfft ! 1))"
  by (auto simp: f0M_estimate_def get_item_def split: option.splits)


subsection \<open>Runs on the concrete collaborators\<close>

lemmas offsets_demo = offset_fifth_1 offset_fifth_2

lemmas scalogram_eval =
  get_item_def AMa_estimate_def f0M_estimate_def offsets_demo
  grid_set_def grid_row_def grid_zeros_def np_zeros_def demo_def upt2
  replicate2 replicate3 np_sum_def py_max_def grid_add_def nan_where_zero_def nan_if_zero_def
  arange_mul_def arange_div_def Let_def

lemmas f0M_track_eval =
  f0M_track_def f0M_w_len_def mask_assign_nan_def py_truediv_def

lemma AMa_fill_demo:
  "AMa_fill_freqs demo [[Num 1, Num 3], [Num 2, Num 6]] 0 (Num 1) (1 / 5) [Num 1, Num 2]
     [0..<nat 2] (np_zeros 3 2, 0) =
   Inr ([[Num 0, Num 8], [Num 8, Num 8], [Num 8, Num 0]], 2)"
  by (simp add: scalogram_eval)

lemma f0M_fill_demo:
  "f0M_fill_freqs demo [Num 440, Num 440] [Num 1, Num 2] (Num 1) (1 / 5) [Num 1, Num 2]
     [0..<nat 2] (np_zeros 3 2) =
   Inr [[Num 0, Num 1760], [Num 1760, Num 1760], [Num 1760, Num 0]]"
  by (simp add: scalogram_eval)

lemma AMa_dims_demo:
  "AMa_dims_channels demo [[Num 1, Num 3], [Num 2, Num 6]] (Num 1) (1 / 5) [Num 1, Num 2] 2
     [0..<2] = Inr [2, 3, 1, 2, 2, 3, 1, 2]"
  by (simp add: scalogram_eval)

lemma f0M_dims_demo:
  "f0M_dims_freqs demo [Num 440, Num 440] (Num 1) (1 / 5) [Num 1, Num 2] [0..<nat 2]
     = Inr [2, 3, 1, 2]"
  by (simp add: scalogram_eval)

lemma AMa_scalogram_demo:
  "AMa_scalogram demo (Ndarray [Num 1, Num 3]) (PyInt 1) (1 / 5) (1 / 2) 200 2 70 6700 =
   Inr [Arr2 [[NaN, Num 24], [Num 24, Num 24], [Num 24, NaN]], Arr1 [Num 70, Num 6700],
        Arr1 [Num 1, Num 2],
        Params (AMa_scalogram_params [Num (1 / 10), Num (1 / 5)] [Num 70, Num 6700]
                  [[Num 1, Num 3], [Num 2, Num 6]] [[Num 1, Num 3], [Num 2, Num 6]]
                  [Num 1, Num 2] [Num 70, Num 6700])]"
  by (simp add: AMa_scalogram_def validate_def rate_le_zero_def scalogram_eval)

lemma AMa_scalogram_silence:
  "AMa_scalogram demo (Ndarray [Num 0, Num 0]) (PyInt 1) (1 / 5) (1 / 2) 200 2 70 6700 =
   Inr [Arr2 [[NaN, NaN], [NaN, NaN], [NaN, NaN]], Arr1 [Num 70, Num 6700],
        Arr1 [Num 1, Num 2],
        Params (AMa_scalogram_params [Num (1 / 10), Num (1 / 5)] [Num 70, Num 6700]
                  [[Num 0, Num 0], [Num 0, Num 0]] [[Num 0, Num 0], [Num 0, Num 0]]
                  [Num 1, Num 2] [Num 70, Num 6700])]"
  by (simp add: AMa_scalogram_def validate_def rate_le_zero_def scalogram_eval)

lemma f0M_scalogram_demo:
  "f0M_scalogram demo (Ndarray [Num 0, Num 0, Num 0, Num 0]) (PyInt 2) (1 / 5) (1 / 2) 200 2 2
     60 550 (2 / 10) (8 / 10) 10 (8 / 100) =
   Inr [Arr2 [[NaN, Num 1760], [Num 1760, Num 1760], [Num 1760, NaN]], Arr1 [Num 1, Num 2]]"
  by (simp add: f0M_scalogram_def f0M_track_eval scalogram_eval)


section \<open>The sizing pass bounds the fill pass\<close>

lemma dims_windows_mem:
  assumes "dims_windows wl iwins = Inr ds" and "iwin \<in> set iwins"
  shows "\<exists>r. half_window_offset wl = Inr r \<and> int iwin + r + 1 \<in> set ds"
  using assms
proof (induction iwins arbitrary: ds)
  case Nil
  then show ?case by simp
next
  case (Cons i rest)
  from Cons.prems(1) obtain r ds' where
    O: "half_window_offset wl = Inr r" and R: "dims_windows wl rest = Inr ds'"
    and ds: "ds = (int i + r + 1) # ds'"
    by (auto split: sum.splits)
  show ?case
  proof (cases "iwin = i")
    case True
    then show ?thesis using O ds by simp
  next
    case False
    then have "iwin \<in> set rest" using Cons.prems(2) by simp
    from Cons.IH[OF R this] show ?thesis using ds by auto
  qed
qed

lemma AMa_dims_freqs_mem:
  assumes "AMa_dims_freqs c E ichan fs window_NT f_spectra ifreqs = Inr ds"
    and "ifreq \<in> set ifreqs"
    and "segment_into_windows c (E ! ichan) fs (window_length_of window_NT (f_spectra ! ifreq))
           (Num (1 / 10)) True = Some windows"
    and "iwin < length windows"
  shows "\<exists>r. half_window_offset (window_length_of window_NT (f_spectra ! ifreq)) = Inr r \<and>
             int iwin + r + 1 \<in> set ds"
  using assms(1,2)
proof (induction ifreqs arbitrary: ds)
  case Nil
  then show ?case by simp
next
  case (Cons i rest)
  from Cons.prems(1) obtain ws d1 d2 where
    W: "segment_into_windows c (E ! ichan) fs (window_length_of window_NT (f_spectra ! i))
           (Num (1 / 10)) True = Some ws" and
    D: "dims_windows (window_length_of window_NT (f_spectra ! i)) [0..<length ws] = Inr d1" and
    R: "AMa_dims_freqs c E ichan fs window_NT f_spectra rest = Inr d2" and
    ds: "ds = d1 @ d2"
    by (auto simp: get_item_def Let_def split: if_splits sum.splits option.splits)
  show ?case
  proof (cases "ifreq = i")
    case True
    with W assms(3) have "ws = windows" by simp
    with dims_windows_mem[OF D, of iwin] assms(4) True ds show ?thesis by auto
  next
    case False
    then have "ifreq \<in> set rest" using Cons.prems(2) by simp
    from Cons.IH[OF R this] ds show ?thesis by auto
  qed
qed

lemma AMa_dims_channels_mem:
  assumes "AMa_dims_channels c E fs window_NT f_spectra modbank_Nmod ichans = Inr ds"
    and "ichan \<in> set ichans" and "ifreq < nat modbank_Nmod"
    and "segment_into_windows c (E ! ichan) fs (window_length_of window_NT (f_spectra ! ifreq))
           (Num (1 / 10)) True = Some windows"
    and "iwin < length windows"
  shows "\<exists>r. half_window_offset (window_length_of window_NT (f_spectra ! ifreq)) = Inr r \<and>
             int iwin + r + 1 \<in> set ds"
  using assms(1,2)
proof (induction ichans arbitrary: ds)
  case Nil
  then show ?case by simp
next
  case (Cons i rest)
  from Cons.prems(1) obtain d1 d2 where
    D: "AMa_dims_freqs c E i fs window_NT f_spectra [0..<nat modbank_Nmod] = Inr d1" and
    R: "AMa_dims_channels c E fs window_NT f_spectra modbank_Nmod rest = Inr d2" and
    ds: "ds = d1 @ d2"
    by (auto split: sum.splits)
  show ?case
  proof (cases "ichan = i")
    case True
    from AMa_dims_freqs_mem[OF D[folded True] _ assms(4,5)] assms(3) ds
    show ?thesis by auto
  next
    case False
    then have "ichan \<in> set rest" using Cons.prems(2) by simp
    from Cons.IH[OF R this] ds show ?thesis by auto
  qed
qed

lemma f0M_dims_freqs_mem:
  assumes "f0M_dims_freqs c f0 fs_yin window_NT f_spectra ifreqs = Inr ds"
    and "ifreq \<in> set ifreqs"
    and "segment_into_windows c f0 fs_yin (window_length_of window_NT (f_spectra ! ifreq))
           (Num (1 / 10)) False = Some windows"
    and "iwin < length windows"
  shows "\<exists>r. half_window_offset (window_length_of window_NT (f_spectra ! ifreq)) = Inr r \<and>
             int iwin + r + 1 \<in> set ds"
  using assms(1,2)
proof (induction ifreqs arbitrary: ds)
  case Nil
  then show ?case by simp
next
  case (Cons i rest)
  from Cons.prems(1) obtain ws d1 d2 where
    W: "segment_into_windows c f0 fs_yin (window_length_of window_NT (f_spectra ! i))
           (Num (1 / 10)) False = Some ws" and
    D: "dims_windows (window_length_of window_NT (f_spectra ! i)) [0..<length ws] = Inr d1" and
    R: "f0M_dims_freqs c f0 fs_yin window_NT f_spectra rest = Inr d2" and
    ds: "ds = d1 @ d2"
    by (auto simp: get_item_def Let_def split: if_splits sum.splits option.splits)
  show ?case
  proof (cases "ifreq = i")
    case True
    with W assms(3) have "ws = windows" by simp
    with dims_windows_mem[OF D, of iwin] assms(4) True ds show ?thesis by auto
  next
    case False
    then have "ifreq \<in> set rest" using Cons.prems(2) by simp
    from Cons.IH[OF R this] ds show ?thesis by auto
  qed
qed

lemma py_max_upper:
  assumes "py_max ds = Inr m" and "x \<in> set ds"
  shows "x \<le> m"
  using assms by (auto simp: py_max_def split: if_splits)

lemma np_round64_sign:
  assumes "\<not> np_gt (Num 0) x"
  shows "\<not> np_gt (Num 0) (np_round64 x)"
proof (cases x)
  case (Num a)
  with assms have "0 \<le> a" by simp
  then have "0 \<le> float64_round a" by (rule float64_round_nonneg)
  moreover have "0 < float64_overflow" by (simp add: float64_overflow_def)
  ultimately show ?thesis using Num by (auto simp: Let_def)
qed (use assms in simp_all)

lemma np_mul_sign:
  assumes "\<not> np_gt (Num 0) x" and "\<not> np_gt (Num 0) y"
  shows "\<not> np_gt (Num 0) (np_mul x y)"
  using assms by (cases x; cases y) (auto simp: not_less mult_nonneg_nonneg)

lemma np_div_sign:
  assumes "\<not> np_gt (Num 0) x" and "0 < b"
  shows "\<not> np_gt (Num 0) (np_div x (Num b))"
  using assms by (cases x) (auto simp: not_less)

lemma offset_nonneg:
  assumes "0 \<le> window_NT" and "\<not> np_gt (Num 0) f"
    and "half_window_offset (window_length_of window_NT f) = Inr r"
  shows "0 \<le> r"
proof -
  have f': "\<not> np_gt (Num 0) (np_round64 f)"
    using assms(2) by (rule np_round64_sign)
  have w': "\<not> np_gt (Num 0) (np_round64 (Num window_NT))"
    using assms(1) by (intro np_round64_sign) simp
  have "\<not> np_gt (Num 0) (np_div (Num 1) (np_round64 f))"
    using f' by (cases "np_round64 f") auto
  then have q1: "\<not> np_gt (Num 0) (f64_div (Num 1) (np_round64 f))"
    unfolding f64_div_def by (rule np_round64_sign)
  have q2: "\<not> np_gt (Num 0) (window_length_of window_NT f)"
    unfolding window_length_of_def f64_mul_def
    by (rule np_round64_sign, rule np_mul_sign[OF w' q1])
  have q3: "\<not> np_gt (Num 0) (f64_div (window_length_of window_NT f) (Num 2))"
    unfolding f64_div_def by (rule np_round64_sign, rule np_div_sign[OF q2]) simp
  have q4: "\<not> np_gt (Num 0)
               (f64_div (f64_div (window_length_of window_NT f) (Num 2)) (Num float_tenth))"
    unfolding f64_div_def[of _ "Num float_tenth"]
    by (rule np_round64_sign, rule np_div_sign[OF q3]) (simp add: float_tenth_def)
  from assms(3) q4 show ?thesis
    by (cases "f64_div (f64_div (window_length_of window_NT f) (Num 2)) (Num float_tenth)")
       (auto simp: half_window_offset_def not_less round_half_even_nonneg)
qed

lemma AMa_window_estimate_error:
  assumes "AMa_window_estimate c windows fs f iwin = Inl e"
  shows "\<not> is_grid_error e"
  using assms
  by (auto simp: AMa_window_estimate_def AMa_estimate_def get_item_def is_grid_error_def
           split: if_splits option.splits sum.splits)

lemma f0M_window_estimate_error:
  assumes "f0M_window_estimate c windows t_windows f iwin = Inl e"
  shows "\<not> is_grid_error e"
  using assms
  by (auto simp: f0M_window_estimate_def f0M_estimate_def get_item_def is_grid_error_def
           split: if_splits option.splits sum.splits)

lemma AMa_fill_freqs_no_grid_error:
  assumes "AMa_fill_freqs c E ichan fs window_NT f_spectra ifreqs (G, n) = Inl e"
    and "\<forall>ifreq\<in>set ifreqs. \<forall>windows.
           segment_into_windows c (E ! ichan) fs (window_length_of window_NT (f_spectra ! ifreq))
             (Num (1 / 10)) True = Some windows \<longrightarrow>
           (\<forall>iwin<length windows. \<forall>r.
              half_window_offset (window_length_of window_NT (f_spectra ! ifreq)) = Inr r \<longrightarrow>
              0 \<le> int iwin + r \<and> int iwin + r < int (length G))"
    and "\<forall>k<length G. \<forall>ifreq\<in>set ifreqs. ifreq < length (G ! k)"
  shows "\<not> is_grid_error e"
  using assms
proof (induction ifreqs arbitrary: G n)
  case Nil
  then show ?case by simp
next
  case (Cons i rest)
  let ?wl = "window_length_of window_NT (f_spectra ! i)"
  show ?case
  proof (cases "i < length f_spectra \<and> ichan < length E")
    case False
    then show ?thesis using Cons.prems(1)
      by (auto simp: get_item_def Let_def is_grid_error_def split: if_splits)
  next
    case True
    note B = this
    show ?thesis
    proof (cases "segment_into_windows c (E ! ichan) fs ?wl (Num (1 / 10)) True")
      case None
      then show ?thesis using Cons.prems(1) B
        by (auto simp: get_item_def Let_def is_grid_error_def)
    next
      case (Some windows)
      note W = this
      let ?P = "place_estimates (AMa_window_estimate c windows fs (f_spectra ! i)) ?wl i
                  [0..<length windows] G"
      show ?thesis
      proof (cases ?P)
        case (Inl e')
        then have "e = e'" using Cons.prems(1) B W
          by (simp add: get_item_def Let_def AMa_fill_windows_place)
        moreover have "\<not> is_grid_error e'"
        proof (rule place_estimates_no_grid_error[OF Inl])
          show "\<forall>iwin\<in>set [0..<length windows]. \<forall>r. half_window_offset ?wl = Inr r \<longrightarrow>
                  0 \<le> int iwin + r \<and> int iwin + r < int (length G)"
            using Cons.prems(2) W by auto
          show "\<forall>k<length G. i < length (G ! k)" using Cons.prems(3) by simp
          show "\<forall>iwin e'. AMa_window_estimate c windows fs (f_spectra ! i) iwin = Inl e' \<longrightarrow>
                  \<not> is_grid_error e'"
            using AMa_window_estimate_error by blast
        qed
        ultimately show ?thesis by simp
      next
        case (Inr G1)
        then have R: "AMa_fill_freqs c E ichan fs window_NT f_spectra rest (G1, length windows)
                        = Inl e"
          using Cons.prems(1) B W by (simp add: get_item_def Let_def AMa_fill_windows_place)
        have sh: "length G1 = length G" "\<And>k. length (G1 ! k) = length (G ! k)"
          using place_estimates_shape[OF Inr] by auto
        show ?thesis
          using Cons.prems(2,3) by (intro Cons.IH[OF R]) (auto simp: sh)
      qed
    qed
  qed
qed

lemma f0M_fill_freqs_no_grid_error:
  assumes "f0M_fill_freqs c f0 t_yin fs_yin window_NT f_spectra ifreqs G = Inl e"
    and "\<forall>ifreq\<in>set ifreqs. \<forall>windows.
           segment_into_windows c f0 fs_yin (window_length_of window_NT (f_spectra ! ifreq))
             (Num (1 / 10)) False = Some windows \<longrightarrow>
           (\<forall>iwin<length windows. \<forall>r.
              half_window_offset (window_length_of window_NT (f_spectra ! ifreq)) = Inr r \<longrightarrow>
              0 \<le> int iwin + r \<and> int iwin + r < int (length G))"
    and "\<forall>k<length G. \<forall>ifreq\<in>set ifreqs. ifreq < length (G ! k)"
  shows "\<not> is_grid_error e"
  using assms
proof (induction ifreqs arbitrary: G)
  case Nil
  then show ?case by simp
next
  case (Cons i rest)
  let ?wl = "window_length_of window_NT (f_spectra ! i)"
  show ?case
  proof (cases "i < length f_spectra")
    case False
    then show ?thesis using Cons.prems(1)
      by (auto simp: get_item_def Let_def is_grid_error_def split: if_splits)
  next
    case True
    note B = this
    show ?thesis
    proof (cases "segment_into_windows c f0 fs_yin ?wl (Num (1 / 10)) False")
      case None
      then show ?thesis using Cons.prems(1) B
        by (auto simp: get_item_def Let_def is_grid_error_def)
    next
      case (Some windows)
      note W = this
      show ?thesis
      proof (cases "segment_into_windows c t_yin fs_yin ?wl (Num (1 / 10)) False")
        case None
        then show ?thesis using Cons.prems(1) B W
          by (auto simp: get_item_def Let_def is_grid_error_def)
      next
        case (Some t_windows)
        note T = this
        let ?P = "place_estimates (f0M_window_estimate c windows t_windows (f_spectra ! i)) ?wl i
                    [0..<length windows] G"
        show ?thesis
        proof (cases ?P)
          case (Inl e')
          then have "e = e'" using Cons.prems(1) B W T
            by (simp add: get_item_def Let_def f0M_fill_windows_place)
          moreover have "\<not> is_grid_error e'"
          proof (rule place_estimates_no_grid_error[OF Inl])
            show "\<forall>iwin\<in>set [0..<length windows]. \<forall>r. half_window_offset ?wl = Inr r \<longrightarrow>
                    0 \<le> int iwin + r \<and> int iwin + r < int (length G)"
              using Cons.prems(2) W by auto
            show "\<forall>k<length G. i < length (G ! k)" using Cons.prems(3) by simp
            show "\<forall>iwin e'. f0M_window_estimate c windows t_windows (f_spectra ! i) iwin = Inl e'
                    \<longrightarrow> \<not> is_grid_error e'"
              using f0M_window_estimate_error by blast
          qed
          ultimately show ?thesis by simp
        next
          case (Inr G1)
          then have R: "f0M_fill_freqs c f0 t_yin fs_yin window_NT f_spectra rest G1 = Inl e"
            using Cons.prems(1) B W T by (simp add: get_item_def Let_def f0M_fill_windows_place)
          have sh: "length G1 = length G" "\<And>k. length (G1 ! k) = length (G ! k)"
            using place_estimates_shape[OF Inr] by auto
          show ?thesis
            using Cons.prems(2,3) by (intro Cons.IH[OF R]) (auto simp: sh)
        qed
      qed
    qed
  qed
qed

lemma AMa_fill_channels_no_grid_error:
  assumes "AMa_fill_channels c E fs window_NT f_spectra modbank_Nmod dim' ichans (A, n) = Inl e"
    and "\<forall>ichan\<in>set ichans. \<forall>ifreq<nat modbank_Nmod. \<forall>windows.
           segment_into_windows c (E ! ichan) fs (window_length_of window_NT (f_spectra ! ifreq))
             (Num (1 / 10)) True = Some windows \<longrightarrow>
           (\<forall>iwin<length windows. \<forall>r.
              half_window_offset (window_length_of window_NT (f_spectra ! ifreq)) = Inr r \<longrightarrow>
              0 \<le> int iwin + r \<and> int iwin + r < dim')"
  shows "\<not> is_grid_error e"
  using assms
proof (induction ichans arbitrary: A n)
  case Nil
  then show ?case by simp
next
  case (Cons i rest)
  show ?case
  proof (cases "grid_zeros dim' modbank_Nmod")
    case (Inl e')
    then show ?thesis using Cons.prems(1)
      by (auto simp: grid_zeros_def is_grid_error_def split: if_splits)
  next
    case (Inr zeros)
    then have Z: "zeros = np_zeros (nat dim') (nat modbank_Nmod)" and d0: "0 \<le> dim'"
      by (auto simp: grid_zeros_def split: if_splits)
    let ?F = "AMa_fill_freqs c E i fs window_NT f_spectra [0..<nat modbank_Nmod] (zeros, n)"
    show ?thesis
    proof (cases ?F)
      case (Inl e')
      then have "e = e'" using Cons.prems(1) Inr by simp
      moreover have "\<not> is_grid_error e'"
      proof (rule AMa_fill_freqs_no_grid_error[OF Inl])
        show "\<forall>ifreq\<in>set [0..<nat modbank_Nmod]. \<forall>windows.
           segment_into_windows c (E ! i) fs (window_length_of window_NT (f_spectra ! ifreq))
             (Num (1 / 10)) True = Some windows \<longrightarrow>
           (\<forall>iwin<length windows. \<forall>r.
              half_window_offset (window_length_of window_NT (f_spectra ! ifreq)) = Inr r \<longrightarrow>
              0 \<le> int iwin + r \<and> int iwin + r < int (length zeros))"
          using Cons.prems(2) d0 by (simp add: Z np_zeros_def)
        show "\<forall>k<length zeros. \<forall>ifreq\<in>set [0..<nat modbank_Nmod]. ifreq < length (zeros ! k)"
          by (simp add: Z np_zeros_def)
      qed
      ultimately show ?thesis by simp
    next
      case (Inr r)
      obtain AMspec n1 where r: "r = (AMspec, n1)" by (cases r)
      from Cons.prems(1) \<open>grid_zeros dim' modbank_Nmod = Inr zeros\<close> Inr r
      have R: "AMa_fill_channels c E fs window_NT f_spectra modbank_Nmod dim' rest
                 (nan_where_zero (grid_add A AMspec), n1) = Inl e"
        by simp
      show ?thesis using Cons.prems(2) by (intro Cons.IH[OF R]) auto
    qed
  qed
qed


lemma dims_windows_error:
  assumes "dims_windows wl iwins = Inl e"
  shows "\<not> is_grid_error e"
  using assms
  by (induction iwins) (auto split: sum.splits dest: half_window_offset_error)

lemma AMa_dims_freqs_error:
  assumes "AMa_dims_freqs c E ichan fs window_NT f_spectra ifreqs = Inl e"
  shows "\<not> is_grid_error e"
  using assms
  by (induction ifreqs)
     (auto simp: get_item_def Let_def is_grid_error_def
           split: if_splits sum.splits option.splits dest: dims_windows_error)

lemma AMa_dims_channels_error:
  assumes "AMa_dims_channels c E fs window_NT f_spectra modbank_Nmod ichans = Inl e"
  shows "\<not> is_grid_error e"
  using assms
  by (induction ichans) (auto split: sum.splits dest: AMa_dims_freqs_error)

lemma f0M_dims_freqs_error:
  assumes "f0M_dims_freqs c f0 fs_yin window_NT f_spectra ifreqs = Inl e"
  shows "\<not> is_grid_error e"
  using assms
  by (induction ifreqs)
     (auto simp: get_item_def Let_def is_grid_error_def
           split: if_splits sum.splits option.splits dest: dims_windows_error)

lemma AMa_dims_freqs_lt:
  assumes "AMa_dims_freqs c E ichan fs window_NT f_spectra ifreqs = Inr ds"
    and "ifreq \<in> set ifreqs"
  shows "ifreq < length f_spectra"
  using assms
  by (induction ifreqs arbitrary: ds)
     (auto simp: get_item_def Let_def split: if_splits sum.splits option.splits)

lemma AMa_dims_channels_lt:
  assumes "AMa_dims_channels c E fs window_NT f_spectra modbank_Nmod ichans = Inr ds"
    and "ichans \<noteq> []" and "ifreq < nat modbank_Nmod"
  shows "ifreq < length f_spectra"
  using assms
  by (cases ichans) (auto split: sum.splits dest: AMa_dims_freqs_lt)

lemma f0M_dims_freqs_lt:
  assumes "f0M_dims_freqs c f0 fs_yin window_NT f_spectra ifreqs = Inr ds"
    and "ifreq \<in> set ifreqs"
  shows "ifreq < length f_spectra"
  using assms
  by (induction ifreqs arbitrary: ds)
     (auto simp: get_item_def Let_def split: if_splits sum.splits option.splits)

lemma AMa_size_then_fill:
  assumes D: "AMa_dims_channels c E fs window_NT f_spectra modbank_Nmod ichans = Inr dims"
    and M: "py_max dims = Inr dim'"
    and F: "AMa_fill_channels c E fs window_NT f_spectra modbank_Nmod dim' ichans (A, n) = Inl e"
    and w: "0 \<le> window_NT" and nn: "\<forall>f\<in>set f_spectra. \<not> np_gt (Num 0) f"
  shows "\<not> is_grid_error e"
proof (rule AMa_fill_channels_no_grid_error[OF F], intro ballI allI impI)
  fix ichan ifreq windows iwin r
  assume ic: "ichan \<in> set ichans" and jf: "ifreq < nat modbank_Nmod"
    and W: "segment_into_windows c (E ! ichan) fs
              (window_length_of window_NT (f_spectra ! ifreq)) (Num (1 / 10)) True = Some windows"
    and iw: "iwin < length windows"
    and O: "half_window_offset (window_length_of window_NT (f_spectra ! ifreq)) = Inr r"
  from ic have ne: "ichans \<noteq> []" by auto
  have "ifreq < length f_spectra" by (rule AMa_dims_channels_lt[OF D ne jf])
  then have "\<not> np_gt (Num 0) (f_spectra ! ifreq)" using nn by simp
  from offset_nonneg[OF w this O] have r0: "0 \<le> r" .
  from AMa_dims_channels_mem[OF D ic jf W iw] O have "int iwin + r + 1 \<in> set dims" by simp
  from py_max_upper[OF M this] r0
  show "0 \<le> int iwin + r \<and> int iwin + r < dim'" by simp
qed

lemma f0M_size_then_fill:
  assumes D: "f0M_dims_freqs c f0 fs_yin window_NT f_spectra [0..<nat modbank_Nmod] = Inr dims"
    and M: "py_max dims = Inr dim'"
    and Z: "grid_zeros dim' modbank_Nmod = Inr zeros"
    and F: "f0M_fill_freqs c f0 t_yin fs_yin window_NT f_spectra [0..<nat modbank_Nmod] zeros
              = Inl e"
    and w: "0 \<le> window_NT" and nn: "\<forall>f\<in>set f_spectra. \<not> np_gt (Num 0) f"
  shows "\<not> is_grid_error e"
proof (rule f0M_fill_freqs_no_grid_error[OF F])
  from Z have z: "zeros = np_zeros (nat dim') (nat modbank_Nmod)" and d0: "0 \<le> dim'"
    by (auto simp: grid_zeros_def split: if_splits)
  show "\<forall>k<length zeros. \<forall>ifreq\<in>set [0..<nat modbank_Nmod]. ifreq < length (zeros ! k)"
    by (simp add: z np_zeros_def)
  show "\<forall>ifreq\<in>set [0..<nat modbank_Nmod]. \<forall>windows.
           segment_into_windows c f0 fs_yin (window_length_of window_NT (f_spectra ! ifreq))
             (Num (1 / 10)) False = Some windows \<longrightarrow>
           (\<forall>iwin<length windows. \<forall>r.
              half_window_offset (window_length_of window_NT (f_spectra ! ifreq)) = Inr r \<longrightarrow>
              0 \<le> int iwin + r \<and> int iwin + r < int (length zeros))"
  proof (intro ballI allI impI)
    fix ifreq windows iwin r
    assume jf: "ifreq \<in> set [0..<nat modbank_Nmod]"
      and W: "segment_into_windows c f0 fs_yin
                (window_length_of window_NT (f_spectra ! ifreq)) (Num (1 / 10)) False
                = Some windows"
      and iw: "iwin < length windows"
      and O: "half_window_offset (window_length_of window_NT (f_spectra ! ifreq)) = Inr r"
    have "ifreq < length f_spectra" by (rule f0M_dims_freqs_lt[OF D jf])
    then have "\<not> np_gt (Num 0) (f_spectra ! ifreq)" using nn by simp
    from offset_nonneg[OF w this O] have r0: "0 \<le> r" .
    from f0M_dims_freqs_mem[OF D jf W iw] O have "int iwin + r + 1 \<in> set dims" by simp
    from py_max_upper[OF M this] r0 d0
    show "0 \<le> int iwin + r \<and> int iwin + r < int (length zeros)"
      by (simp add: z np_zeros_def)
  qed
qed

lemma AMa_scalogram_no_grid_error:
  assumes "AMa_scalogram c sig fs window_NT mfmin mfmax modbank_Nmod fmin fmax = Inl e"
    and "0 \<le> window_NT"
    and "\<forall>f_spectra edges. define_modulation_axis c mfmin mfmax modbank_Nmod
           = Some (f_spectra, edges) \<longrightarrow> (\<forall>f\<in>set f_spectra. \<not> np_gt (Num 0) f)"
  shows "\<not> is_grid_error e"
proof
  assume g: "is_grid_error e"
  have ne: "e \<noteq> ValueError s" "e \<noteq> CollaboratorFailure s" for s
    using g by (auto simp: is_grid_error_def)
  from assms(1) ne show False
    using g assms(2,3)
    by (auto simp: AMa_scalogram_def validate_def Let_def py_max_def grid_zeros_def
             split: if_splits sum.splits option.splits prod.splits
             dest: AMa_dims_channels_error
             dest!: AMa_size_then_fill[rotated 2])
qed


lemma f0M_track_error:
  assumes "f0M_track c sig fs undersample fmin fmax yin_thresh ap0_thresh max_jump min_duration
             = Inl e"
  shows "\<not> is_grid_error e"
  using assms
  by (auto simp: f0M_track_def f0M_w_len_def mask_assign_nan_def py_truediv_def Let_def
                 is_grid_error_def
           split: if_splits sum.splits option.splits prod.splits)

lemma f0M_scalogram_no_grid_error:
  assumes "f0M_scalogram c sig fs window_NT mfmin mfmax modbank_Nmod undersample fmin fmax
             yin_thresh ap0_thresh max_jump min_duration = Inl e"
    and "0 \<le> window_NT"
    and "\<forall>f_spectra edges. define_modulation_axis c mfmin mfmax modbank_Nmod
           = Some (f_spectra, edges) \<longrightarrow> (\<forall>f\<in>set f_spectra. \<not> np_gt (Num 0) f)"
  shows "\<not> is_grid_error e"
proof
  assume g: "is_grid_error e"
  have ne: "e \<noteq> ValueError s" "e \<noteq> CollaboratorFailure s" "e \<noteq> ZeroDivisionError" for s
    using g by (auto simp: is_grid_error_def)
  from assms(1) ne show False
    using g assms(2,3)
    by (auto simp: f0M_scalogram_def Let_def py_truediv_def
             split: if_splits sum.splits option.splits prod.splits
             dest: f0M_track_error f0M_dims_freqs_error
             dest!: f0M_size_then_fill[rotated 3])
       (auto simp: py_max_def grid_zeros_def split: if_splits)
qed

lemma AMa_dims_negative:
  "AMa_dims_channels demo [[Num 1, Num 3], [Num 2, Num 6]] (Num 1) (- (2 / 5)) [Num 1] 1
     [0..<2] = Inr [- 1, 0, - 1, 0]"
  by (simp add: get_item_def demo_def upt2 Let_def offset_minus_two_fifths_1)

lemma AMa_scalogram_negative:
  "AMa_scalogram demo (Ndarray [Num 1, Num 3]) (PyInt 1) (- (2 / 5)) (1 / 2) 200 1 70 6700
     = Inl (IndexError ''grid axis 0'')"
  by (simp add: AMa_scalogram_def validate_def rate_le_zero_def scalogram_eval
        offset_minus_two_fifths_1)

lemma f0M_scalogram_negative:
  "f0M_scalogram demo (Ndarray [Num 0, Num 0, Num 0, Num 0]) (PyInt 2) (- (2 / 5)) (1 / 2) 200 1 2
     60 550 (2 / 10) (8 / 10) 10 (8 / 100) = Inl (IndexError ''grid axis 0'')"
  by (simp add: f0M_scalogram_def f0M_track_eval scalogram_eval offset_minus_two_fifths_1)

text \<open>
  Claim C9, as stated, fails. The row index \<open>iwin + round(window_length / 2 / shift)\<close> is
  below the number of rows, but it can be negative. With \<open>window_NT = -0.4\<close> and the
  modulation frequency 1 the offset is \<open>-2\<close>; two windows give \<open>dims = [-1, 0]\<close> for each
  channel, so the grid has \<open>max(dims) = 0\<close> rows, and the first write, at row \<open>-2\<close>, is out
  of bounds: both functions fail with the IndexError of the write, although every
  collaborator has succeeded.
\<close>

theorem scalogram_negative_row_counterexample:
  "AMa_scalogram demo (Ndarray [Num 1, Num 3]) (PyInt 1) (- (2 / 5)) (1 / 2) 200 1 70 6700
     = Inl (IndexError ''grid axis 0'') \<and>
   f0M_scalogram demo (Ndarray [Num 0, Num 0, Num 0, Num 0]) (PyInt 2) (- (2 / 5)) (1 / 2) 200 1 2
     60 550 (2 / 10) (8 / 10) 10 (8 / 100) = Inl (IndexError ''grid axis 0'') \<and>
   half_window_offset (window_length_of (- (2 / 5)) (Num 1)) = Inr (- 2) \<and>
   AMa_dims_channels demo [[Num 1, Num 3], [Num 2, Num 6]] (Num 1) (- (2 / 5)) [Num 1] 1
     [0..<2] = Inr [- 1, 0, - 1, 0] \<and>
   py_max [- 1, 0, - 1, 0] = Inr 0 \<and>
   grid_set (np_zeros 0 1) (int 0 + - 2) 0 (Num 8) = Inl (IndexError ''grid axis 0'')"
  using AMa_scalogram_negative f0M_scalogram_negative AMa_dims_negative offset_minus_two_fifths_1
  by (simp add: py_max_def grid_set_def np_zeros_def)

text \<open>
  Claim C9, amended. In both scalograms the number of rows that the sizing pass computes,
  the maximum of \<open>iwin + round(window_length / 2 / shift) + 1\<close> over all the combinations,
  is strictly greater than the row index \<open>iwin + round(window_length / 2 / shift)\<close> of
  every combination of the fill pass. When \<open>window_NT\<close> is not negative and no modulation
  frequency is negative, no row index is negative either; then every write into the grid
  is in bounds, and neither function fails with the IndexError of a grid write.
\<close>

theorem scalogram_writes_in_bounds:
  "(AMa_dims_channels c E fsv window_NT f_spectra modbank_Nmod [0..<Nchan] = Inr dims \<and>
      py_max dims = Inr dim' \<and> ichan < Nchan \<and> ifreq < nat modbank_Nmod \<and>
      segment_into_windows c (E ! ichan) fsv (window_length_of window_NT (f_spectra ! ifreq))
        (Num (1 / 10)) True = Some windows \<and>
      iwin < length windows \<and>
      half_window_offset (window_length_of window_NT (f_spectra ! ifreq)) = Inr r
      \<longrightarrow> int iwin + r < dim') \<and>
   (f0M_dims_freqs c f0 fs_yin window_NT f_spectra [0..<nat modbank_Nmod] = Inr dims \<and>
      py_max dims = Inr dim' \<and> ifreq < nat modbank_Nmod \<and>
      segment_into_windows c f0 fs_yin (window_length_of window_NT (f_spectra ! ifreq))
        (Num (1 / 10)) False = Some windows \<and>
      iwin < length windows \<and>
      half_window_offset (window_length_of window_NT (f_spectra ! ifreq)) = Inr r
      \<longrightarrow> int iwin + r < dim') \<and>
   (0 \<le> window_NT \<and> \<not> np_gt (Num 0) fm \<and>
      half_window_offset (window_length_of window_NT fm) = Inr r
      \<longrightarrow> 0 \<le> int iwin + r) \<and>
   (0 \<le> window_NT \<and>
      (\<forall>axis edges. define_modulation_axis c mfmin mfmax modbank_Nmod = Some (axis, edges)
          \<longrightarrow> (\<forall>f\<in>set axis. \<not> np_gt (Num 0) f))
      \<longrightarrow> AMa_scalogram c sig fs window_NT mfmin mfmax modbank_Nmod fmin fmax
            \<noteq> Inl (IndexError ''grid axis 0'') \<and>
          AMa_scalogram c sig fs window_NT mfmin mfmax modbank_Nmod fmin fmax
            \<noteq> Inl (IndexError ''grid axis 1'') \<and>
          f0M_scalogram c sig fs window_NT mfmin mfmax modbank_Nmod undersample fmin0 fmax0
            yin_thresh ap0_thresh max_jump min_duration \<noteq> Inl (IndexError ''grid axis 0'') \<and>
          f0M_scalogram c sig fs window_NT mfmin mfmax modbank_Nmod undersample fmin0 fmax0
            yin_thresh ap0_thresh max_jump min_duration \<noteq> Inl (IndexError ''grid axis 1''))"
proof (intro conjI impI)
  assume a: "AMa_dims_channels c E fsv window_NT f_spectra modbank_Nmod [0..<Nchan] = Inr dims \<and>
      py_max dims = Inr dim' \<and> ichan < Nchan \<and> ifreq < nat modbank_Nmod \<and>
      segment_into_windows c (E ! ichan) fsv (window_length_of window_NT (f_spectra ! ifreq))
        (Num (1 / 10)) True = Some windows \<and>
      iwin < length windows \<and>
      half_window_offset (window_length_of window_NT (f_spectra ! ifreq)) = Inr r"
  then have ic: "ichan \<in> set [0..<Nchan]" by simp
  from a AMa_dims_channels_mem[OF _ ic, of c E fsv window_NT f_spectra modbank_Nmod dims ifreq
      windows iwin]
  have "int iwin + r + 1 \<in> set dims" by auto
  with a py_max_upper[of dims dim'] show "int iwin + r < dim'" by fastforce
next
  assume a: "f0M_dims_freqs c f0 fs_yin window_NT f_spectra [0..<nat modbank_Nmod] = Inr dims \<and>
      py_max dims = Inr dim' \<and> ifreq < nat modbank_Nmod \<and>
      segment_into_windows c f0 fs_yin (window_length_of window_NT (f_spectra ! ifreq))
        (Num (1 / 10)) False = Some windows \<and>
      iwin < length windows \<and>
      half_window_offset (window_length_of window_NT (f_spectra ! ifreq)) = Inr r"
  then have jf: "ifreq \<in> set [0..<nat modbank_Nmod]" by simp
  from a f0M_dims_freqs_mem[OF _ jf, of c f0 fs_yin window_NT f_spectra dims windows iwin]
  have "int iwin + r + 1 \<in> set dims" by auto
  with a py_max_upper[of dims dim'] show "int iwin + r < dim'" by fastforce
next
  assume "0 \<le> window_NT \<and> \<not> np_gt (Num 0) fm \<and>
      half_window_offset (window_length_of window_NT fm) = Inr r"
  then have "0 \<le> r" using offset_nonneg[of window_NT fm r] by blast
  then show "0 \<le> int iwin + r" by simp
next
  assume h: "0 \<le> window_NT \<and>
      (\<forall>axis edges. define_modulation_axis c mfmin mfmax modbank_Nmod = Some (axis, edges)
          \<longrightarrow> (\<forall>f\<in>set axis. \<not> np_gt (Num 0) f))"
  have A: "\<not> is_grid_error e"
    if "AMa_scalogram c sig fs window_NT mfmin mfmax modbank_Nmod fmin fmax = Inl e" for e
    using AMa_scalogram_no_grid_error[OF that] h by blast
  from A[of "IndexError ''grid axis 0''"]
  show "AMa_scalogram c sig fs window_NT mfmin mfmax modbank_Nmod fmin fmax
            \<noteq> Inl (IndexError ''grid axis 0'')"
    by (auto simp: is_grid_error_def)
  from A[of "IndexError ''grid axis 1''"]
  show "AMa_scalogram c sig fs window_NT mfmin mfmax modbank_Nmod fmin fmax
            \<noteq> Inl (IndexError ''grid axis 1'')"
    by (auto simp: is_grid_error_def)
next
  assume h: "0 \<le> window_NT \<and>
      (\<forall>axis edges. define_modulation_axis c mfmin mfmax modbank_Nmod = Some (axis, edges)
          \<longrightarrow> (\<forall>f\<in>set axis. \<not> np_gt (Num 0) f))"
  have B: "\<not> is_grid_error e"
    if "f0M_scalogram c sig fs window_NT mfmin mfmax modbank_Nmod undersample fmin0 fmax0
          yin_thresh ap0_thresh max_jump min_duration = Inl e" for e
    using f0M_scalogram_no_grid_error[OF that] h by blast
  from B[of "IndexError ''grid axis 0''"]
  show "f0M_scalogram c sig fs window_NT mfmin mfmax modbank_Nmod undersample fmin0 fmax0
            yin_thresh ap0_thresh max_jump min_duration \<noteq> Inl (IndexError ''grid axis 0'')"
    by (auto simp: is_grid_error_def)
  from B[of "IndexError ''grid axis 1''"]
  show "f0M_scalogram c sig fs window_NT mfmin mfmax modbank_Nmod undersample fmin0 fmax0
            yin_thresh ap0_thresh max_jump min_duration \<noteq> Inl (IndexError ''grid axis 1'')"
    by (auto simp: is_grid_error_def)
qed

theorem scalogram_writes_in_bounds_witness:
  "AMa_dims_channels demo [[Num 1, Num 3], [Num 2, Num 6]] (Num 1) (1 / 5) [Num 1, Num 2] 2
     [0..<2] = Inr [2, 3, 1, 2, 2, 3, 1, 2] \<and>
   py_max [2, 3, 1, 2, 2, 3, 1, 2] = Inr 3 \<and>
   half_window_offset (window_length_of (1 / 5) ([Num 1, Num 2] ! 0)) = Inr 1 \<and>
   int 1 + 1 < 3 \<and>
   f0M_dims_freqs demo [Num 440, Num 440] (Num 1) (1 / 5) [Num 1, Num 2] [0..<nat 2]
     = Inr [2, 3, 1, 2] \<and>
   py_max [2, 3, 1, 2] = Inr 3 \<and>
   0 \<le> int 1 + 1 \<and>
   AMa_scalogram demo (Ndarray [Num 1, Num 3]) (PyInt 1) (1 / 5) (1 / 2) 200 2 70 6700
     \<noteq> Inl (IndexError ''grid axis 0'') \<and>
   f0M_scalogram demo (Ndarray [Num 0, Num 0, Num 0, Num 0]) (PyInt 2) (1 / 5) (1 / 2) 200 2 2
     60 550 (2 / 10) (8 / 10) 10 (8 / 100) \<noteq> Inl (IndexError ''grid axis 0'')"
proof -
  have ax: "\<forall>axis edges. define_modulation_axis demo (1 / 2) 200 2 = Some (axis, edges)
              \<longrightarrow> (\<forall>f\<in>set axis. \<not> np_gt (Num 0) f)"
    by (auto simp: demo_def upt2)
  have m1: "py_max [2, 3, 1, 2, 2, 3, 1, 2] = Inr 3" and m2: "py_max [2, 3, 1, 2] = Inr 3"
    by (simp_all add: py_max_def)
  have w: "segment_into_windows demo ([[Num 1, Num 3], [Num 2, Num 6]] ! 1) (Num 1)
             (window_length_of (1 / 5) ([Num 1, Num 2] ! 0)) (Num (1 / 10)) True
             = Some [[Num 2, Num 6], [Num 2, Num 6]]"
    by (simp add: demo_def)
  have w': "segment_into_windows demo [Num 440, Num 440] (Num 1)
             (window_length_of (1 / 5) ([Num 1, Num 2] ! 0)) (Num (1 / 10)) False
             = Some [[Num 440, Num 440], [Num 440, Num 440]]"
    by (simp add: demo_def)
  have o: "half_window_offset (window_length_of (1 / 5) ([Num 1, Num 2] ! 0)) = Inr 1"
    using offsets_demo by simp
  have o': "half_window_offset (window_length_of (1 / 5) (Num 1)) = Inr 1"
    using offsets_demo by simp
  note T1 = scalogram_writes_in_bounds[where c = demo
      and E = "[[Num 1, Num 3], [Num 2, Num 6]]" and fsv = "Num 1" and window_NT = "1 / 5"
      and f_spectra = "[Num 1, Num 2]" and modbank_Nmod = 2 and Nchan = 2
      and dims = "[2, 3, 1, 2, 2, 3, 1, 2]" and dim' = 3 and ichan = 1 and ifreq = 0
      and windows = "[[Num 2, Num 6], [Num 2, Num 6]]" and iwin = 1 and r = 1]
  note T2 = scalogram_writes_in_bounds[where c = demo
      and ?f0.0 = "[Num 440, Num 440]" and fs_yin = "Num 1" and window_NT = "1 / 5"
      and f_spectra = "[Num 1, Num 2]" and modbank_Nmod = 2
      and dims = "[2, 3, 1, 2]" and dim' = 3 and ifreq = 0
      and windows = "[[Num 440, Num 440], [Num 440, Num 440]]" and iwin = 1 and r = 1]
  note T3 = scalogram_writes_in_bounds[where window_NT = "1 / 5" and fm = "Num 1" and r = 1
      and iwin = 1]
  note T4 = scalogram_writes_in_bounds[where c = demo and window_NT = "1 / 5"
      and mfmin = "1 / 2" and mfmax = 200 and modbank_Nmod = 2
      and sig = "Ndarray [Num 1, Num 3]" and fs = "PyInt 1" and fmin = 70 and fmax = 6700,
      THEN conjunct2, THEN conjunct2, THEN conjunct2, rule_format, OF conjI, OF _ ax]
  note T5 = scalogram_writes_in_bounds[where c = demo and window_NT = "1 / 5"
      and mfmin = "1 / 2" and mfmax = 200 and modbank_Nmod = 2
      and sig = "Ndarray [Num 0, Num 0, Num 0, Num 0]" and fs = "PyInt 2" and undersample = 2
      and ?fmin0.0 = 60 and ?fmax0.0 = 550 and yin_thresh = "2 / 10" and ap0_thresh = "8 / 10"
      and max_jump = 10 and min_duration = "8 / 100",
      THEN conjunct2, THEN conjunct2, THEN conjunct2, rule_format, OF conjI, OF _ ax]
  from T1 AMa_dims_demo m1 w o have "int 1 + 1 < (3::int)" by simp
  moreover from T2 f0M_dims_demo m2 w' o have "int 1 + 1 < (3::int)" by simp
  moreover from T3 o' have "0 \<le> int 1 + (1::int)" by simp
  moreover from T4 have
    "AMa_scalogram demo (Ndarray [Num 1, Num 3]) (PyInt 1) (1 / 5) (1 / 2) 200 2 70 6700
       \<noteq> Inl (IndexError ''grid axis 0'')"
    by simp
  moreover from T5 have
    "f0M_scalogram demo (Ndarray [Num 0, Num 0, Num 0, Num 0]) (PyInt 2) (1 / 5) (1 / 2) 200 2 2
       60 550 (2 / 10) (8 / 10) 10 (8 / 100) \<noteq> Inl (IndexError ''grid axis 0'')"
    by simp
  ultimately show ?thesis
    using AMa_dims_demo f0M_dims_demo m1 m2 o by simp
qed

section \<open>The cells of the AM scalogram\<close>

lemma np_add_zero_left: "np_add (Num 0) x = x"
  by (cases x) auto

lemma np_sum_snoc: "np_sum (xs @ [x]) = np_add (np_sum xs) x"
  by (simp add: np_sum_def)

lemma running_sum_snoc: "running_sum (xs @ [x]) = nan_if_zero (np_add (running_sum xs) x)"
  by (simp add: running_sum_def)

lemma zero_prefix_iff:
  "zero_prefix xs \<longleftrightarrow> (\<exists>n. 1 \<le> n \<and> n \<le> length xs \<and> np_sum (take n xs) = Num 0)"
  by (auto simp: zero_prefix_def list_ex_iff)

lemma zero_prefix_snoc:
  "zero_prefix (xs @ [x]) \<longleftrightarrow> zero_prefix xs \<or> np_sum (xs @ [x]) = Num 0"
proof
  assume "zero_prefix (xs @ [x])"
  then obtain n where n: "1 \<le> n" "n \<le> Suc (length xs)" "np_sum (take n (xs @ [x])) = Num 0"
    by (auto simp: zero_prefix_iff)
  show "zero_prefix xs \<or> np_sum (xs @ [x]) = Num 0"
  proof (cases "n \<le> length xs")
    case True
    with n have "np_sum (take n xs) = Num 0" by simp
    with n(1) True show ?thesis by (auto simp: zero_prefix_iff)
  next
    case False
    with n(2) have "n = Suc (length xs)" by simp
    with n(3) show ?thesis by simp
  qed
next
  assume "zero_prefix xs \<or> np_sum (xs @ [x]) = Num 0"
  then show "zero_prefix (xs @ [x])"
  proof
    assume "zero_prefix xs"
    then obtain n where n: "1 \<le> n" "n \<le> length xs" "np_sum (take n xs) = Num 0"
      by (auto simp: zero_prefix_iff)
    then have "np_sum (take n (xs @ [x])) = Num 0" by simp
    with n(1,2) show ?thesis unfolding zero_prefix_iff
      by (intro exI[of _ n]) simp
  next
    assume "np_sum (xs @ [x]) = Num 0"
    then show ?thesis unfolding zero_prefix_iff
      by (intro exI[of _ "Suc (length xs)"]) simp
  qed
qed

lemma running_sum_eq:
  "running_sum xs = (if zero_prefix xs then NaN else np_sum xs)"
proof (induction xs rule: rev_induct)
  case Nil
  then show ?case by (simp add: running_sum_def np_sum_def zero_prefix_def)
next
  case (snoc x xs)
  show ?case
  proof (cases "zero_prefix xs")
    case True
    then show ?thesis
      using snoc by (simp add: running_sum_snoc zero_prefix_snoc nan_if_zero_def)
  next
    case False
    then show ?thesis
      using snoc by (simp add: running_sum_snoc zero_prefix_snoc np_sum_snoc nan_if_zero_def)
  qed
qed

lemma running_sum_not_zero: "running_sum xs = Num 0 \<Longrightarrow> xs = []"
  by (cases xs rule: rev_cases) (auto simp: running_sum_snoc nan_if_zero_def split: if_splits)

lemma zero_prefix_all_zero:
  assumes "xs \<noteq> []" and "\<forall>x\<in>set xs. x = Num 0"
  shows "zero_prefix xs"
proof -
  from assms obtain x rest where xs: "xs = x # rest" by (cases xs) auto
  with assms(2) have "np_sum (take 1 xs) = Num 0" by (simp add: np_sum_def)
  then show ?thesis unfolding zero_prefix_iff using xs by (intro exI[of _ 1]) simp
qed

lemma zero_prefix_total:
  assumes "xs \<noteq> []" and "np_sum xs = Num 0"
  shows "zero_prefix xs"
  unfolding zero_prefix_iff using assms
  by (intro exI[of _ "length xs"]) (cases xs, auto)

lemma grid_add_cell:
  assumes "k < length A" and "k < length B" and "j < length (A ! k)" and "j < length (B ! k)"
  shows "nan_where_zero (grid_add A B) ! k ! j = nan_if_zero (np_add (A ! k ! j) (B ! k ! j))"
  using assms by (simp add: nan_where_zero_def grid_add_def)

lemma grid_add_shape:
  assumes "length B = length A" and "\<forall>k<length A. length (B ! k) = length (A ! k)"
  shows "length (nan_where_zero (grid_add A B)) = length A"
    and "\<forall>k<length A. length (nan_where_zero (grid_add A B) ! k) = length (A ! k)"
  using assms by (simp_all add: nan_where_zero_def grid_add_def)

lemma AMa_fill_channels_cells:
  assumes "AMa_fill_channels c E fs window_NT f_spectra modbank_Nmod dim' ichans (A, n)
             = Inr (A', n')"
    and "length A = nat dim'" and "\<forall>k<nat dim'. length (A ! k) = nat modbank_Nmod"
  shows "\<exists>Ss. length Ss = length ichans \<and>
           (\<forall>i<length ichans. \<exists>m m'.
              AMa_fill_freqs c E (ichans ! i) fs window_NT f_spectra [0..<nat modbank_Nmod]
                (np_zeros (nat dim') (nat modbank_Nmod), m) = Inr (Ss ! i, m')) \<and>
           length A' = nat dim' \<and>
           (\<forall>k<nat dim'. length (A' ! k) = nat modbank_Nmod \<and>
              (\<forall>j<nat modbank_Nmod.
                 A' ! k ! j = foldl (\<lambda>a v. nan_if_zero (np_add a v)) (A ! k ! j)
                                (map (\<lambda>S. S ! k ! j) Ss)))"
  using assms
proof (induction ichans arbitrary: A n)
  case Nil
  then show ?case by simp
next
  case (Cons ichan rest)
  let ?Z = "np_zeros (nat dim') (nat modbank_Nmod)"
  from Cons.prems(1) obtain S n1 where
    F: "AMa_fill_freqs c E ichan fs window_NT f_spectra [0..<nat modbank_Nmod] (?Z, n)
          = Inr (S, n1)" and
    R: "AMa_fill_channels c E fs window_NT f_spectra modbank_Nmod dim' rest
          (nan_where_zero (grid_add A S), n1) = Inr (A', n')"
    by (auto simp: grid_zeros_def split: sum.splits if_splits)
  have shS: "length S = nat dim'" "\<And>k. k < nat dim' \<Longrightarrow> length (S ! k) = nat modbank_Nmod"
    using AMa_fill_freqs_shape[OF F] by (simp_all add: np_zeros_def)
  let ?A1 = "nan_where_zero (grid_add A S)"
  have shA1: "length ?A1 = nat dim'" "\<forall>k<nat dim'. length (?A1 ! k) = nat modbank_Nmod"
    using grid_add_shape[of S A] Cons.prems(2,3) shS by auto
  from Cons.IH[OF R shA1] obtain Ss where
    Ss: "length Ss = length rest"
      "\<forall>i<length rest. \<exists>m m'.
              AMa_fill_freqs c E (rest ! i) fs window_NT f_spectra [0..<nat modbank_Nmod]
                (?Z, m) = Inr (Ss ! i, m')"
      "length A' = nat dim'"
      "\<forall>k<nat dim'. length (A' ! k) = nat modbank_Nmod \<and>
              (\<forall>j<nat modbank_Nmod.
                 A' ! k ! j = foldl (\<lambda>a v. nan_if_zero (np_add a v)) (?A1 ! k ! j)
                                (map (\<lambda>S. S ! k ! j) Ss))"
    by blast
  have cell: "?A1 ! k ! j = nan_if_zero (np_add (A ! k ! j) (S ! k ! j))"
    if "k < nat dim'" "j < nat modbank_Nmod" for k j
    using that Cons.prems(2,3) shS by (intro grid_add_cell) auto
  show ?case
  proof (intro exI[of _ "S # Ss"] conjI allI impI)
    show "length (S # Ss) = length (ichan # rest)" using Ss(1) by simp
    show "length A' = nat dim'" by (rule Ss(3))
  next
    fix i assume "i < length (ichan # rest)"
    then show "\<exists>m m'. AMa_fill_freqs c E ((ichan # rest) ! i) fs window_NT f_spectra
                 [0..<nat modbank_Nmod] (?Z, m) = Inr ((S # Ss) ! i, m')"
      using F Ss(2) by (cases i) auto
  next
    fix k assume "k < nat dim'"
    then show "length (A' ! k) = nat modbank_Nmod" using Ss(4) by simp
  next
    fix k j assume "k < nat dim'" "j < nat modbank_Nmod"
    then show "A' ! k ! j = foldl (\<lambda>a v. nan_if_zero (np_add a v)) (A ! k ! j)
                                (map (\<lambda>S. S ! k ! j) (S # Ss))"
      using Ss(4) cell by simp
  qed
qed


lemma AMa_scalogram_Inr:
  assumes "AMa_scalogram c sig fs window_NT mfmin mfmax modbank_Nmod fmin fmax = Inr res"
  shows "\<exists>x gamma_responses fc E f_spectra edges dims dim' AMsgram n_windows f_bw.
           sig = Ndarray x \<and>
           auditory_filterbank c x (rate_value fs) fmin fmax = Some (gamma_responses, fc) \<and>
           hilbert_envelope c gamma_responses = Some E \<and>
           define_modulation_axis c mfmin mfmax modbank_Nmod = Some (f_spectra, edges) \<and>
           AMa_dims_channels c E (rate_value fs) window_NT f_spectra modbank_Nmod
             [0..<length fc] = Inr dims \<and>
           py_max dims = Inr dim' \<and> 0 \<le> dim' \<and> 0 \<le> modbank_Nmod \<and>
           AMa_fill_channels c E (rate_value fs) window_NT f_spectra modbank_Nmod dim'
             [0..<length fc] (np_zeros (nat dim') (nat modbank_Nmod), 0)
             = Inr (AMsgram, n_windows) \<and>
           res = [Arr2 AMsgram, Arr1 fc, Arr1 f_spectra,
                  Params (AMa_scalogram_params (arange_mul n_windows (Num (1 / 10))) f_bw
                            gamma_responses E f_spectra fc)]"
proof -
  from assms obtain x where sig: "sig = Ndarray x"
    by (cases sig) (auto simp: AMa_scalogram_def validate_def)
  from assms sig show ?thesis
    by (auto simp: AMa_scalogram_def validate_def Let_def grid_zeros_def
             split: if_splits option.splits sum.splits prod.splits)
qed

text \<open>
  Claim C1, as stated, fails. On a silent signal every window of every channel has the
  power estimate 0; the cell in row 1 of column 0 is written by both channels, the sum of
  their estimates is 0, and the cell reads NaN.
\<close>

theorem AMa_scalogram_zero_power_counterexample:
  "AMa_scalogram demo (Ndarray [Num 0, Num 0]) (PyInt 1) (1 / 5) (1 / 2) 200 2 70 6700 =
     Inr [Arr2 [[NaN, NaN], [NaN, NaN], [NaN, NaN]], Arr1 [Num 70, Num 6700],
          Arr1 [Num 1, Num 2],
          Params (AMa_scalogram_params [Num (1 / 10), Num (1 / 5)] [Num 70, Num 6700]
                    [[Num 0, Num 0], [Num 0, Num 0]] [[Num 0, Num 0], [Num 0, Num 0]]
                    [Num 1, Num 2] [Num 70, Num 6700])] \<and>
   AMa_written demo [[Num 0, Num 0], [Num 0, Num 0]] 0 (Num 1) (1 / 5) [Num 1, Num 2] 3 1 0 \<and>
   AMa_written demo [[Num 0, Num 0], [Num 0, Num 0]] 1 (Num 1) (1 / 5) [Num 1, Num 2] 3 1 0 \<and>
   AMa_estimate demo [Num 0, Num 0] (Num 1) (Num 1) = Inr (Num 0) \<and>
   np_sum [Num 0, Num 0] = Num 0"
  by (simp add: AMa_scalogram_silence)
     (simp add: AMa_written_def scalogram_eval)

text \<open>
  Claim C1, amended. When \<open>AMa_scalogram\<close> returns, every cell that no channel writes
  reads NaN; a cell reads the sum over the channels of the values that the per-channel
  scalograms hold at it (the power estimate of the window placed there, by C7) whenever
  no sum over the leading channels is exactly 0; and a cell whose sum over all channels is
  exactly 0 reads NaN, written or not, zero being the mark of a missing value.
\<close>

theorem AMa_scalogram_cells:
  assumes "AMa_scalogram c sig fs window_NT mfmin mfmax modbank_Nmod fmin fmax = Inr res"
  shows "\<exists>x gamma_responses fc E f_spectra edges AMsgram step Ss.
           sig = Ndarray x \<and>
           auditory_filterbank c x (rate_value fs) fmin fmax = Some (gamma_responses, fc) \<and>
           hilbert_envelope c gamma_responses = Some E \<and>
           define_modulation_axis c mfmin mfmax modbank_Nmod = Some (f_spectra, edges) \<and>
           res = [Arr2 AMsgram, Arr1 fc, Arr1 f_spectra, Params step] \<and>
           Ss \<noteq> [] \<and> length Ss = length fc \<and>
           (\<forall>ichan<length fc. \<exists>m m'.
              AMa_fill_freqs c E ichan (rate_value fs) window_NT f_spectra
                [0..<nat modbank_Nmod] (np_zeros (length AMsgram) (nat modbank_Nmod), m)
                = Inr (Ss ! ichan, m')) \<and>
           (\<forall>k<length AMsgram. length (AMsgram ! k) = nat modbank_Nmod \<and>
              (\<forall>j<nat modbank_Nmod.
                 ((\<forall>ichan<length fc. \<not> AMa_written c E ichan (rate_value fs) window_NT
                      f_spectra (length AMsgram) k j) \<longrightarrow> AMsgram ! k ! j = NaN) \<and>
                 (\<not> zero_prefix (map (\<lambda>S. S ! k ! j) Ss) \<longrightarrow>
                    AMsgram ! k ! j = np_sum (map (\<lambda>S. S ! k ! j) Ss)) \<and>
                 (np_sum (map (\<lambda>S. S ! k ! j) Ss) = Num 0 \<longrightarrow> AMsgram ! k ! j = NaN)))"
proof -
  from AMa_scalogram_Inr[OF assms] obtain x gamma_responses fc E f_spectra edges dims dim'
      AMsgram n_windows f_bw where
    sig: "sig = Ndarray x" and
    fb: "auditory_filterbank c x (rate_value fs) fmin fmax = Some (gamma_responses, fc)" and
    env: "hilbert_envelope c gamma_responses = Some E" and
    ax: "define_modulation_axis c mfmin mfmax modbank_Nmod = Some (f_spectra, edges)" and
    D: "AMa_dims_channels c E (rate_value fs) window_NT f_spectra modbank_Nmod
          [0..<length fc] = Inr dims" and
    M: "py_max dims = Inr dim'" and
    F: "AMa_fill_channels c E (rate_value fs) window_NT f_spectra modbank_Nmod dim'
          [0..<length fc] (np_zeros (nat dim') (nat modbank_Nmod), 0) = Inr (AMsgram, n_windows)"
      and
    res: "res = [Arr2 AMsgram, Arr1 fc, Arr1 f_spectra,
                 Params (AMa_scalogram_params (arange_mul n_windows (Num (1 / 10))) f_bw
                           gamma_responses E f_spectra fc)]"
    by blast
  let ?Z = "np_zeros (nat dim') (nat modbank_Nmod)"
  have ne: "fc \<noteq> []"
  proof
    assume "fc = []"
    with D have "dims = []" by simp
    with M show False by (simp add: py_max_def)
  qed
  have shZ: "length ?Z = nat dim'" "\<forall>k<nat dim'. length (?Z ! k) = nat modbank_Nmod"
    by (simp_all add: np_zeros_def)
  from AMa_fill_channels_cells[OF F shZ] obtain Ss where
    len: "length Ss = length fc" and
    per: "\<forall>i<length fc. \<exists>m m'.
              AMa_fill_freqs c E i (rate_value fs) window_NT f_spectra [0..<nat modbank_Nmod]
                (?Z, m) = Inr (Ss ! i, m')" and
    lenA: "length AMsgram = nat dim'" and
    cells: "\<forall>k<nat dim'. length (AMsgram ! k) = nat modbank_Nmod \<and>
              (\<forall>j<nat modbank_Nmod.
                 AMsgram ! k ! j = foldl (\<lambda>a v. nan_if_zero (np_add a v)) (?Z ! k ! j)
                                     (map (\<lambda>S. S ! k ! j) Ss))"
    by auto
  have run: "AMsgram ! k ! j = running_sum (map (\<lambda>S. S ! k ! j) Ss)"
    if "k < nat dim'" "j < nat modbank_Nmod" for k j
    using cells that by (simp add: running_sum_def np_zeros_def)
  have Ssne: "Ss \<noteq> []" using ne len by auto
  have unwritten: "AMsgram ! k ! j = NaN"
    if kj: "k < nat dim'" "j < nat modbank_Nmod"
      and nw: "\<forall>ichan<length fc. \<not> AMa_written c E ichan (rate_value fs) window_NT
                 f_spectra (nat dim') k j" for k j
  proof -
    have "S ! k ! j = Num 0" if "S \<in> set Ss" for S
    proof -
      from that len obtain i where i: "i < length fc" "S = Ss ! i"
        by (auto simp: in_set_conv_nth)
      with per obtain m m' where
        f: "AMa_fill_freqs c E i (rate_value fs) window_NT f_spectra [0..<nat modbank_Nmod]
              (?Z, m) = Inr (S, m')"
        by blast
      have "S ! k ! j = ?Z ! k ! j"
        using nw i(1) by (intro AMa_fill_freqs_other[OF f]) (simp add: np_zeros_def)
      then show ?thesis using kj by (simp add: np_zeros_def)
    qed
    then have "zero_prefix (map (\<lambda>S. S ! k ! j) Ss)"
      using Ssne by (intro zero_prefix_all_zero) auto
    then show ?thesis using run[OF kj] by (simp add: running_sum_eq)
  qed
  have all: "length (AMsgram ! k) = nat modbank_Nmod \<and>
              (\<forall>j<nat modbank_Nmod.
                 ((\<forall>ichan<length fc. \<not> AMa_written c E ichan (rate_value fs) window_NT
                      f_spectra (length AMsgram) k j) \<longrightarrow> AMsgram ! k ! j = NaN) \<and>
                 (\<not> zero_prefix (map (\<lambda>S. S ! k ! j) Ss) \<longrightarrow>
                    AMsgram ! k ! j = np_sum (map (\<lambda>S. S ! k ! j) Ss)) \<and>
                 (np_sum (map (\<lambda>S. S ! k ! j) Ss) = Num 0 \<longrightarrow> AMsgram ! k ! j = NaN))"
    if k: "k < length AMsgram" for k
  proof (intro conjI allI impI)
    show "length (AMsgram ! k) = nat modbank_Nmod" using cells k lenA by simp
  next
    fix j assume j: "j < nat modbank_Nmod"
      and "\<forall>ichan<length fc. \<not> AMa_written c E ichan (rate_value fs) window_NT
                      f_spectra (length AMsgram) k j"
    then show "AMsgram ! k ! j = NaN" using unwritten[of k j] k lenA by simp
  next
    fix j assume j: "j < nat modbank_Nmod" and "\<not> zero_prefix (map (\<lambda>S. S ! k ! j) Ss)"
    then show "AMsgram ! k ! j = np_sum (map (\<lambda>S. S ! k ! j) Ss)"
      using run[of k j] k lenA by (simp add: running_sum_eq)
  next
    fix j assume j: "j < nat modbank_Nmod" and z: "np_sum (map (\<lambda>S. S ! k ! j) Ss) = Num 0"
    have "zero_prefix (map (\<lambda>S. S ! k ! j) Ss)"
      using Ssne z by (intro zero_prefix_total) auto
    then show "AMsgram ! k ! j = NaN"
      using run[of k j] j k lenA by (simp add: running_sum_eq)
  qed
  have per': "\<forall>ichan<length fc. \<exists>m m'.
              AMa_fill_freqs c E ichan (rate_value fs) window_NT f_spectra
                [0..<nat modbank_Nmod] (np_zeros (length AMsgram) (nat modbank_Nmod), m)
                = Inr (Ss ! ichan, m')"
    using per lenA by simp
  show ?thesis
    using sig fb env ax res Ssne len per' all by blast
qed

theorem AMa_scalogram_cells_witness:
  "\<exists>AMsgram fc f_spectra step Ss.
     AMa_scalogram demo (Ndarray [Num 1, Num 3]) (PyInt 1) (1 / 5) (1 / 2) 200 2 70 6700 =
       Inr [Arr2 AMsgram, Arr1 fc, Arr1 f_spectra, Params step] \<and>
     Ss \<noteq> [] \<and> length Ss = length fc \<and>
     (\<forall>k<length AMsgram. length (AMsgram ! k) = nat 2 \<and>
        (\<forall>j<nat 2.
           (\<not> zero_prefix (map (\<lambda>S. S ! k ! j) Ss) \<longrightarrow>
              AMsgram ! k ! j = np_sum (map (\<lambda>S. S ! k ! j) Ss)) \<and>
           (np_sum (map (\<lambda>S. S ! k ! j) Ss) = Num 0 \<longrightarrow> AMsgram ! k ! j = NaN)))"
  using AMa_scalogram_cells[OF AMa_scalogram_demo]
  unfolding AMa_scalogram_demo by blast

section \<open>Where the estimate of a window is placed\<close>

lemma nan_where_zero_cell:
  assumes "k < length G" and "j < length (G ! k)"
  shows "nan_where_zero G ! k ! j = nan_if_zero (G ! k ! j)"
  using assms by (simp add: nan_where_zero_def)

lemma f0M_scalogram_Inr:
  assumes "f0M_scalogram c sig fs window_NT mfmin mfmax modbank_Nmod undersample fmin fmax
             yin_thresh ap0_thresh max_jump min_duration = Inr res"
  shows "\<exists>f0 f_spectra edges fs_yin dims dim' G.
           f0M_track c sig fs undersample fmin fmax yin_thresh ap0_thresh max_jump min_duration
             = Inr f0 \<and>
           define_modulation_axis c mfmin mfmax modbank_Nmod = Some (f_spectra, edges) \<and>
           py_truediv (rate_value fs) undersample = Inr fs_yin \<and>
           f0M_dims_freqs c f0 fs_yin window_NT f_spectra [0..<nat modbank_Nmod] = Inr dims \<and>
           py_max dims = Inr dim' \<and> 0 \<le> dim' \<and> 0 \<le> modbank_Nmod \<and>
           f0M_fill_freqs c f0 (arange_div (length f0) fs_yin) fs_yin window_NT f_spectra
             [0..<nat modbank_Nmod] (np_zeros (nat dim') (nat modbank_Nmod)) = Inr G \<and>
           res = [Arr2 (nan_where_zero G), Arr1 f_spectra]"
  using assms
  by (auto simp: f0M_scalogram_def Let_def grid_zeros_def
           split: if_splits option.splits sum.splits prod.splits)

lemma AMa_fill_freqs_segments:
  assumes "AMa_fill_freqs c E ichan fs window_NT f_spectra ifreqs (G, n) = Inr (G', n')"
    and "ifreq \<in> set ifreqs"
  shows "\<exists>windows. segment_into_windows c (E ! ichan) fs
           (window_length_of window_NT (f_spectra ! ifreq)) (Num (1 / 10)) True = Some windows"
  using assms
proof (induction ifreqs arbitrary: G n)
  case Nil
  then show ?case by simp
next
  case (Cons i rest)
  from AMa_fill_freqs_Cons[OF Cons.prems(1)] obtain windows G1 where
    W: "segment_into_windows c (E ! ichan) fs (window_length_of window_NT (f_spectra ! i))
          (Num (1 / 10)) True = Some windows" and
    R: "AMa_fill_freqs c E ichan fs window_NT f_spectra rest (G1, length windows) = Inr (G', n')"
    by blast
  show ?case
  proof (cases "ifreq = i")
    case True
    with W show ?thesis by simp
  next
    case False
    with Cons.prems(2) have "ifreq \<in> set rest" by simp
    from Cons.IH[OF R this] show ?thesis .
  qed
qed

lemma AMa_fill_freqs_row:
  assumes F: "AMa_fill_freqs c E ichan fs window_NT f_spectra ifreqs (G, n) = Inr (G', n')"
    and d: "distinct ifreqs" and m: "ifreq \<in> set ifreqs"
    and W: "segment_into_windows c (E ! ichan) fs
              (window_length_of window_NT (f_spectra ! ifreq)) (Num (1 / 10)) True = Some windows"
    and iw: "iwin < length windows"
    and O: "half_window_offset (window_length_of window_NT (f_spectra ! ifreq)) = Inr r"
    and r0: "0 \<le> r"
  shows "\<exists>Efft. periodogram c (windows ! iwin) fs [Num (1 / 100), f_spectra ! ifreq] = Some Efft \<and>
           1 < length Efft \<and> iwin + nat r < length G \<and>
           G' ! (iwin + nat r) ! ifreq = np_mul (Num 2) (Efft ! 1)"
proof -
  from AMa_fill_freqs_placed[OF F d m] obtain ws where
    W': "segment_into_windows c (E ! ichan) fs
           (window_length_of window_NT (f_spectra ! ifreq)) (Num (1 / 10)) True = Some ws" and
    P: "\<forall>iwin<length ws. \<forall>r.
          half_window_offset (window_length_of window_NT (f_spectra ! ifreq)) = Inr r \<longrightarrow>
          0 \<le> r \<longrightarrow>
          (\<exists>v. AMa_estimate c (ws ! iwin) fs (f_spectra ! ifreq) = Inr v \<and>
               int iwin + r < int (length G) \<and>
               G' ! nat (int iwin + r) ! ifreq = v)"
    by blast
  from W W' have ws: "ws = windows" by simp
  from P[unfolded ws, rule_format, OF iw O r0] obtain v where
    v: "AMa_estimate c (windows ! iwin) fs (f_spectra ! ifreq) = Inr v"
      "int iwin + r < int (length G)"
      "G' ! nat (int iwin + r) ! ifreq = v"
    by blast
  have row: "nat (int iwin + r) = iwin + nat r" using r0 by (simp add: nat_add_distrib)
  from v(2) r0 have "iwin + nat r < length G" by linarith
  with v(1,3) show ?thesis unfolding AMa_estimate_Inr row by blast
qed

lemma f0M_fill_freqs_segments:
  assumes "f0M_fill_freqs c f0 t_yin fs_yin window_NT f_spectra ifreqs G = Inr G'"
    and "ifreq \<in> set ifreqs"
  shows "\<exists>windows t_windows.
           segment_into_windows c f0 fs_yin
             (window_length_of window_NT (f_spectra ! ifreq)) (Num (1 / 10)) False = Some windows \<and>
           segment_into_windows c t_yin fs_yin
             (window_length_of window_NT (f_spectra ! ifreq)) (Num (1 / 10)) False
             = Some t_windows"
  using assms
proof (induction ifreqs arbitrary: G)
  case Nil
  then show ?case by simp
next
  case (Cons i rest)
  from f0M_fill_freqs_Cons[OF Cons.prems(1)] obtain windows t_windows G1 where
    W: "segment_into_windows c f0 fs_yin (window_length_of window_NT (f_spectra ! i))
          (Num (1 / 10)) False = Some windows"
       "segment_into_windows c t_yin fs_yin (window_length_of window_NT (f_spectra ! i))
          (Num (1 / 10)) False = Some t_windows" and
    R: "f0M_fill_freqs c f0 t_yin fs_yin window_NT f_spectra rest G1 = Inr G'"
    by blast
  show ?case
  proof (cases "ifreq = i")
    case True
    with W show ?thesis by simp
  next
    case False
    with Cons.prems(2) have "ifreq \<in> set rest" by simp
    from Cons.IH[OF R this] show ?thesis .
  qed
qed

lemma f0M_fill_freqs_row:
  assumes F: "f0M_fill_freqs c f0 t_yin fs_yin window_NT f_spectra ifreqs G = Inr G'"
    and d: "distinct ifreqs" and m: "ifreq \<in> set ifreqs"
    and W: "segment_into_windows c f0 fs_yin
              (window_length_of window_NT (f_spectra ! ifreq)) (Num (1 / 10)) False = Some windows"
       "segment_into_windows c t_yin fs_yin
              (window_length_of window_NT (f_spectra ! ifreq)) (Num (1 / 10)) False
              = Some t_windows"
    and iw: "iwin < length windows"
    and O: "half_window_offset (window_length_of window_NT (f_spectra ! ifreq)) = Inr r"
    and r0: "0 \<le> r"
  shows "\<exists>freqs f0Mfft.
           lombscargle c (t_windows ! iwin) (windows ! iwin) [Num (1 / 100), f_spectra ! ifreq]
             = Some (freqs, f0Mfft) \<and>
           1 < length f0Mfft \<and> iwin + nat r < length G \<and>
           G' ! (iwin + nat r) ! ifreq = np_mul (Num 2) (f0Mfft ! 1)"
proof -
  from f0M_fill_freqs_placed[OF F d m] obtain ws ts where
    W': "segment_into_windows c f0 fs_yin
           (window_length_of window_NT (f_spectra ! ifreq)) (Num (1 / 10)) False = Some ws"
        "segment_into_windows c t_yin fs_yin
           (window_length_of window_NT (f_spectra ! ifreq)) (Num (1 / 10)) False = Some ts" and
    P: "\<forall>iwin<length ws. \<forall>r.
          half_window_offset (window_length_of window_NT (f_spectra ! ifreq)) = Inr r \<longrightarrow>
          0 \<le> r \<longrightarrow>
          (\<exists>v. iwin < length ts \<and>
               f0M_estimate c (ts ! iwin) (ws ! iwin) (f_spectra ! ifreq) = Inr v \<and>
               int iwin + r < int (length G) \<and>
               G' ! nat (int iwin + r) ! ifreq = v)"
    by blast
  from W W' have ws: "ws = windows" "ts = t_windows" by simp_all
  from P[unfolded ws, rule_format, OF iw O r0] obtain v where
    v: "f0M_estimate c (t_windows ! iwin) (windows ! iwin) (f_spectra ! ifreq) = Inr v"
      "int iwin + r < int (length G)"
      "G' ! nat (int iwin + r) ! ifreq = v"
    by blast
  have row: "nat (int iwin + r) = iwin + nat r" using r0 by (simp add: nat_add_distrib)
  from v(2) r0 have "iwin + nat r < length G" by linarith
  with v(1,3) show ?thesis unfolding f0M_estimate_Inr row by blast
qed

lemma f0M_scalogram_overwrite:
  "f0M_scalogram demo_distinct_windows (Ndarray [Num 0, Num 0, Num 0, Num 0]) (PyInt 2)
     (- (1 / 5)) (1 / 2) 200 1 2 60 550 (2 / 10) (8 / 10) 10 (8 / 100)
     = Inr [Arr2 [[Num 3520]], Arr1 [Num 1]]"
  by (simp add: f0M_scalogram_def f0M_track_eval demo_distinct_windows_def
        get_item_def f0M_estimate_def offset_minus_fifth_1
        grid_set_def grid_row_def grid_zeros_def np_zeros_def demo_def upt2
        replicate2 replicate3 np_sum_def py_max_def nan_where_zero_def nan_if_zero_def
        arange_div_def Let_def)

lemma AMa_scalogram_overwrite:
  "AMa_scalogram demo_distinct_windows (Ndarray [Num 1, Num 3]) (PyInt 1) (- (1 / 5)) (1 / 2) 200
     1 70 6700 =
   Inr [Arr2 [[Num 48]], Arr1 [Num 70, Num 6700], Arr1 [Num 1],
        Params (AMa_scalogram_params [Num (1 / 10), Num (1 / 5)] [Num 70, Num 6700]
                  [[Num 1, Num 3], [Num 2, Num 6]] [[Num 1, Num 3], [Num 2, Num 6]]
                  [Num 1] [Num 70, Num 6700])]"
  by (simp add: AMa_scalogram_def validate_def rate_le_zero_def demo_distinct_windows_def
        get_item_def AMa_estimate_def offset_minus_fifth_1
        grid_set_def grid_row_def grid_zeros_def np_zeros_def demo_def upt2
        replicate2 replicate3 np_sum_def py_max_def grid_add_def nan_where_zero_def
        nan_if_zero_def arange_mul_def Let_def)

lemma AMa_fill_overwrite:
  "AMa_fill_freqs demo_distinct_windows [[Num 1, Num 3], [Num 2, Num 6]] 0 (Num 1) (- (1 / 5))
     [Num 1] [0..<nat 1] (np_zeros 1 1, 0) = Inr ([[Num 16]], 2)"
  by (simp add: demo_distinct_windows_def
        get_item_def AMa_estimate_def offset_minus_fifth_1
        grid_set_def grid_row_def grid_zeros_def np_zeros_def demo_def upt2
        replicate2 replicate3 np_sum_def Let_def)

text \<open>
  Claim C7, as stated, fails. The row index \<open>iwin + round(window_length / 2 / 0.1)\<close> can be
  negative, and numpy counts a negative index from the end of the grid, where the row
  may be the one of another window. With \<open>window_NT = -0.2\<close> and the modulation frequency
  1 the offset is \<open>-1\<close>; the segmentation gives two windows, the grid has one row, window 0
  writes at row \<open>-1\<close> and window 1 at row 0, which is the same row. In \<open>f0M_scalogram\<close> the
  estimate of window 0 is 1760 and the grid returned holds 3520, the estimate of
  window 1; in \<open>AMa_scalogram\<close> the estimate of window 0 of channel 0 is 8 and the grid of
  that channel holds 16.
\<close>

theorem scalogram_negative_offset_counterexample:
  "f0M_scalogram demo_distinct_windows (Ndarray [Num 0, Num 0, Num 0, Num 0]) (PyInt 2)
     (- (1 / 5)) (1 / 2) 200 1 2 60 550 (2 / 10) (8 / 10) 10 (8 / 100)
     = Inr [Arr2 [[Num 3520]], Arr1 [Num 1]] \<and>
   half_window_offset (window_length_of (- (1 / 5)) (Num 1)) = Inr (- 1) \<and>
   segment_into_windows demo_distinct_windows [Num 440, Num 440] (Num 1)
     (window_length_of (- (1 / 5)) (Num 1)) (Num (1 / 10)) False
     = Some [[Num 440, Num 440], [Num 880, Num 880]] \<and>
   segment_into_windows demo_distinct_windows [Num 1, Num 2] (Num 1)
     (window_length_of (- (1 / 5)) (Num 1)) (Num (1 / 10)) False
     = Some [[Num 1, Num 2], [Num 2, Num 4]] \<and>
   f0M_estimate demo_distinct_windows [Num 1, Num 2] [Num 440, Num 440] (Num 1)
     = Inr (Num 1760) \<and>
   f0M_estimate demo_distinct_windows [Num 2, Num 4] [Num 880, Num 880] (Num 1)
     = Inr (Num 3520) \<and>
   grid_row (int 0 + - 1) 1 = 0 \<and>
   [[Num 3520]] ! grid_row (int 0 + - 1) 1 ! 0 \<noteq> nan_if_zero (Num 1760) \<and>
   AMa_scalogram demo_distinct_windows (Ndarray [Num 1, Num 3]) (PyInt 1) (- (1 / 5)) (1 / 2) 200
     1 70 6700 =
     Inr [Arr2 [[Num 48]], Arr1 [Num 70, Num 6700], Arr1 [Num 1],
          Params (AMa_scalogram_params [Num (1 / 10), Num (1 / 5)] [Num 70, Num 6700]
                    [[Num 1, Num 3], [Num 2, Num 6]] [[Num 1, Num 3], [Num 2, Num 6]]
                    [Num 1] [Num 70, Num 6700])] \<and>
   AMa_fill_freqs demo_distinct_windows [[Num 1, Num 3], [Num 2, Num 6]] 0 (Num 1) (- (1 / 5))
     [Num 1] [0..<nat 1] (np_zeros 1 1, 0) = Inr ([[Num 16]], 2) \<and>
   AMa_estimate demo_distinct_windows [Num 1, Num 3] (Num 1) (Num 1) = Inr (Num 8) \<and>
   [[Num 16]] ! grid_row (int 0 + - 1) 1 ! 0 \<noteq> Num 8"
  using f0M_scalogram_overwrite AMa_scalogram_overwrite AMa_fill_overwrite offset_minus_fifth_1
  by (simp add: demo_distinct_windows_def demo_def f0M_estimate_def AMa_estimate_def
        get_item_def np_sum_def grid_row_def nan_if_zero_def)

text \<open>
  Claim C7, amended. The offset of a window is \<open>r = round(window_length / 2 / 0.1)\<close> with
  \<open>window_length = window_NT * (1 / f)\<close>, as float64 computes it (at \<open>window_NT = 9\<close>
  and \<open>f = 30\<close> it is 1, where the exact quotient 1.5 would round to 2). Whenever a
  scalogram returns, every window \<open>iwin\<close> of every modulation frequency
  \<open>f = f_spectra[ifreq]\<close> has an offset, and when the offset is not negative the estimate of
  the window, twice the second value of the spectral query at the two frequencies 0.01 and
  \<open>f\<close>, stands at row \<open>iwin + r\<close> of column \<open>ifreq\<close>:

  \<^item> in \<open>AMa_scalogram\<close> it is the periodogram of the window, and it stands in the grid of
    its channel; a cell of the grid returned holds what the cells of the channels add up
    to, sum by sum, a sum of 0 being replaced by NaN (C1);

  \<^item> in \<open>f0M_scalogram\<close> it is the Lomb-Scargle power of the window and its time stamps,
    and it stands in the grid returned, as NaN when it is exactly 0.
\<close>

theorem scalogram_estimates_placed:
  "(AMa_scalogram c sig fs window_NT mfmin mfmax modbank_Nmod fmin fmax = Inr res \<longrightarrow>
      (\<exists>x gamma_responses fc E f_spectra edges AMsgram step Ss.
         sig = Ndarray x \<and>
         auditory_filterbank c x (rate_value fs) fmin fmax = Some (gamma_responses, fc) \<and>
         hilbert_envelope c gamma_responses = Some E \<and>
         define_modulation_axis c mfmin mfmax modbank_Nmod = Some (f_spectra, edges) \<and>
         res = [Arr2 AMsgram, Arr1 fc, Arr1 f_spectra, Params step] \<and>
         length Ss = length fc \<and>
         (\<forall>ichan<length fc. \<exists>m m'.
            AMa_fill_freqs c E ichan (rate_value fs) window_NT f_spectra
              [0..<nat modbank_Nmod] (np_zeros (length AMsgram) (nat modbank_Nmod), m)
              = Inr (Ss ! ichan, m')) \<and>
         (\<forall>k<length AMsgram. \<forall>j<nat modbank_Nmod.
            AMsgram ! k ! j = running_sum (map (\<lambda>S. S ! k ! j) Ss)) \<and>
         (\<forall>ichan<length fc. \<forall>ifreq<nat modbank_Nmod. \<exists>windows.
            segment_into_windows c (E ! ichan) (rate_value fs)
              (window_length_of window_NT (f_spectra ! ifreq)) (Num (1 / 10)) True
              = Some windows \<and>
            (\<forall>iwin<length windows. \<exists>r.
               half_window_offset (window_length_of window_NT (f_spectra ! ifreq)) = Inr r \<and>
               (0 \<le> r \<longrightarrow>
                  (\<exists>Efft.
                     periodogram c (windows ! iwin) (rate_value fs)
                       [Num (1 / 100), f_spectra ! ifreq] = Some Efft \<and>
                     1 < length Efft \<and>
                     iwin + nat r < length AMsgram \<and>
                     Ss ! ichan ! (iwin + nat r) ! ifreq = np_mul (Num 2) (Efft ! 1))))))) \<and>
   (f0M_scalogram c sig fs window_NT mfmin mfmax modbank_Nmod undersample fmin0 fmax0
        yin_thresh ap0_thresh max_jump min_duration = Inr res \<longrightarrow>
      (\<exists>f0 fs_yin f_spectra edges f0Msgram.
         f0M_track c sig fs undersample fmin0 fmax0 yin_thresh ap0_thresh max_jump min_duration
           = Inr f0 \<and>
         py_truediv (rate_value fs) undersample = Inr fs_yin \<and>
         define_modulation_axis c mfmin mfmax modbank_Nmod = Some (f_spectra, edges) \<and>
         res = [Arr2 f0Msgram, Arr1 f_spectra] \<and>
         (\<forall>ifreq<nat modbank_Nmod. \<exists>windows t_windows.
            segment_into_windows c f0 fs_yin
              (window_length_of window_NT (f_spectra ! ifreq)) (Num (1 / 10)) False
              = Some windows \<and>
            segment_into_windows c (arange_div (length f0) fs_yin) fs_yin
              (window_length_of window_NT (f_spectra ! ifreq)) (Num (1 / 10)) False
              = Some t_windows \<and>
            (\<forall>iwin<length windows. \<exists>r.
               half_window_offset (window_length_of window_NT (f_spectra ! ifreq)) = Inr r \<and>
               (0 \<le> r \<longrightarrow>
                  (\<exists>freqs f0Mfft.
                     lombscargle c (t_windows ! iwin) (windows ! iwin)
                       [Num (1 / 100), f_spectra ! ifreq] = Some (freqs, f0Mfft) \<and>
                     1 < length f0Mfft \<and>
                     iwin + nat r < length f0Msgram \<and>
                     f0Msgram ! (iwin + nat r) ! ifreq
                       = nan_if_zero (np_mul (Num 2) (f0Mfft ! 1))))))))"
proof (intro conjI impI)
  assume run: "AMa_scalogram c sig fs window_NT mfmin mfmax modbank_Nmod fmin fmax = Inr res"
  from AMa_scalogram_Inr[OF run] obtain x gamma_responses fc E f_spectra edges dims dim'
      AMsgram n_windows f_bw where
    sig: "sig = Ndarray x" and
    fb: "auditory_filterbank c x (rate_value fs) fmin fmax = Some (gamma_responses, fc)" and
    env: "hilbert_envelope c gamma_responses = Some E" and
    ax: "define_modulation_axis c mfmin mfmax modbank_Nmod = Some (f_spectra, edges)" and
    D: "AMa_dims_channels c E (rate_value fs) window_NT f_spectra modbank_Nmod
          [0..<length fc] = Inr dims" and
    M: "py_max dims = Inr dim'" and
    F: "AMa_fill_channels c E (rate_value fs) window_NT f_spectra modbank_Nmod dim'
          [0..<length fc] (np_zeros (nat dim') (nat modbank_Nmod), 0) = Inr (AMsgram, n_windows)"
      and
    res: "res = [Arr2 AMsgram, Arr1 fc, Arr1 f_spectra,
                 Params (AMa_scalogram_params (arange_mul n_windows (Num (1 / 10))) f_bw
                           gamma_responses E f_spectra fc)]"
    by blast
  let ?Z = "np_zeros (nat dim') (nat modbank_Nmod)"
  have shZ: "length ?Z = nat dim'" "\<forall>k<nat dim'. length (?Z ! k) = nat modbank_Nmod"
    by (simp_all add: np_zeros_def)
  from AMa_fill_channels_cells[OF F shZ] obtain Ss where
    len: "length Ss = length fc" and
    per: "\<forall>i<length fc. \<exists>m m'.
              AMa_fill_freqs c E i (rate_value fs) window_NT f_spectra [0..<nat modbank_Nmod]
                (?Z, m) = Inr (Ss ! i, m')" and
    lenA: "length AMsgram = nat dim'" and
    cells: "\<forall>k<nat dim'. length (AMsgram ! k) = nat modbank_Nmod \<and>
              (\<forall>j<nat modbank_Nmod.
                 AMsgram ! k ! j = foldl (\<lambda>a v. nan_if_zero (np_add a v)) (?Z ! k ! j)
                                     (map (\<lambda>S. S ! k ! j) Ss))"
    by auto
  have sum: "\<forall>k<length AMsgram. \<forall>j<nat modbank_Nmod.
               AMsgram ! k ! j = running_sum (map (\<lambda>S. S ! k ! j) Ss)"
    using cells lenA by (simp add: running_sum_def np_zeros_def)
  have per': "\<forall>ichan<length fc. \<exists>m m'.
              AMa_fill_freqs c E ichan (rate_value fs) window_NT f_spectra
                [0..<nat modbank_Nmod] (np_zeros (length AMsgram) (nat modbank_Nmod), m)
                = Inr (Ss ! ichan, m')"
    using per lenA by simp
  have placed: "\<forall>ichan<length fc. \<forall>ifreq<nat modbank_Nmod. \<exists>windows.
            segment_into_windows c (E ! ichan) (rate_value fs)
              (window_length_of window_NT (f_spectra ! ifreq)) (Num (1 / 10)) True
              = Some windows \<and>
            (\<forall>iwin<length windows. \<exists>r.
               half_window_offset (window_length_of window_NT (f_spectra ! ifreq)) = Inr r \<and>
               (0 \<le> r \<longrightarrow>
                  (\<exists>Efft.
                     periodogram c (windows ! iwin) (rate_value fs)
                       [Num (1 / 100), f_spectra ! ifreq] = Some Efft \<and>
                     1 < length Efft \<and>
                     iwin + nat r < length AMsgram \<and>
                     Ss ! ichan ! (iwin + nat r) ! ifreq = np_mul (Num 2) (Efft ! 1))))"
  proof (intro allI impI)
    fix ichan ifreq
    assume ic: "ichan < length fc" and jf: "ifreq < nat modbank_Nmod"
    let ?wl = "window_length_of window_NT (f_spectra ! ifreq)"
    from per ic obtain m m' where
      f: "AMa_fill_freqs c E ichan (rate_value fs) window_NT f_spectra [0..<nat modbank_Nmod]
            (?Z, m) = Inr (Ss ! ichan, m')"
      by blast
    have mem: "ifreq \<in> set [0..<nat modbank_Nmod]" using jf by simp
    have icm: "ichan \<in> set [0..<length fc]" using ic by simp
    from AMa_fill_freqs_segments[OF f mem] obtain windows where
      W: "segment_into_windows c (E ! ichan) (rate_value fs) ?wl (Num (1 / 10)) True
            = Some windows"
      by blast
    have "\<exists>r. half_window_offset ?wl = Inr r \<and>
               (0 \<le> r \<longrightarrow>
                  (\<exists>Efft.
                     periodogram c (windows ! iwin) (rate_value fs)
                       [Num (1 / 100), f_spectra ! ifreq] = Some Efft \<and>
                     1 < length Efft \<and>
                     iwin + nat r < length AMsgram \<and>
                     Ss ! ichan ! (iwin + nat r) ! ifreq = np_mul (Num 2) (Efft ! 1)))"
      if iw: "iwin < length windows" for iwin
    proof -
      from AMa_dims_channels_mem[OF D icm jf W iw] obtain r where
        O: "half_window_offset ?wl = Inr r"
        by blast
      have "\<exists>Efft.
              periodogram c (windows ! iwin) (rate_value fs)
                [Num (1 / 100), f_spectra ! ifreq] = Some Efft \<and>
              1 < length Efft \<and>
              iwin + nat r < length AMsgram \<and>
              Ss ! ichan ! (iwin + nat r) ! ifreq = np_mul (Num 2) (Efft ! 1)"
        if r0: "0 \<le> r"
        using AMa_fill_freqs_row[OF f distinct_upt mem W iw O r0]
        unfolding lenA shZ(1) .
      then show ?thesis using O by (intro exI[of _ r]) simp
    qed
    then show "\<exists>windows.
            segment_into_windows c (E ! ichan) (rate_value fs) ?wl (Num (1 / 10)) True
              = Some windows \<and>
            (\<forall>iwin<length windows. \<exists>r.
               half_window_offset ?wl = Inr r \<and>
               (0 \<le> r \<longrightarrow>
                  (\<exists>Efft.
                     periodogram c (windows ! iwin) (rate_value fs)
                       [Num (1 / 100), f_spectra ! ifreq] = Some Efft \<and>
                     1 < length Efft \<and>
                     iwin + nat r < length AMsgram \<and>
                     Ss ! ichan ! (iwin + nat r) ! ifreq = np_mul (Num 2) (Efft ! 1))))"
      using W by (intro exI[of _ windows]) simp
  qed
  show "\<exists>x gamma_responses fc E f_spectra edges AMsgram step Ss.
         sig = Ndarray x \<and>
         auditory_filterbank c x (rate_value fs) fmin fmax = Some (gamma_responses, fc) \<and>
         hilbert_envelope c gamma_responses = Some E \<and>
         define_modulation_axis c mfmin mfmax modbank_Nmod = Some (f_spectra, edges) \<and>
         res = [Arr2 AMsgram, Arr1 fc, Arr1 f_spectra, Params step] \<and>
         length Ss = length fc \<and>
         (\<forall>ichan<length fc. \<exists>m m'.
            AMa_fill_freqs c E ichan (rate_value fs) window_NT f_spectra
              [0..<nat modbank_Nmod] (np_zeros (length AMsgram) (nat modbank_Nmod), m)
              = Inr (Ss ! ichan, m')) \<and>
         (\<forall>k<length AMsgram. \<forall>j<nat modbank_Nmod.
            AMsgram ! k ! j = running_sum (map (\<lambda>S. S ! k ! j) Ss)) \<and>
         (\<forall>ichan<length fc. \<forall>ifreq<nat modbank_Nmod. \<exists>windows.
            segment_into_windows c (E ! ichan) (rate_value fs)
              (window_length_of window_NT (f_spectra ! ifreq)) (Num (1 / 10)) True
              = Some windows \<and>
            (\<forall>iwin<length windows. \<exists>r.
               half_window_offset (window_length_of window_NT (f_spectra ! ifreq)) = Inr r \<and>
               (0 \<le> r \<longrightarrow>
                  (\<exists>Efft.
                     periodogram c (windows ! iwin) (rate_value fs)
                       [Num (1 / 100), f_spectra ! ifreq] = Some Efft \<and>
                     1 < length Efft \<and>
                     iwin + nat r < length AMsgram \<and>
                     Ss ! ichan ! (iwin + nat r) ! ifreq = np_mul (Num 2) (Efft ! 1)))))"
    apply (intro exI conjI)
            apply (rule sig)
           apply (rule fb)
          apply (rule env)
         apply (rule ax)
        apply (rule res)
       apply (rule len)
      apply (rule per')
     apply (rule sum)
    apply (rule placed)
    done
next
  assume run: "f0M_scalogram c sig fs window_NT mfmin mfmax modbank_Nmod undersample fmin0 fmax0
                 yin_thresh ap0_thresh max_jump min_duration = Inr res"
  from f0M_scalogram_Inr[OF run] obtain f0 f_spectra edges fs_yin dims dim' G where
    tr: "f0M_track c sig fs undersample fmin0 fmax0 yin_thresh ap0_thresh max_jump min_duration
           = Inr f0" and
    ax: "define_modulation_axis c mfmin mfmax modbank_Nmod = Some (f_spectra, edges)" and
    fy: "py_truediv (rate_value fs) undersample = Inr fs_yin" and
    D: "f0M_dims_freqs c f0 fs_yin window_NT f_spectra [0..<nat modbank_Nmod] = Inr dims" and
    F: "f0M_fill_freqs c f0 (arange_div (length f0) fs_yin) fs_yin window_NT f_spectra
          [0..<nat modbank_Nmod] (np_zeros (nat dim') (nat modbank_Nmod)) = Inr G" and
    res: "res = [Arr2 (nan_where_zero G), Arr1 f_spectra]"
    by blast
  let ?Z = "np_zeros (nat dim') (nat modbank_Nmod)"
  let ?t = "arange_div (length f0) fs_yin"
  have lenZ: "length ?Z = nat dim'" by (simp add: np_zeros_def)
  have shG: "length G = nat dim'" "\<And>k. k < nat dim' \<Longrightarrow> length (G ! k) = nat modbank_Nmod"
    using f0M_fill_freqs_shape[OF F] by (simp_all add: np_zeros_def)
  have lenN: "length (nan_where_zero G) = nat dim'"
    using shG(1) by (simp add: nan_where_zero_def)
  have placed: "\<forall>ifreq<nat modbank_Nmod. \<exists>windows t_windows.
            segment_into_windows c f0 fs_yin
              (window_length_of window_NT (f_spectra ! ifreq)) (Num (1 / 10)) False
              = Some windows \<and>
            segment_into_windows c ?t fs_yin
              (window_length_of window_NT (f_spectra ! ifreq)) (Num (1 / 10)) False
              = Some t_windows \<and>
            (\<forall>iwin<length windows. \<exists>r.
               half_window_offset (window_length_of window_NT (f_spectra ! ifreq)) = Inr r \<and>
               (0 \<le> r \<longrightarrow>
                  (\<exists>freqs f0Mfft.
                     lombscargle c (t_windows ! iwin) (windows ! iwin)
                       [Num (1 / 100), f_spectra ! ifreq] = Some (freqs, f0Mfft) \<and>
                     1 < length f0Mfft \<and>
                     iwin + nat r < length (nan_where_zero G) \<and>
                     nan_where_zero G ! (iwin + nat r) ! ifreq
                       = nan_if_zero (np_mul (Num 2) (f0Mfft ! 1)))))"
  proof (intro allI impI)
    fix ifreq
    assume jf: "ifreq < nat modbank_Nmod"
    let ?wl = "window_length_of window_NT (f_spectra ! ifreq)"
    have mem: "ifreq \<in> set [0..<nat modbank_Nmod]" using jf by simp
    from f0M_fill_freqs_segments[OF F mem] obtain windows t_windows where
      W: "segment_into_windows c f0 fs_yin ?wl (Num (1 / 10)) False = Some windows"
         "segment_into_windows c ?t fs_yin ?wl (Num (1 / 10)) False = Some t_windows"
      by blast
    have "\<exists>r. half_window_offset ?wl = Inr r \<and>
               (0 \<le> r \<longrightarrow>
                  (\<exists>freqs f0Mfft.
                     lombscargle c (t_windows ! iwin) (windows ! iwin)
                       [Num (1 / 100), f_spectra ! ifreq] = Some (freqs, f0Mfft) \<and>
                     1 < length f0Mfft \<and>
                     iwin + nat r < length (nan_where_zero G) \<and>
                     nan_where_zero G ! (iwin + nat r) ! ifreq
                       = nan_if_zero (np_mul (Num 2) (f0Mfft ! 1))))"
      if iw: "iwin < length windows" for iwin
    proof -
      from f0M_dims_freqs_mem[OF D mem W(1) iw] obtain r where
        O: "half_window_offset ?wl = Inr r"
        by blast
      have "\<exists>freqs f0Mfft.
              lombscargle c (t_windows ! iwin) (windows ! iwin)
                [Num (1 / 100), f_spectra ! ifreq] = Some (freqs, f0Mfft) \<and>
              1 < length f0Mfft \<and>
              iwin + nat r < length (nan_where_zero G) \<and>
              nan_where_zero G ! (iwin + nat r) ! ifreq
                = nan_if_zero (np_mul (Num 2) (f0Mfft ! 1))"
        if r0: "0 \<le> r"
      proof -
        from f0M_fill_freqs_row[OF F distinct_upt mem W iw O r0] obtain freqs f0Mfft where
          L: "lombscargle c (t_windows ! iwin) (windows ! iwin)
                [Num (1 / 100), f_spectra ! ifreq] = Some (freqs, f0Mfft)"
             "1 < length f0Mfft" and
          k: "iwin + nat r < nat dim'" and
          v: "G ! (iwin + nat r) ! ifreq = np_mul (Num 2) (f0Mfft ! 1)"
          unfolding lenZ by blast
        have "nan_where_zero G ! (iwin + nat r) ! ifreq = nan_if_zero (G ! (iwin + nat r) ! ifreq)"
          using k jf shG by (intro nan_where_zero_cell) simp_all
        with L k v show ?thesis unfolding lenN by simp
      qed
      then show ?thesis using O by (intro exI[of _ r]) simp
    qed
    then show "\<exists>windows t_windows.
            segment_into_windows c f0 fs_yin ?wl (Num (1 / 10)) False = Some windows \<and>
            segment_into_windows c ?t fs_yin ?wl (Num (1 / 10)) False = Some t_windows \<and>
            (\<forall>iwin<length windows. \<exists>r.
               half_window_offset ?wl = Inr r \<and>
               (0 \<le> r \<longrightarrow>
                  (\<exists>freqs f0Mfft.
                     lombscargle c (t_windows ! iwin) (windows ! iwin)
                       [Num (1 / 100), f_spectra ! ifreq] = Some (freqs, f0Mfft) \<and>
                     1 < length f0Mfft \<and>
                     iwin + nat r < length (nan_where_zero G) \<and>
                     nan_where_zero G ! (iwin + nat r) ! ifreq
                       = nan_if_zero (np_mul (Num 2) (f0Mfft ! 1)))))"
      using W by (intro exI[of _ windows] exI[of _ t_windows]) simp
  qed
  show "\<exists>f0 fs_yin f_spectra edges f0Msgram.
         f0M_track c sig fs undersample fmin0 fmax0 yin_thresh ap0_thresh max_jump min_duration
           = Inr f0 \<and>
         py_truediv (rate_value fs) undersample = Inr fs_yin \<and>
         define_modulation_axis c mfmin mfmax modbank_Nmod = Some (f_spectra, edges) \<and>
         res = [Arr2 f0Msgram, Arr1 f_spectra] \<and>
         (\<forall>ifreq<nat modbank_Nmod. \<exists>windows t_windows.
            segment_into_windows c f0 fs_yin
              (window_length_of window_NT (f_spectra ! ifreq)) (Num (1 / 10)) False
              = Some windows \<and>
            segment_into_windows c (arange_div (length f0) fs_yin) fs_yin
              (window_length_of window_NT (f_spectra ! ifreq)) (Num (1 / 10)) False
              = Some t_windows \<and>
            (\<forall>iwin<length windows. \<exists>r.
               half_window_offset (window_length_of window_NT (f_spectra ! ifreq)) = Inr r \<and>
               (0 \<le> r \<longrightarrow>
                  (\<exists>freqs f0Mfft.
                     lombscargle c (t_windows ! iwin) (windows ! iwin)
                       [Num (1 / 100), f_spectra ! ifreq] = Some (freqs, f0Mfft) \<and>
                     1 < length f0Mfft \<and>
                     iwin + nat r < length f0Msgram \<and>
                     f0Msgram ! (iwin + nat r) ! ifreq
                       = nan_if_zero (np_mul (Num 2) (f0Mfft ! 1))))))"
    apply (intro exI conjI)
        apply (rule tr)
       apply (rule fy)
      apply (rule ax)
     apply (rule res)
    apply (rule placed)
    done
qed

theorem scalogram_estimates_placed_witness:
  "(\<exists>Ss. length Ss = 2 \<and>
      half_window_offset (window_length_of (1 / 5) (Num 1)) = Inr 1 \<and>
      Ss ! 0 ! (1 + nat 1) ! 0 = Num 8 \<and>
      Ss ! 1 ! (1 + nat 1) ! 0 = Num 16 \<and>
      [[NaN, Num 24], [Num 24, Num 24], [Num 24, NaN]] ! (1 + nat 1) ! 0
        = running_sum (map (\<lambda>S. S ! (1 + nat 1) ! 0) Ss)) \<and>
   [[NaN, Num 1760], [Num 1760, Num 1760], [Num 1760, NaN]] ! (1 + nat 1) ! 0
     = nan_if_zero (np_mul (Num 2) (Num 880))"
proof -
  have o: "half_window_offset (window_length_of (1 / 5) (Num 1)) = Inr 1"
    using offsets_demo by simp
  from scalogram_estimates_placed[THEN conjunct1, THEN mp, OF AMa_scalogram_demo]
  obtain x gamma_responses fc E f_spectra edges AMsgram step Ss where
    x: "Ndarray [Num 1, Num 3] = Ndarray x" and
    fb: "auditory_filterbank demo x (rate_value (PyInt 1)) 70 6700 = Some (gamma_responses, fc)"
      and
    env: "hilbert_envelope demo gamma_responses = Some E" and
    ax: "define_modulation_axis demo (1 / 2) 200 2 = Some (f_spectra, edges)" and
    res: "[Arr2 [[NaN, Num 24], [Num 24, Num 24], [Num 24, NaN]], Arr1 [Num 70, Num 6700],
           Arr1 [Num 1, Num 2],
           Params (AMa_scalogram_params [Num (1 / 10), Num (1 / 5)] [Num 70, Num 6700]
                     [[Num 1, Num 3], [Num 2, Num 6]] [[Num 1, Num 3], [Num 2, Num 6]]
                     [Num 1, Num 2] [Num 70, Num 6700])]
          = [Arr2 AMsgram, Arr1 fc, Arr1 f_spectra, Params step]" and
    len: "length Ss = length fc" and
    sum: "\<forall>k<length AMsgram. \<forall>j<nat 2.
            AMsgram ! k ! j = running_sum (map (\<lambda>S. S ! k ! j) Ss)" and
    pl: "\<forall>ichan<length fc. \<forall>ifreq<nat 2. \<exists>windows.
            segment_into_windows demo (E ! ichan) (rate_value (PyInt 1))
              (window_length_of (1 / 5) (f_spectra ! ifreq)) (Num (1 / 10)) True
              = Some windows \<and>
            (\<forall>iwin<length windows. \<exists>r.
               half_window_offset (window_length_of (1 / 5) (f_spectra ! ifreq)) = Inr r \<and>
               (0 \<le> r \<longrightarrow>
                  (\<exists>Efft.
                     periodogram demo (windows ! iwin) (rate_value (PyInt 1))
                       [Num (1 / 100), f_spectra ! ifreq] = Some Efft \<and>
                     1 < length Efft \<and>
                     iwin + nat r < length AMsgram \<and>
                     Ss ! ichan ! (iwin + nat r) ! ifreq = np_mul (Num 2) (Efft ! 1))))"
    by blast
  from res have A: "AMsgram = [[NaN, Num 24], [Num 24, Num 24], [Num 24, NaN]]"
    and fc: "fc = [Num 70, Num 6700]" and fsp: "f_spectra = [Num 1, Num 2]"
    by simp_all
  from x fb env have E: "E = [[Num 1, Num 3], [Num 2, Num 6]]"
    by (auto simp: demo_def)
  have cell: "Ss ! ichan ! (1 + nat 1) ! 0 = np_mul (Num 2) (np_sum (E ! ichan))"
    if ic: "ichan < 2" for ichan
  proof -
    from pl[rule_format, of ichan 0] ic obtain windows where
      W: "segment_into_windows demo (E ! ichan) (rate_value (PyInt 1))
              (window_length_of (1 / 5) (f_spectra ! 0)) (Num (1 / 10)) True = Some windows" and
      P: "\<forall>iwin<length windows. \<exists>r.
               half_window_offset (window_length_of (1 / 5) (f_spectra ! 0)) = Inr r \<and>
               (0 \<le> r \<longrightarrow>
                  (\<exists>Efft.
                     periodogram demo (windows ! iwin) (rate_value (PyInt 1))
                       [Num (1 / 100), f_spectra ! 0] = Some Efft \<and>
                     1 < length Efft \<and>
                     iwin + nat r < length AMsgram \<and>
                     Ss ! ichan ! (iwin + nat r) ! 0 = np_mul (Num 2) (Efft ! 1)))"
      by (auto simp: fc)
    from W have ws: "windows = [E ! ichan, E ! ichan]" by (simp add: demo_def)
    from P[rule_format, of 1] obtain r where
      r: "half_window_offset (window_length_of (1 / 5) (f_spectra ! 0)) = Inr r" and
      Q: "0 \<le> r \<longrightarrow>
            (\<exists>Efft.
               periodogram demo (windows ! 1) (rate_value (PyInt 1))
                 [Num (1 / 100), f_spectra ! 0] = Some Efft \<and>
               1 < length Efft \<and>
               1 + nat r < length AMsgram \<and>
               Ss ! ichan ! (1 + nat r) ! 0 = np_mul (Num 2) (Efft ! 1))"
      by (auto simp: ws)
    from r o have r1: "r = 1" by (simp add: fsp)
    from Q obtain Efft where
      Ef: "periodogram demo (windows ! 1) (rate_value (PyInt 1))
             [Num (1 / 100), f_spectra ! 0] = Some Efft" and
      v: "Ss ! ichan ! (1 + nat 1) ! 0 = np_mul (Num 2) (Efft ! 1)"
      unfolding r1 by auto
    from Ef have "Efft ! 1 = np_sum (E ! ichan)" by (auto simp: demo_def ws)
    with v show ?thesis by simp
  qed
  have s0: "Ss ! 0 ! (1 + nat 1) ! 0 = Num 8" using cell[of 0] by (simp add: E np_sum_def)
  have s1: "Ss ! 1 ! (1 + nat 1) ! 0 = Num 16" using cell[of 1] by (simp add: E np_sum_def)
  have sm: "[[NaN, Num 24], [Num 24, Num 24], [Num 24, NaN]] ! (1 + nat 1) ! 0
              = running_sum (map (\<lambda>S. S ! (1 + nat 1) ! 0) Ss)"
    using sum[rule_format, of "1 + nat 1" 0] unfolding A by simp
  have first: "\<exists>Ss. length Ss = 2 \<and>
      half_window_offset (window_length_of (1 / 5) (Num 1)) = Inr 1 \<and>
      Ss ! 0 ! (1 + nat 1) ! 0 = Num 8 \<and>
      Ss ! 1 ! (1 + nat 1) ! 0 = Num 16 \<and>
      [[NaN, Num 24], [Num 24, Num 24], [Num 24, NaN]] ! (1 + nat 1) ! 0
        = running_sum (map (\<lambda>S. S ! (1 + nat 1) ! 0) Ss)"
    using len o s0 s1 sm by (intro exI[of _ Ss]) (simp add: fc)
  from scalogram_estimates_placed[THEN conjunct2, THEN mp, OF f0M_scalogram_demo]
  obtain f0 fs_yin f_spectra' edges' f0Msgram where
    tr: "f0M_track demo (Ndarray [Num 0, Num 0, Num 0, Num 0]) (PyInt 2) 2 60 550 (2 / 10)
           (8 / 10) 10 (8 / 100) = Inr f0" and
    fy: "py_truediv (rate_value (PyInt 2)) 2 = Inr fs_yin" and
    res': "[Arr2 [[NaN, Num 1760], [Num 1760, Num 1760], [Num 1760, NaN]], Arr1 [Num 1, Num 2]]
            = [Arr2 f0Msgram, Arr1 f_spectra']" and
    pl': "\<forall>ifreq<nat 2. \<exists>windows t_windows.
            segment_into_windows demo f0 fs_yin
              (window_length_of (1 / 5) (f_spectra' ! ifreq)) (Num (1 / 10)) False
              = Some windows \<and>
            segment_into_windows demo (arange_div (length f0) fs_yin) fs_yin
              (window_length_of (1 / 5) (f_spectra' ! ifreq)) (Num (1 / 10)) False
              = Some t_windows \<and>
            (\<forall>iwin<length windows. \<exists>r.
               half_window_offset (window_length_of (1 / 5) (f_spectra' ! ifreq)) = Inr r \<and>
               (0 \<le> r \<longrightarrow>
                  (\<exists>freqs f0Mfft.
                     lombscargle demo (t_windows ! iwin) (windows ! iwin)
                       [Num (1 / 100), f_spectra' ! ifreq] = Some (freqs, f0Mfft) \<and>
                     1 < length f0Mfft \<and>
                     iwin + nat r < length f0Msgram \<and>
                     f0Msgram ! (iwin + nat r) ! ifreq
                       = nan_if_zero (np_mul (Num 2) (f0Mfft ! 1)))))"
    by blast
  from res' have G: "f0Msgram = [[NaN, Num 1760], [Num 1760, Num 1760], [Num 1760, NaN]]"
    and fsp': "f_spectra' = [Num 1, Num 2]"
    by simp_all
  from tr have f0: "f0 = [Num 440, Num 440]"
    by (simp add: f0M_track_eval demo_def replicate2 Let_def)
  from pl'[rule_format, of 0] obtain windows t_windows where
    W: "segment_into_windows demo f0 fs_yin
          (window_length_of (1 / 5) (f_spectra' ! 0)) (Num (1 / 10)) False = Some windows" and
    P: "\<forall>iwin<length windows. \<exists>r.
               half_window_offset (window_length_of (1 / 5) (f_spectra' ! 0)) = Inr r \<and>
               (0 \<le> r \<longrightarrow>
                  (\<exists>freqs f0Mfft.
                     lombscargle demo (t_windows ! iwin) (windows ! iwin)
                       [Num (1 / 100), f_spectra' ! 0] = Some (freqs, f0Mfft) \<and>
                     1 < length f0Mfft \<and>
                     iwin + nat r < length f0Msgram \<and>
                     f0Msgram ! (iwin + nat r) ! 0
                       = nan_if_zero (np_mul (Num 2) (f0Mfft ! 1))))"
    by auto
  from W have ws: "windows = [f0, f0]" by (simp add: demo_def)
  from P[rule_format, of 1] obtain r where
    r: "half_window_offset (window_length_of (1 / 5) (f_spectra' ! 0)) = Inr r" and
    Q: "0 \<le> r \<longrightarrow>
          (\<exists>freqs f0Mfft.
             lombscargle demo (t_windows ! 1) (windows ! 1)
               [Num (1 / 100), f_spectra' ! 0] = Some (freqs, f0Mfft) \<and>
             1 < length f0Mfft \<and>
             1 + nat r < length f0Msgram \<and>
             f0Msgram ! (1 + nat r) ! 0 = nan_if_zero (np_mul (Num 2) (f0Mfft ! 1)))"
    by (auto simp: ws)
  from r o have r1: "r = 1" by (simp add: fsp')
  from Q obtain freqs f0Mfft where
    L: "lombscargle demo (t_windows ! 1) (windows ! 1) [Num (1 / 100), f_spectra' ! 0]
          = Some (freqs, f0Mfft)" and
    v: "f0Msgram ! (1 + nat 1) ! 0 = nan_if_zero (np_mul (Num 2) (f0Mfft ! 1))"
    unfolding r1 by auto
  from L have "f0Mfft ! 1 = Num 880" by (auto simp: demo_def ws f0 np_sum_def)
  with v have second: "[[NaN, Num 1760], [Num 1760, Num 1760], [Num 1760, NaN]] ! (1 + nat 1) ! 0
     = nan_if_zero (np_mul (Num 2) (Num 880))"
    unfolding G by simp
  from first second show ?thesis by (rule conjI)
qed

section \<open>What the entry points return\<close>

lemma AMa_spectrum_demo:
  "AMa_spectrum demo (Ndarray [Num 1, Num 3]) (PyInt 1) (1 / 2) 200 2 70 6700 =
   Inr [Arr2 [[Num 8, Num 16], [Num 8, Num 16]], Arr1 [Num 70, Num 6700], Arr1 [Num 1, Num 2],
     Params (AMa_spec_params [Num 1, Num 2] [Num 70, Num 6700] [[Num 1, Num 3], [Num 2, Num 6]]
       [[Num 1, Num 3], [Num 2, Num 6]] [Num 1, Num 2] [Num (1/2), Num (3/2), Num (5/2)])]"
  by (simp add: AMa_spectrum_def validate_def rate_le_zero_def demo_def arange_div_def
      np_zeros_def get_item_def set_column_def broadcast1_def np_sum_def upt2 Let_def)

lemma f0M_spectrum_demo:
  "f0M_spectrum demo (Ndarray [Num 0, Num 1, Num 0, Num 0]) (PyInt 2) (1 / 2) 200 2 2
       60 550 (2 / 10) (8 / 10) 10 (8 / 100) =
     Inr [Arr1 [Num 880, Num 880], Arr1 [Num 1, Num 2],
          Params (f0M_spec_params [Num 1, Num 2] [Num 440, NaN] [Num 1, Num 2]
                    [Num (1 / 2), Num (3 / 2), Num (5 / 2)])]"
  by (simp add: f0M_spectrum_eval)

text \<open>
  Claim C4, as stated, fails: \<open>f0M_scalogram\<close> returns the scalogram and the frequency
  axis, and no diagnostics bundle.
\<close>

theorem f0M_scalogram_no_bundle_counterexample:
  "f0M_scalogram demo (Ndarray [Num 0, Num 0, Num 0, Num 0]) (PyInt 2) (1 / 5) (1 / 2) 200 2 2
     60 550 (2 / 10) (8 / 10) 10 (8 / 100) =
     Inr [Arr2 [[NaN, Num 1760], [Num 1760, Num 1760], [Num 1760, NaN]], Arr1 [Num 1, Num 2]] \<and>
   \<not> list_ex is_params
       [Arr2 [[NaN, Num 1760], [Num 1760, Num 1760], [Num 1760, NaN]], Arr1 [Num 1, Num 2]]"
  using f0M_scalogram_demo by simp

text \<open>
  Claim C4, amended. \<open>AMa_spectrum\<close>, \<open>AMa_scalogram\<close>, \<open>AMi_spectrum\<close> and
  \<open>f0M_spectrum\<close> return their result, the frequency axes and a diagnostics bundle, each
  its own namedtuple; \<open>f0M_scalogram\<close> returns its scalogram and the frequency axis
  only.
\<close>

theorem entry_points_results:
  "(AMa_spectrum c sig fs mfmin mfmax modbank_Nmod fmin fmax = Inr res \<longrightarrow>
      (\<exists>AMspec fc f_spectra t f_bw gamma_responses E mfb.
         res = [Arr2 AMspec, Arr1 fc, Arr1 f_spectra,
                Params (AMa_spec_params t f_bw gamma_responses E f_spectra mfb)])) \<and>
   (AMa_scalogram c sig fs window_NT mfmin mfmax modbank_Nmod fmin fmax = Inr res \<longrightarrow>
      (\<exists>AMsgram fc f_spectra t f_bw gamma_responses E.
         res = [Arr2 AMsgram, Arr1 fc, Arr1 f_spectra,
                Params (AMa_scalogram_params t f_bw gamma_responses E f_spectra fc)])) \<and>
   (AMi_spectrum c sig fs mfmin mfmax modbank_Nmod modbank_Qfactor fmin fmax = Inr res \<longrightarrow>
      (\<exists>AMIspec fc mf t f_bw gamma_responses E AMrms DC.
         res = [Arr2 AMIspec, Arr1 fc, Arr1 mf,
                Params (AMi_spec_params t f_bw gamma_responses E mf AMrms DC)])) \<and>
   (f0M_spectrum c sig fs mfmin mfmax modbank_Nmod undersample fmin fmax yin_thresh ap0_thresh
        max_jump min_duration = Inr res \<longrightarrow>
      (\<exists>f0M_spec f_spectra t_f0 f0 mfb.
         res = [Arr1 f0M_spec, Arr1 f_spectra,
                Params (f0M_spec_params t_f0 f0 f_spectra mfb)])) \<and>
   (f0M_scalogram c sig fs window_NT mfmin mfmax modbank_Nmod undersample fmin fmax yin_thresh
        ap0_thresh max_jump min_duration = Inr res \<longrightarrow>
      (\<exists>f0Msgram f_spectra. res = [Arr2 f0Msgram, Arr1 f_spectra]) \<and>
      \<not> list_ex is_params res)"
proof (intro conjI impI)
  assume "AMa_spectrum c sig fs mfmin mfmax modbank_Nmod fmin fmax = Inr res"
  then show "\<exists>AMspec fc f_spectra t f_bw gamma_responses E mfb.
         res = [Arr2 AMspec, Arr1 fc, Arr1 f_spectra,
                Params (AMa_spec_params t f_bw gamma_responses E f_spectra mfb)]"
    by (auto simp: AMa_spectrum_def Let_def split: sum.splits option.splits prod.splits)
next
  assume "AMa_scalogram c sig fs window_NT mfmin mfmax modbank_Nmod fmin fmax = Inr res"
  from AMa_scalogram_Inr[OF this]
  show "\<exists>AMsgram fc f_spectra t f_bw gamma_responses E.
         res = [Arr2 AMsgram, Arr1 fc, Arr1 f_spectra,
                Params (AMa_scalogram_params t f_bw gamma_responses E f_spectra fc)]"
    by blast
next
  assume "AMi_spectrum c sig fs mfmin mfmax modbank_Nmod modbank_Qfactor fmin fmax = Inr res"
  then show "\<exists>AMIspec fc mf t f_bw gamma_responses E AMrms DC.
         res = [Arr2 AMIspec, Arr1 fc, Arr1 mf,
                Params (AMi_spec_params t f_bw gamma_responses E mf AMrms DC)]"
    by (auto simp: AMi_spectrum_def Let_def split: sum.splits option.splits prod.splits)
next
  assume "f0M_spectrum c sig fs mfmin mfmax modbank_Nmod undersample fmin fmax yin_thresh
            ap0_thresh max_jump min_duration = Inr res"
  then show "\<exists>f0M_spec f_spectra t_f0 f0 mfb.
         res = [Arr1 f0M_spec, Arr1 f_spectra,
                Params (f0M_spec_params t_f0 f0 f_spectra mfb)]"
    by (auto simp: f0M_spectrum_def Let_def split: sum.splits option.splits prod.splits)
next
  assume run: "f0M_scalogram c sig fs window_NT mfmin mfmax modbank_Nmod undersample fmin fmax
            yin_thresh ap0_thresh max_jump min_duration = Inr res"
  then show "\<exists>f0Msgram f_spectra. res = [Arr2 f0Msgram, Arr1 f_spectra]"
    by (auto simp: f0M_scalogram_def Let_def split: sum.splits option.splits prod.splits)
  then show "\<not> list_ex is_params res" by auto
qed

theorem entry_points_results_witness:
  "(\<exists>AMspec fc f_spectra t f_bw gamma_responses E mfb.
      AMa_spectrum demo (Ndarray [Num 1, Num 3]) (PyInt 1) (1 / 2) 200 2 70 6700 =
        Inr [Arr2 AMspec, Arr1 fc, Arr1 f_spectra,
             Params (AMa_spec_params t f_bw gamma_responses E f_spectra mfb)]) \<and>
   (\<exists>AMsgram fc f_spectra t f_bw gamma_responses E.
      AMa_scalogram demo (Ndarray [Num 1, Num 3]) (PyInt 1) (1 / 5) (1 / 2) 200 2 70 6700 =
        Inr [Arr2 AMsgram, Arr1 fc, Arr1 f_spectra,
             Params (AMa_scalogram_params t f_bw gamma_responses E f_spectra fc)]) \<and>
   (\<exists>AMIspec fc mf t f_bw gamma_responses E AMrms DC.
      AMi_spectrum demo (Ndarray [Num 1, Num 1]) (PyInt 1) (1 / 2) 200 3 1 70 6700 =
        Inr [Arr2 AMIspec, Arr1 fc, Arr1 mf,
             Params (AMi_spec_params t f_bw gamma_responses E mf AMrms DC)]) \<and>
   (\<exists>f0M_spec f_spectra t_f0 f0 mfb.
      f0M_spectrum demo (Ndarray [Num 0, Num 1, Num 0, Num 0]) (PyInt 2) (1 / 2) 200 2 2
          60 550 (2 / 10) (8 / 10) 10 (8 / 100) =
        Inr [Arr1 f0M_spec, Arr1 f_spectra,
             Params (f0M_spec_params t_f0 f0 f_spectra mfb)]) \<and>
   (\<exists>f0Msgram f_spectra.
      f0M_scalogram demo (Ndarray [Num 0, Num 0, Num 0, Num 0]) (PyInt 2) (1 / 5) (1 / 2) 200
          2 2 60 550 (2 / 10) (8 / 10) 10 (8 / 100) =
        Inr [Arr2 f0Msgram, Arr1 f_spectra])"
proof -
  note T = entry_points_results[where c = demo and mfmin = "1 / 2" and mfmax = 200]
  note a = T[where sig = "Ndarray [Num 1, Num 3]" and fs = "PyInt 1" and modbank_Nmod = 2
      and fmin = 70 and fmax = 6700, THEN conjunct1, rule_format, OF AMa_spectrum_demo]
  note b = T[where sig = "Ndarray [Num 1, Num 3]" and fs = "PyInt 1" and modbank_Nmod = 2
      and fmin = 70 and fmax = 6700 and window_NT = "1 / 5",
      THEN conjunct2, THEN conjunct1, rule_format, OF AMa_scalogram_demo]
  note c = T[where sig = "Ndarray [Num 1, Num 1]" and fs = "PyInt 1" and modbank_Nmod = 3
      and fmin = 70 and fmax = 6700 and modbank_Qfactor = 1,
      THEN conjunct2, THEN conjunct2, THEN conjunct1, rule_format, OF AMi_demo_run]
  note d = T[where sig = "Ndarray [Num 0, Num 1, Num 0, Num 0]" and fs = "PyInt 2"
      and modbank_Nmod = 2 and undersample = 2 and fmin = 60 and fmax = 550
      and yin_thresh = "2 / 10" and ap0_thresh = "8 / 10" and max_jump = 10
      and min_duration = "8 / 100",
      THEN conjunct2, THEN conjunct2, THEN conjunct2, THEN conjunct1, rule_format,
      OF f0M_spectrum_demo]
  note e = T[where sig = "Ndarray [Num 0, Num 0, Num 0, Num 0]" and fs = "PyInt 2"
      and modbank_Nmod = 2 and undersample = 2 and fmin = 60 and fmax = 550
      and yin_thresh = "2 / 10" and ap0_thresh = "8 / 10" and max_jump = 10
      and min_duration = "8 / 100" and window_NT = "1 / 5",
      THEN conjunct2, THEN conjunct2, THEN conjunct2, THEN conjunct2, rule_format,
      OF f0M_scalogram_demo]
  show ?thesis
    unfolding AMa_spectrum_demo AMa_scalogram_demo AMi_demo_run f0M_spectrum_demo
      f0M_scalogram_demo
    using a b c d e by blast
qed


end
